theory Spec2Isabelle
  imports Complex_Main
begin

section \<open>Python and numpy values\<close>

text \<open>
  The module \<^verbatim>\<open>sfepy/terms/terms_membrane.py\<close> works on numpy arrays of floating point
  numbers. Arrays are nested lists, one list level per axis, of real numbers. The
  arithmetic of \<^verbatim>\<open>eval_membrane_mooney_rivlin\<close> is modelled twice: exactly, on the reals,
  and with the binary64 rounding of every operation. Exceptions are values of \<open>exn\<close>;
  \<open>CollaboratorError\<close> stands for the exception, whatever its class, that a function
  from outside the module raises.
\<close>

datatype exn =
    IndexError
  | ValueError
  | KeyError
  | AttributeError
  | UnboundLocalError
  | AssertionFailed
  | CollaboratorError
  | StopIteration

type_synonym arr1 = "real list"
type_synonym arr2 = "real list list"
type_synonym arr3 = "real list list list"
type_synonym arr4 = "real list list list list"

text \<open>
  \<^verbatim>\<open>a[..., i, j]\<close> on a four-axis array: the entry \<open>(i, j)\<close> of every trailing block.
  numpy raises IndexError when \<open>i\<close> or \<open>j\<close> is out of bounds for its axis.
\<close>

definition idx_last2 :: "arr4 \<Rightarrow> nat \<Rightarrow> nat \<Rightarrow> exn + arr2" where
  "idx_last2 a i j =
     (if list_all (list_all (\<lambda>m. i < length m \<and> j < length (m ! i))) a
      then Inr (map (map (\<lambda>m. m ! i ! j)) a)
      else Inl IndexError)"

text \<open>
  Broadcasting of the two leading axes (element, quadrature point): an axis of length one
  is repeated along the axis of the result. \<open>bsel xs i\<close> reads position \<open>i\<close> of the
  broadcast axis; \<open>broadcastable n q a\<close> says that \<open>a\<close> can be broadcast to the
  shape \<open>(n, q)\<close>; numpy raises ValueError otherwise.
\<close>

definition bsel :: "'a list \<Rightarrow> nat \<Rightarrow> 'a" where
  "bsel xs i = (if length xs = 1 then xs ! 0 else xs ! i)"

definition at2 :: "arr2 \<Rightarrow> nat \<Rightarrow> nat \<Rightarrow> real" where
  "at2 a i j = bsel (bsel a i) j"

definition broadcastable :: "nat \<Rightarrow> nat \<Rightarrow> 'a list list \<Rightarrow> bool" where
  "broadcastable n q a =
     ((length a = n \<or> length a = 1) \<and> list_all (\<lambda>r. length r = q \<or> length r = 1) a)"

text \<open>
  \<^verbatim>\<open>nm.empty((r, c))\<close> allocates without initialising: the contents are whatever the
  memory held, given here by the function \<open>u\<close>. \<open>set2\<close> is the assignment
  \<^verbatim>\<open>out[i, j] = v\<close> of one block.
\<close>

definition empty2 :: "(nat \<Rightarrow> nat \<Rightarrow> real) \<Rightarrow> nat \<Rightarrow> nat \<Rightarrow> real list list" where
  "empty2 u r c = map (\<lambda>i. map (\<lambda>j. u i j) [0..<c]) [0..<r]"

definition set2 :: "real list list \<Rightarrow> nat \<Rightarrow> nat \<Rightarrow> real \<Rightarrow> real list list" where
  "set2 m i j v = m[i := (m ! i)[j := v]]"

text \<open>
  Modelled from the spec: \<^verbatim>\<open>dim2sym\<close> of \<^verbatim>\<open>sfepy.mechanics.tensors\<close> is not part of the
  module; it gives the number of independent components of a symmetric tensor, 3 in two
  dimensions and 6 in three.
\<close>

definition dim2sym :: "nat \<Rightarrow> nat" where
  "dim2sym d = (d + 1) * d div 2"

section \<open>The Mooney-Rivlin membrane law\<close>

text \<open>
  The body of \<^verbatim>\<open>eval_membrane_mooney_rivlin\<close> at one element and quadrature point,
  after \<open>a12\<close>, \<open>a22\<close>, \<open>c11\<close>, \<open>c12\<close>, \<open>c22\<close> have been read: the pressure, then the
  branch on \<open>mode\<close>, with the assignments to \<open>out\<close> in the order of the source.
\<close>

definition mooney_rivlin_qp ::
  "(nat \<Rightarrow> nat \<Rightarrow> real) \<Rightarrow> nat \<Rightarrow> real \<Rightarrow> real \<Rightarrow> real \<Rightarrow> real \<Rightarrow> real \<Rightarrow> real \<Rightarrow> int
     \<Rightarrow> real list list" where
  "mooney_rivlin_qp u n_sym a12 a22 c11 c12 c22 c33 mode =
     (let pressure = c33 * (a12 + a22 * (c11 + c22)) in
      if mode = 0 then
        (let out = empty2 u n_sym 1;
             out = set2 out 0 0 (- pressure * c22 * c33 + a12 + a22 * (c22 + c33));
             out = set2 out 1 0 (- pressure * c11 * c33 + a12 + a22 * (c11 + c33));
             out = set2 out 2 0 (pressure * c12 * c33 - a22 * c12)
         in out)
      else
        (let out = empty2 u n_sym n_sym;
             dp11 = a22 * c33 - pressure * c22 * c33;
             dp22 = a22 * c33 - pressure * c11 * c33;
             dp12 = 2 * pressure * c12 * c33;
             out = set2 out 0 0 (- 2 * ((a22 - pressure * c22) * c22 * c33\<^sup>2
                                         + c33 * c22 * dp11));
             out = set2 out 1 1 (- 2 * ((a22 - pressure * c11) * c11 * c33\<^sup>2
                                         + c33 * c11 * dp22));
             out = set2 out 2 2 (- a22 + pressure * (c33 + 2 * c12\<^sup>2 * c33\<^sup>2)
                                  + c12 * c33 * dp12);
             out = set2 out 1 0 (2 * ((a22 - pressure * c33
                                        - (a22 - pressure * c11) * c22 * c33\<^sup>2)
                                       - c33 * c11 * dp11));
             out = set2 out 2 0 (2 * (- pressure * c12 * c22 * c33\<^sup>2
                                       + c12 * c33 * dp11));
             out = set2 out 2 1 (2 * (- pressure * c12 * c11 * c33\<^sup>2
                                       + c12 * c33 * dp22));
             out = set2 out 0 1 (out ! 1 ! 0);
             out = set2 out 0 2 (out ! 2 ! 0);
             out = set2 out 1 2 (out ! 2 ! 1)
         in out))"

text \<open>
  \<^verbatim>\<open>eval_membrane_mooney_rivlin(a1, a2, mtx_c, c33, mode)\<close>. The first coefficients and
  the entries of \<open>mtx_c\<close> are read in the order of the source (an IndexError of an earlier
  read wins); \<open>sh\<close> is the shape of \<open>mtx_c\<close>, and the output has one block for each of
  its \<open>sh[0] * sh[1]\<close> points. The arithmetic is elementwise over the leading axes, with
  \<open>a1\<close>, \<open>a2\<close> and \<open>c33\<close> broadcast to the shape of \<open>mtx_c\<close>. The argument \<open>uninit\<close> is
  the content of the memory \<^verbatim>\<open>nm.empty\<close> returns. Since the read of \<open>mtx_c[..., 1, 1]\<close>
  succeeded, \<open>sh[2] \<ge> 2\<close> and \<open>sym \<ge> 3\<close>, so the assignments to rows 0 to 2 are in range.
\<close>

definition shape1 :: "'a list list \<Rightarrow> nat" where
  "shape1 a = (case a of [] \<Rightarrow> 0 | r # _ \<Rightarrow> length r)"

definition bind_exn :: "exn + 'a \<Rightarrow> ('a \<Rightarrow> exn + 'b) \<Rightarrow> exn + 'b" where
  "bind_exn r f = (case r of Inl e \<Rightarrow> Inl e | Inr x \<Rightarrow> f x)"

definition eval_membrane_mooney_rivlin ::
  "(nat \<Rightarrow> nat \<Rightarrow> nat \<Rightarrow> nat \<Rightarrow> real) \<Rightarrow> arr4 \<Rightarrow> arr4 \<Rightarrow> arr4 \<Rightarrow> arr2 \<Rightarrow> int \<Rightarrow> exn + arr4" where
  "eval_membrane_mooney_rivlin uninit a1 a2 mtx_c c33 mode =
     bind_exn (idx_last2 a1 0 0) (\<lambda>a1_00.
     bind_exn (idx_last2 a2 0 0) (\<lambda>a2_00.
     bind_exn (idx_last2 mtx_c 0 0) (\<lambda>c11.
     bind_exn (idx_last2 mtx_c 0 1) (\<lambda>c12.
     bind_exn (idx_last2 mtx_c 1 1) (\<lambda>c22.
       let sh0 = length mtx_c; sh1 = shape1 mtx_c in
       if \<not> (broadcastable sh0 sh1 a1_00 \<and> broadcastable sh0 sh1 a2_00
              \<and> broadcastable sh0 sh1 c33)
       then Inl ValueError
       else Inr (map (\<lambda>iel. map (\<lambda>iqp.
                   mooney_rivlin_qp (uninit iel iqp) (dim2sym (length (mtx_c ! iel ! iqp)))
                     (2 * at2 a1_00 iel iqp) (2 * at2 a2_00 iel iqp)
                     (c11 ! iel ! iqp) (c12 ! iel ! iqp) (c22 ! iel ! iqp)
                     (at2 c33 iel iqp) mode)
                   [0..<sh1]) [0..<sh0]))))))"

text \<open>
  A well-formed input batch: \<open>mtx_c\<close> is a rectangular array of blocks with at least
  two rows and columns, every block of \<open>a1\<close> and \<open>a2\<close> has a first entry, and \<open>a1\<close>,
  \<open>a2\<close>, \<open>c33\<close> can be broadcast to the leading shape of \<open>mtx_c\<close>. (A nested list
  with no element records no trailing shape, so the shape of \<open>mtx_c\<close> is read as
  \<open>(length mtx_c, shape1 mtx_c)\<close>.) \<open>first_coef a iel iqp\<close> is the entry
  \<^verbatim>\<open>a[iel, iqp, 0, 0]\<close> of the broadcast array.
\<close>

definition blocks_ge :: "nat \<Rightarrow> nat \<Rightarrow> arr4 \<Rightarrow> bool" where
  "blocks_ge r c a =
     list_all (list_all (\<lambda>m. r \<le> length m \<and> list_all (\<lambda>row. c \<le> length row) m)) a"

definition wf_batch :: "arr4 \<Rightarrow> arr4 \<Rightarrow> arr4 \<Rightarrow> arr2 \<Rightarrow> bool" where
  "wf_batch a1 a2 mtx_c c33 =
     (list_all (\<lambda>r. length r = shape1 mtx_c) mtx_c \<and> blocks_ge 2 2 mtx_c
      \<and> blocks_ge 1 1 a1 \<and> blocks_ge 1 1 a2
      \<and> broadcastable (length mtx_c) (shape1 mtx_c) a1
      \<and> broadcastable (length mtx_c) (shape1 mtx_c) a2
      \<and> broadcastable (length mtx_c) (shape1 mtx_c) c33)"

definition first_coef :: "arr4 \<Rightarrow> nat \<Rightarrow> nat \<Rightarrow> real" where
  "first_coef a iel iqp = bsel (bsel a iel) iqp ! 0 ! 0"

text \<open>
  The function at a batch of one element and one quadrature point, with scalar
  coefficients and the symmetric in-plane block \<open>[[c11, c12], [c12, c22]]\<close>:
  \<open>stress_at\<close> is component \<open>i\<close> of the mode-0 result and \<open>tangent_at\<close> is entry
  \<open>(i, j)\<close> of the mode-1 result.
\<close>

definition stress_at :: "real \<Rightarrow> real \<Rightarrow> real \<Rightarrow> real \<Rightarrow> real \<Rightarrow> real \<Rightarrow> nat \<Rightarrow> real" where
  "stress_at a1 a2 c11 c22 c12 c33 i =
     (case eval_membrane_mooney_rivlin (\<lambda>_ _ _ _. 0) [[[[a1]]]] [[[[a2]]]]
             [[[[c11, c12], [c12, c22]]]] [[c33]] 0 of
        Inl e \<Rightarrow> 0
      | Inr S \<Rightarrow> S ! 0 ! 0 ! i ! 0)"

definition tangent_at ::
  "real \<Rightarrow> real \<Rightarrow> real \<Rightarrow> real \<Rightarrow> real \<Rightarrow> real \<Rightarrow> nat \<Rightarrow> nat \<Rightarrow> real" where
  "tangent_at a1 a2 c11 c22 c12 c33 i j =
     (case eval_membrane_mooney_rivlin (\<lambda>_ _ _ _. 0) [[[[a1]]]] [[[[a2]]]]
             [[[[c11, c12], [c12, c22]]]] [[c33]] 1 of
        Inl e \<Rightarrow> 0
      | Inr D \<Rightarrow> D ! 0 ! 0 ! i ! j)"

section \<open>Floating point arithmetic\<close>

text \<open>
  numpy computes on arrays of IEEE 754 binary64 numbers: the result of an arithmetic
  operation is the exact result rounded to the nearest number with a significand of 53
  bits, a tie going to the even significand. \<open>rne\<close> rounds a real number to the nearest
  integer in this way. \<open>binary64 x\<close> is \<open>x\<close> rounded to a multiple of \<open>2 ^ (e - 52)\<close>,
  where \<open>e\<close> is the exponent of \<open>x\<close>, and \<open>- 1022\<close> when the exponent of \<open>x\<close> is
  smaller (gradual underflow: the numbers below \<open>2 ^ - 1022\<close> are the multiples of
  \<open>2 ^ - 1074\<close>). A result of magnitude \<open>2 ^ 1024\<close> or more, for which numpy gives
  \<^verbatim>\<open>inf\<close>, is outside the model, and so is the sign of a zero. The negation of a number
  is exact.
\<close>

definition rne :: "real \<Rightarrow> int" where
  "rne x =
     (let f = \<lfloor>x\<rfloor>; d = x - of_int f
      in if d < 1 / 2 then f else if 1 / 2 < d then f + 1 else if even f then f else f + 1)"

definition binary64 :: "real \<Rightarrow> real" where
  "binary64 x =
     (if x = 0 then 0
      else (let e = max \<lfloor>log 2 \<bar>x\<bar>\<rfloor> (- 1022)
            in of_int (rne (x * 2 powi (52 - e))) * 2 powi (e - 52)))"

text \<open>
  The arithmetic operations with the rounding \<open>fl\<close> of their results; \<^verbatim>\<open>x**2\<close> is the
  rounded square.
\<close>

definition add_fl :: "(real \<Rightarrow> real) \<Rightarrow> real \<Rightarrow> real \<Rightarrow> real" where
  "add_fl fl x y = fl (x + y)"

definition sub_fl :: "(real \<Rightarrow> real) \<Rightarrow> real \<Rightarrow> real \<Rightarrow> real" where
  "sub_fl fl x y = fl (x - y)"

definition mul_fl :: "(real \<Rightarrow> real) \<Rightarrow> real \<Rightarrow> real \<Rightarrow> real" where
  "mul_fl fl x y = fl (x * y)"

definition sq_fl :: "(real \<Rightarrow> real) \<Rightarrow> real \<Rightarrow> real" where
  "sq_fl fl x = fl (x\<^sup>2)"

text \<open>
  The body of \<^verbatim>\<open>eval_membrane_mooney_rivlin\<close> at one element and quadrature point with
  every operation rounded by \<open>fl\<close>, in the order in which Python evaluates the
  expressions: a product or a sum of several terms from the left, the unary minus
  before a product, the power before both.
\<close>

definition mooney_rivlin_qp_fl ::
  "(real \<Rightarrow> real) \<Rightarrow> (nat \<Rightarrow> nat \<Rightarrow> real) \<Rightarrow> nat
     \<Rightarrow> real \<Rightarrow> real \<Rightarrow> real \<Rightarrow> real \<Rightarrow> real \<Rightarrow> real \<Rightarrow> int \<Rightarrow> real list list" where
  "mooney_rivlin_qp_fl fl u n_sym a12 a22 c11 c12 c22 c33 mode =
     (let pressure = mul_fl fl c33 (add_fl fl a12 (mul_fl fl a22 (add_fl fl c11 c22))) in
      if mode = 0 then
        (let out = empty2 u n_sym 1;
             out = set2 out 0 0
                     (add_fl fl (add_fl fl (mul_fl fl (mul_fl fl (- pressure) c22) c33) a12)
                        (mul_fl fl a22 (add_fl fl c22 c33)));
             out = set2 out 1 0
                     (add_fl fl (add_fl fl (mul_fl fl (mul_fl fl (- pressure) c11) c33) a12)
                        (mul_fl fl a22 (add_fl fl c11 c33)));
             out = set2 out 2 0
                     (sub_fl fl (mul_fl fl (mul_fl fl pressure c12) c33) (mul_fl fl a22 c12))
         in out)
      else
        (let out = empty2 u n_sym n_sym;
             dp11 = sub_fl fl (mul_fl fl a22 c33) (mul_fl fl (mul_fl fl pressure c22) c33);
             dp22 = sub_fl fl (mul_fl fl a22 c33) (mul_fl fl (mul_fl fl pressure c11) c33);
             dp12 = mul_fl fl (mul_fl fl (mul_fl fl 2 pressure) c12) c33;
             out = set2 out 0 0
                     (mul_fl fl (- 2)
                        (add_fl fl
                           (mul_fl fl (mul_fl fl (sub_fl fl a22 (mul_fl fl pressure c22)) c22)
                              (sq_fl fl c33))
                           (mul_fl fl (mul_fl fl c33 c22) dp11)));
             out = set2 out 1 1
                     (mul_fl fl (- 2)
                        (add_fl fl
                           (mul_fl fl (mul_fl fl (sub_fl fl a22 (mul_fl fl pressure c11)) c11)
                              (sq_fl fl c33))
                           (mul_fl fl (mul_fl fl c33 c11) dp22)));
             out = set2 out 2 2
                     (add_fl fl
                        (add_fl fl (- a22)
                           (mul_fl fl pressure
                              (add_fl fl c33
                                 (mul_fl fl (mul_fl fl 2 (sq_fl fl c12)) (sq_fl fl c33)))))
                        (mul_fl fl (mul_fl fl c12 c33) dp12));
             out = set2 out 1 0
                     (mul_fl fl 2
                        (sub_fl fl
                           (sub_fl fl (sub_fl fl a22 (mul_fl fl pressure c33))
                              (mul_fl fl
                                 (mul_fl fl (sub_fl fl a22 (mul_fl fl pressure c11)) c22)
                                 (sq_fl fl c33)))
                           (mul_fl fl (mul_fl fl c33 c11) dp11)));
             out = set2 out 2 0
                     (mul_fl fl 2
                        (add_fl fl
                           (mul_fl fl (mul_fl fl (mul_fl fl (- pressure) c12) c22)
                              (sq_fl fl c33))
                           (mul_fl fl (mul_fl fl c12 c33) dp11)));
             out = set2 out 2 1
                     (mul_fl fl 2
                        (add_fl fl
                           (mul_fl fl (mul_fl fl (mul_fl fl (- pressure) c12) c11)
                              (sq_fl fl c33))
                           (mul_fl fl (mul_fl fl c12 c33) dp22)));
             out = set2 out 0 1 (out ! 1 ! 0);
             out = set2 out 0 2 (out ! 2 ! 0);
             out = set2 out 1 2 (out ! 2 ! 1)
         in out))"

text \<open>
  \<^verbatim>\<open>eval_membrane_mooney_rivlin\<close> with every operation rounded by \<open>fl\<close>, the products
  \<^verbatim>\<open>2.0 * a1[..., 0, 0]\<close> and \<^verbatim>\<open>2.0 * a2[..., 0, 0]\<close> included, and the function in
  binary64 arithmetic. The entries of the arguments are taken as they are.
\<close>

definition eval_membrane_mooney_rivlin_fl ::
  "(real \<Rightarrow> real) \<Rightarrow> (nat \<Rightarrow> nat \<Rightarrow> nat \<Rightarrow> nat \<Rightarrow> real)
     \<Rightarrow> arr4 \<Rightarrow> arr4 \<Rightarrow> arr4 \<Rightarrow> arr2 \<Rightarrow> int \<Rightarrow> exn + arr4" where
  "eval_membrane_mooney_rivlin_fl fl uninit a1 a2 mtx_c c33 mode =
     bind_exn (idx_last2 a1 0 0) (\<lambda>a1_00.
     bind_exn (idx_last2 a2 0 0) (\<lambda>a2_00.
     bind_exn (idx_last2 mtx_c 0 0) (\<lambda>c11.
     bind_exn (idx_last2 mtx_c 0 1) (\<lambda>c12.
     bind_exn (idx_last2 mtx_c 1 1) (\<lambda>c22.
       let sh0 = length mtx_c; sh1 = shape1 mtx_c in
       if \<not> (broadcastable sh0 sh1 a1_00 \<and> broadcastable sh0 sh1 a2_00
              \<and> broadcastable sh0 sh1 c33)
       then Inl ValueError
       else Inr (map (\<lambda>iel. map (\<lambda>iqp.
                   mooney_rivlin_qp_fl fl (uninit iel iqp)
                     (dim2sym (length (mtx_c ! iel ! iqp)))
                     (mul_fl fl 2 (at2 a1_00 iel iqp)) (mul_fl fl 2 (at2 a2_00 iel iqp))
                     (c11 ! iel ! iqp) (c12 ! iel ! iqp) (c22 ! iel ! iqp)
                     (at2 c33 iel iqp) mode)
                   [0..<sh1]) [0..<sh0]))))))"

definition eval_membrane_mooney_rivlin_f64 ::
  "(nat \<Rightarrow> nat \<Rightarrow> nat \<Rightarrow> nat \<Rightarrow> real) \<Rightarrow> arr4 \<Rightarrow> arr4 \<Rightarrow> arr4 \<Rightarrow> arr2 \<Rightarrow> int \<Rightarrow> exn + arr4" where
  "eval_membrane_mooney_rivlin_f64 = eval_membrane_mooney_rivlin_fl binary64"

text \<open>
  At the undeformed state, \<open>C11 = C22 = 1\<close>, \<open>C12 = 0\<close> and \<open>c33 = 1\<close>, the source
  computes \<open>pressure = a12 + a22 * 2\<close> and \<open>S11 = S22 = - pressure + a12 + a22 * 2\<close>,
  each sum and product rounded: \<open>residue a12 a22\<close> is this value in binary64
  arithmetic.
\<close>

definition residue :: "real \<Rightarrow> real \<Rightarrow> real" where
  "residue a12 a22 =
     binary64 (binary64 (a12 - binary64 (a12 + binary64 (a22 * 2))) + binary64 (a22 * 2))"


section \<open>More numpy operations\<close>

text \<open>
  Exceptions thread through \<open>bind_exn\<close>; \<open>sequence_exn\<close> runs a list of results from
  left to right and \<open>fold_exn\<close> is a \<^verbatim>\<open>for\<close> loop whose body may raise.
\<close>

primrec sequence_exn :: "(exn + 'a) list \<Rightarrow> exn + 'a list" where
  "sequence_exn [] = Inr []"
| "sequence_exn (r # rs) =
     bind_exn r (\<lambda>x. bind_exn (sequence_exn rs) (\<lambda>xs. Inr (x # xs)))"

primrec fold_exn :: "('a \<Rightarrow> 'b \<Rightarrow> exn + 'b) \<Rightarrow> 'a list \<Rightarrow> 'b \<Rightarrow> exn + 'b" where
  "fold_exn f [] acc = Inr acc"
| "fold_exn f (x # xs) acc = bind_exn (f x acc) (fold_exn f xs)"

text \<open>
  \<^verbatim>\<open>a[idx]\<close> with an array of indices on the leading axis; IndexError when an index is
  out of bounds. \<open>gather\<close> is the same with a two-axis index array, as in
  \<^verbatim>\<open>vec_u[sd.leconn]\<close>. Indices are naturals: connectivities and chunks hold no
  negative entries.
\<close>

definition take_rows :: "'a list \<Rightarrow> nat list \<Rightarrow> exn + 'a list" where
  "take_rows a idx =
     (if list_all (\<lambda>i. i < length a) idx then Inr (map (\<lambda>i. a ! i) idx) else Inl IndexError)"

definition gather :: "'a list \<Rightarrow> nat list list \<Rightarrow> exn + 'a list list" where
  "gather a conn = sequence_exn (map (take_rows a) conn)"

text \<open>
  An elementwise binary operation on two four-axis arrays with broadcasting: on each
  axis the lengths are equal or one of them is 1, ValueError otherwise. Division is the
  division of the reals; numpy's \<open>inf\<close> and \<open>nan\<close> for a zero divisor are outside the model.
\<close>

definition bzip :: "('a \<Rightarrow> 'b \<Rightarrow> exn + 'c) \<Rightarrow> 'a list \<Rightarrow> 'b list \<Rightarrow> exn + 'c list" where
  "bzip f xs ys =
     (if length xs = length ys then sequence_exn (map2 f xs ys)
      else if length xs = 1 then sequence_exn (map (f (xs ! 0)) ys)
      else if length ys = 1 then sequence_exn (map (\<lambda>x. f x (ys ! 0)) xs)
      else Inl ValueError)"

definition bop4 :: "(real \<Rightarrow> real \<Rightarrow> real) \<Rightarrow> arr4 \<Rightarrow> arr4 \<Rightarrow> exn + arr4" where
  "bop4 f = bzip (bzip (bzip (bzip (\<lambda>x y. Inr (f x y)))))"

text \<open>
  The lengths of the third and fourth axis. A nested list with no first block records
  neither; they are read as 0 then.
\<close>

definition shape2 :: "arr4 \<Rightarrow> nat" where
  "shape2 a = (case a of (m # _) # _ \<Rightarrow> length m | _ \<Rightarrow> 0)"

definition shape3 :: "arr4 \<Rightarrow> nat" where
  "shape3 a = (case a of ((r # _) # _) # _ \<Rightarrow> length r | _ \<Rightarrow> 0)"

text \<open>
  The indices selected by \<^verbatim>\<open>slice(start, None, step)\<close> on an axis of length \<open>n\<close>, and the
  strided views of the element blocks. \<open>get_fn_vec out ir\<close> is \<^verbatim>\<open>out[:, 0, ir, 0]\<close> and
  \<open>get_fn_mat out ir ic\<close> is \<^verbatim>\<open>out[:, 0, ir, ic]\<close>; the index 0 raises IndexError on an
  axis of length 0. \<open>set_fn_vec\<close> and \<open>set_fn_mat\<close> are the assignments \<^verbatim>\<open>fn[:] = new\<close>
  through the view, which broadcast \<open>new\<close> to the shape of the view or raise ValueError.
\<close>

definition strided :: "nat \<Rightarrow> nat \<Rightarrow> nat \<Rightarrow> nat list" where
  "strided start step n = filter (\<lambda>i. start \<le> i \<and> (i - start) mod step = 0) [0..<n]"

definition get_fn_vec :: "arr4 \<Rightarrow> nat list \<Rightarrow> exn + arr2" where
  "get_fn_vec out ir =
     (if list_all (\<lambda>el. 0 < length el \<and> list_all (\<lambda>row. 0 < length row) (el ! 0)) out
      then Inr (map (\<lambda>el. map (\<lambda>i. el ! 0 ! i ! 0) ir) out)
      else Inl IndexError)"

definition set_fn_vec :: "arr4 \<Rightarrow> nat list \<Rightarrow> arr2 \<Rightarrow> exn + arr4" where
  "set_fn_vec out ir new =
     (if broadcastable (length out) (length ir) new
      then Inr (map (\<lambda>(e, el).
                  el[0 := fold (\<lambda>(j, i) m. set2 m i 0 (at2 new e j)) (enumerate 0 ir) (el ! 0)])
                (enumerate 0 out))
      else Inl ValueError)"

definition get_fn_mat :: "arr4 \<Rightarrow> nat list \<Rightarrow> nat list \<Rightarrow> exn + arr3" where
  "get_fn_mat out ir ic =
     (if list_all (\<lambda>el. 0 < length el) out
      then Inr (map (\<lambda>el. map (\<lambda>i. map (\<lambda>j. el ! 0 ! i ! j) ic) ir) out)
      else Inl IndexError)"

definition set_fn_mat :: "arr4 \<Rightarrow> nat list \<Rightarrow> nat list \<Rightarrow> arr3 \<Rightarrow> exn + arr4" where
  "set_fn_mat out ir ic new =
     (if (length new = length out \<or> length new = 1)
         \<and> list_all (broadcastable (length ir) (length ic)) new
      then Inr (map (\<lambda>(e, el).
                  el[0 := fold (\<lambda>(k, i) m.
                            fold (\<lambda>(l, j) m. set2 m i j (at2 (bsel new e) k l))
                              (enumerate 0 ic) m)
                          (enumerate 0 ir) (el ! 0)])
                (enumerate 0 out))
      else Inl ValueError)"


section \<open>The membrane term\<close>

subsection \<open>Objects\<close>

text \<open>
  A chunk is an array of element indices. The shape handed to the chunk generator is the
  tuple \<^verbatim>\<open>(chunk_size, 1, rows, columns)\<close>, where \<open>chunk_size\<close> may be \<^verbatim>\<open>None\<close>. A generator
  hands out a list of values and then either is exhausted or raises.
\<close>

type_synonym chunk = "nat list"
type_synonym shape = "nat option \<times> nat \<times> nat \<times> nat"
type_synonym yielded = "arr4 \<times> chunk \<times> int"

datatype outcome = Exhausted | Raised exn

text \<open>
  The source is Python 2: a StopIteration that leaves the body of a generator is the
  signal by which every generator ends, so the consumer of the generator sees it as
  exhaustion, not as an error. Any other exception reaches the caller.
\<close>

definition finish :: "exn \<Rightarrow> outcome" where
  "finish e = (if e = StopIteration then Exhausted else Raised e)"

text \<open>
  The mapping object \<open>geo\<close> built by the mapping service: \<^verbatim>\<open>geo.variable(i)\<close>, which
  reads one of the arrays the mapping holds, and
  \<^verbatim>\<open>geo.integrate_chunk(out, data, lchunk)\<close>, which writes into \<open>out\<close> and returns a
  status; the written buffer is returned with the status.
\<close>

record mapping =
  variable :: "nat \<Rightarrow> arr4"
  integrate_chunk :: "arr4 \<Rightarrow> arr4 \<Rightarrow> chunk \<Rightarrow> arr4 \<times> int"

text \<open>
  The mutable part of a \<^verbatim>\<open>TLMembraneTerm\<close>: the three dictionaries keyed by element
  group, whose values are \<^verbatim>\<open>None\<close> until the geometry of the group is described.
\<close>

record term_state =
  self_mtx_t :: "nat \<rightharpoonup> arr3 option"
  self_membrane_geo :: "nat \<rightharpoonup> mapping option"
  self_bfg :: "nat \<rightharpoonup> arr4 option"

text \<open>
  Everything a call reads from outside the module. The first group of fields is what
  the methods of the base class \<^verbatim>\<open>Term\<close> and the objects they return give at this call:
  \<^verbatim>\<open>get_kwargs\<close>, \<^verbatim>\<open>get_args\<close>, \<^verbatim>\<open>get_arg_name('state')\<close>, the approximation \<open>ap\<close> with its
  surface data \<open>sd\<close>, the surface geometry \<open>sg\<close>, the field of the state variable, the
  state vector and \<^verbatim>\<open>self.char_fun.ig\<close>. The second group is the collaborators, which
  the module uses as black boxes: they are parameters of the model, the geometry element
  is given by its name, and the volume mapping and the polynomial space are of unknown
  types \<open>'vm\<close> and \<open>'ps\<close>. \<open>char_fun env chunk_size shape\<close> lists the pairs \<^verbatim>\<open>(out, chunk)\<close>
  that \<^verbatim>\<open>self.char_fun(chunk_size, shape)\<close> generates, and \<open>get_local_chunk\<close> gives the
  local chunk while the generator stands at a chunk. \<^verbatim>\<open>dot_sequences\<close> is used at three
  ranks, one field each. \<open>uninit\<close> is the content of freshly allocated memory. The
  services that build the frames and the mapping of an element group may fail
  (degenerate elements, an unknown reference element): they give \<open>None\<close> when they raise.
\<close>

record ('vm, 'ps) env =
  term_mode :: "string option"
  material_a1 :: arr4
  material_a2 :: arr4
  material_h0 :: arr4
  state_arg_name :: string
  s_data_shape :: "nat \<times> nat \<times> nat \<times> nat"
  sd_econn :: "nat list list"
  sd_leconn :: "nat list list"
  sg_nFP :: nat
  field_coors :: arr2
  field_surface_facet :: string
  field_approx_order :: nat
  state_in_region :: arr2
  char_fun_ig :: nat
  char_fun :: "nat option \<Rightarrow> shape \<Rightarrow> (arr4 \<times> chunk) list"
  get_local_chunk :: "chunk \<Rightarrow> chunk"
  create_transformation_matrix :: "arr3 \<Rightarrow> arr3 option"
  create_mapping :: "arr3 \<Rightarrow> string \<Rightarrow> nat \<Rightarrow> 'vm option"
  get_qp :: "string \<Rightarrow> (arr2 \<times> arr1) option"
  any_from_args :: "string \<Rightarrow> nat \<Rightarrow> 'ps option"
  get_mapping :: "'vm \<Rightarrow> arr2 \<times> arr1 \<Rightarrow> 'ps \<Rightarrow> mapping option"
  dot_sequences :: "arr4 \<Rightarrow> arr4 \<Rightarrow> string \<Rightarrow> arr4"
  dot_sequences3 :: "arr3 \<Rightarrow> arr3 \<Rightarrow> string \<Rightarrow> arr3"
  dot_sequences32 :: "arr3 \<Rightarrow> arr2 \<Rightarrow> string \<Rightarrow> arr2"
  describe_deformation :: "arr3 \<Rightarrow> arr4 \<Rightarrow> arr4 \<times> arr2 \<times> arr4"
  get_tangent_stress_matrix :: "arr4 \<Rightarrow> arr4 \<Rightarrow> arr4"
  get_green_strain_sym3d :: "arr4 \<Rightarrow> arr2 \<Rightarrow> arr4"
  transform_data :: "arr4 \<Rightarrow> arr3 \<Rightarrow> arr4"
  uninit :: "nat \<Rightarrow> nat \<Rightarrow> nat \<Rightarrow> nat \<Rightarrow> real"

subsection \<open>Construction and geometry\<close>

text \<open>
  \<^verbatim>\<open>__init__\<close>: each dictionary is \<^verbatim>\<open>{}.fromkeys(igs, None)\<close>.
\<close>

definition fromkeys :: "nat list \<Rightarrow> nat \<rightharpoonup> 'a option" where
  "fromkeys igs = map_of (map (\<lambda>ig. (ig, None)) igs)"

definition tl_membrane_init :: "nat list \<Rightarrow> term_state" where
  "tl_membrane_init igs =
     \<lparr>self_mtx_t = fromkeys igs, self_membrane_geo = fromkeys igs, self_bfg = fromkeys igs\<rparr>"

text \<open>
  \<^verbatim>\<open>describe_membrane_geometry(ig, field, sg, sd)\<close>. The coordinates of the vertices are
  \<^verbatim>\<open>field.coors[sd.econn[:, :sg.nFP]]\<close>; \<open>sub_first\<close> is \<^verbatim>\<open>coors - coors[:, 0:1, :]\<close>,
  every vertex minus the first vertex of its element. The three dictionary entries are
  assigned in the order of the source: \<^verbatim>\<open>self.mtx_t[ig]\<close> as soon as the frames are built,
  \<^verbatim>\<open>self.membrane_geo[ig]\<close> and \<^verbatim>\<open>self.bfg[ig]\<close> only after the mapping is built. So an
  exception of the mapping service leaves the entry of \<^verbatim>\<open>self.mtx_t\<close> assigned and the two
  others \<^verbatim>\<open>None\<close>. The result is the state the method leaves, with the exception if one
  was raised.
\<close>

definition collaborator :: "'a option \<Rightarrow> exn + 'a" where
  "collaborator r = (case r of None \<Rightarrow> Inl CollaboratorError | Some x \<Rightarrow> Inr x)"

definition sub_first :: "arr3 \<Rightarrow> arr3" where
  "sub_first coors = map (\<lambda>el. map (\<lambda>x. map2 (-) x (el ! 0)) el) coors"

definition describe_membrane_geometry ::
  "('vm, 'ps) env \<Rightarrow> nat \<Rightarrow> term_state \<Rightarrow> term_state \<times> (exn + unit)" where
  "describe_membrane_geometry env ig s =
     (case bind_exn (gather (field_coors env) (map (take (sg_nFP env)) (sd_econn env)))
             (\<lambda>coors. bind_exn (collaborator (create_transformation_matrix env coors))
                (\<lambda>T. Inr (coors, T))) of
        Inl e \<Rightarrow> (s, Inl e)
      | Inr (coors, T) \<Rightarrow>
          (let s = s\<lparr>self_mtx_t := (self_mtx_t s)(ig \<mapsto> Some T)\<rparr>;
               coors_loc = dot_sequences3 env (sub_first coors) T ''AB'';
               gel = field_surface_facet env
           in case bind_exn (collaborator (create_mapping env coors_loc gel 1)) (\<lambda>vm.
                   bind_exn (collaborator (get_qp env gel)) (\<lambda>qp.
                   bind_exn (collaborator (any_from_args env gel (field_approx_order env)))
                     (\<lambda>ps. collaborator (get_mapping env vm qp ps)))) of
                Inl e \<Rightarrow> (s, Inl e)
              | Inr geo \<Rightarrow>
                  (let s = s\<lparr>self_membrane_geo := (self_membrane_geo s)(ig \<mapsto> Some geo)\<rparr>;
                       s = s\<lparr>self_bfg := (self_bfg s)(ig \<mapsto> Some (variable geo 0))\<rparr>
                   in (s, Inr ()))))"

subsection \<open>The shape of the output\<close>

text \<open>
  Modelled from the spec: \<^verbatim>\<open>assert_\<close> of \<^verbatim>\<open>sfepy.base.base\<close> is not part of the module; a
  violated precondition is fatal and reported to the caller at once, so \<open>sfepy_assert\<close>, which
  stands for it, raises when its condition is false.
\<close>

definition sfepy_assert :: "bool \<Rightarrow> exn + unit" where
  "sfepy_assert condition = (if condition then Inr () else Inl AssertionFailed)"

text \<open>
  \<^verbatim>\<open>get_shape(ap, diff_var, chunk_size)\<close> returns the shape and the mode; \<open>dm\<close> is the
  \<^verbatim>\<open>dim\<close> of the source.
\<close>

definition get_shape ::
  "('vm, 'ps) env \<Rightarrow> string option \<Rightarrow> nat option \<Rightarrow> exn + (shape \<times> int)" where
  "get_shape env diff_var chunk_size =
     (case s_data_shape env of (n_el, n_qp, dm, n_ep) \<Rightarrow>
        bind_exn (sfepy_assert (dm = 3)) (\<lambda>_.
          if diff_var = None then Inr ((chunk_size, 1, dm * n_ep, 1), 0)
          else if diff_var = Some (state_arg_name env)
          then Inr ((chunk_size, 1, dm * n_ep, dm * n_ep), 1)
          else Inl StopIteration))"


subsection \<open>Evaluation\<close>

text \<open>
  A dictionary read \<^verbatim>\<open>d[k]\<close> raises KeyError for a missing key.
\<close>

definition lookup :: "('k \<rightharpoonup> 'v) \<Rightarrow> 'k \<Rightarrow> exn + 'v" where
  "lookup d k = (case d k of None \<Rightarrow> Inl KeyError | Some v \<Rightarrow> Inr v)"

text \<open>
  The first part of \<^verbatim>\<open>__call__\<close>, up to \<^verbatim>\<open>describe_deformation\<close>: the geometry of the group
  is described if its entry of \<^verbatim>\<open>self.mtx_t\<close> is \<^verbatim>\<open>None\<close>, then the three entries are read,
  the displacements are gathered and transformed, and the deformation is described.
  \<^verbatim>\<open>bfg.shape[3]\<close> raises AttributeError when \<open>bfg\<close> is \<^verbatim>\<open>None\<close>; \<open>geo\<close> is only used
  later and stays optional. The entry of \<^verbatim>\<open>self.mtx_t\<close> is never \<^verbatim>\<open>None\<close> when it is read
  in a call, since it was just tested or assigned; \<open>read_prepared\<close> alone gives an
  AttributeError for it. The values that the rest of the call uses are collected in a
  record.
\<close>

record prepared =
  p_mtx_t :: arr3
  p_bfg :: arr4
  p_geo :: "mapping option"
  p_n_ep :: nat
  p_mtx_c :: arr4
  p_c33 :: arr2
  p_mtx_b :: arr4

definition read_prepared :: "('vm, 'ps) env \<Rightarrow> term_state \<Rightarrow> exn + prepared" where
  "read_prepared env s =
     (let ig = char_fun_ig env in
      bind_exn (lookup (self_mtx_t s) ig) (\<lambda>mtx_t.
      bind_exn (lookup (self_bfg s) ig) (\<lambda>bfg.
      bind_exn (lookup (self_membrane_geo s) ig) (\<lambda>geo.
      bind_exn (gather (state_in_region env) (sd_leconn env)) (\<lambda>el_u.
        case mtx_t of
          None \<Rightarrow> Inl AttributeError
        | Some mtx_t \<Rightarrow>
            (let el_u_loc = dot_sequences3 env el_u mtx_t ''AB'' in
             case bfg of
               None \<Rightarrow> Inl AttributeError
             | Some bfg \<Rightarrow>
                 (let n_ep = shape3 bfg in
                  case describe_deformation env el_u_loc bfg of
                    (mtx_c, c33, mtx_b) \<Rightarrow>
                      Inr \<lparr>p_mtx_t = mtx_t, p_bfg = bfg, p_geo = geo, p_n_ep = n_ep,
                           p_mtx_c = mtx_c, p_c33 = c33, p_mtx_b = mtx_b\<rparr>)))))))"

definition prepare :: "('vm, 'ps) env \<Rightarrow> term_state \<Rightarrow> term_state \<times> (exn + prepared)" where
  "prepare env s =
     (let ig = char_fun_ig env in
      case lookup (self_mtx_t s) ig of
        Inl e \<Rightarrow> (s, Inl e)
      | Inr cached \<Rightarrow>
          (case (if cached = None then describe_membrane_geometry env ig s else (s, Inr ())) of
             (s, r) \<Rightarrow> (s, bind_exn r (\<lambda>_. read_prepared env s))))"

text \<open>
  The transformation of an integrated chunk to the global coordinate system, one node
  at a time: for the residual \<^verbatim>\<open>fn[:] = dot_sequences(mtx_t[lchunk], fn, 'AB')\<close> on the
  view \<^verbatim>\<open>out[:, 0, ir, 0]\<close>, for the tangent \<^verbatim>\<open>fn[:] = dot(dot(tc, fn, 'AB'), tc, 'ABT')\<close> on
  the view \<^verbatim>\<open>out[:, 0, ir, ic]\<close>.
\<close>

definition to_global_vec ::
  "('vm, 'ps) env \<Rightarrow> arr3 \<Rightarrow> chunk \<Rightarrow> nat \<Rightarrow> arr4 \<Rightarrow> exn + arr4" where
  "to_global_vec env mtx_t lchunk n_ep out =
     fold_exn (\<lambda>iep out.
         let ir = strided iep n_ep (shape2 out) in
         bind_exn (get_fn_vec out ir) (\<lambda>fn.
         bind_exn (take_rows mtx_t lchunk) (\<lambda>tc.
           set_fn_vec out ir (dot_sequences32 env tc fn ''AB''))))
       [0..<n_ep] out"

definition to_global_mat :: "('vm, 'ps) env \<Rightarrow> arr3 \<Rightarrow> nat \<Rightarrow> arr4 \<Rightarrow> exn + arr4" where
  "to_global_mat env tc n_ep out =
     fold_exn (\<lambda>iepr out.
         fold_exn (\<lambda>iepc out.
             let ir = strided iepr n_ep (shape2 out); ic = strided iepc n_ep (shape3 out) in
             bind_exn (get_fn_mat out ir ic) (\<lambda>fn.
               set_fn_mat out ir ic
                 (dot_sequences3 env (dot_sequences3 env tc fn ''AB'') tc ''ABT'')))
           [0..<n_ep] out)
       [0..<n_ep] out"

text \<open>
  The bodies of the three chunk loops, at the pair \<^verbatim>\<open>(out, chunk)\<close> of the chunk
  generator. The residual and tangent bodies give what their \<^verbatim>\<open>yield\<close> hands out; the
  post-processing body gives the values of \<open>out1\<close>, \<open>chunk\<close> and \<open>status\<close> it leaves behind.
  A \<open>geo\<close> that is \<^verbatim>\<open>None\<close> raises AttributeError at \<^verbatim>\<open>geo.integrate_chunk\<close>.
\<close>

definition residual_chunk ::
  "('vm, 'ps) env \<Rightarrow> prepared \<Rightarrow> arr4 \<Rightarrow> arr4 \<times> chunk \<Rightarrow> exn + yielded" where
  "residual_chunk env p bts oc =
     (case oc of (out, chunk) \<Rightarrow>
        let lchunk = get_local_chunk env chunk in
        case p_geo p of
          None \<Rightarrow> Inl AttributeError
        | Some geo \<Rightarrow>
            bind_exn (bop4 (*) bts (material_h0 env)) (\<lambda>data.
              case integrate_chunk geo out data lchunk of (out, status) \<Rightarrow>
                bind_exn (to_global_vec env (p_mtx_t p) lchunk (p_n_ep p) out) (\<lambda>out.
                  Inr (out, lchunk, 0))))"

definition tangent_chunk ::
  "('vm, 'ps) env \<Rightarrow> prepared \<Rightarrow> arr4 \<Rightarrow> arr4 \<times> chunk \<Rightarrow> exn + yielded" where
  "tangent_chunk env p mtx_k oc =
     (case oc of (out, chunk) \<Rightarrow>
        let lchunk = get_local_chunk env chunk in
        case p_geo p of
          None \<Rightarrow> Inl AttributeError
        | Some geo \<Rightarrow>
            bind_exn (bop4 (*) mtx_k (material_h0 env)) (\<lambda>data.
              case integrate_chunk geo out data lchunk of (out, status) \<Rightarrow>
                bind_exn (take_rows (p_mtx_t p) lchunk) (\<lambda>tc.
                bind_exn (to_global_mat env tc (p_n_ep p) out) (\<lambda>out.
                  Inr (out, lchunk, 0)))))"

definition postproc_chunk ::
  "('vm, 'ps) env \<Rightarrow> prepared \<Rightarrow> arr4 \<Rightarrow> arr4 \<times> chunk \<Rightarrow> exn + yielded" where
  "postproc_chunk env p out_qp oc =
     (case oc of (out, chunk) \<Rightarrow>
        let lchunk = get_local_chunk env chunk in
        case p_geo p of
          None \<Rightarrow> Inl AttributeError
        | Some geo \<Rightarrow>
            bind_exn (take_rows out_qp lchunk) (\<lambda>data.
              case integrate_chunk geo out data lchunk of (out, status) \<Rightarrow>
                let out = transform_data env out (p_mtx_t p) in
                bind_exn (take_rows (variable geo 2) lchunk) (\<lambda>v.
                bind_exn (bop4 (/) out v) (\<lambda>out1.
                  Inr (out1, chunk, status)))))"

text \<open>
  A chunk loop with the \<^verbatim>\<open>yield\<close> inside: the values handed out so far, then exhaustion
  or the exception of the body. A chunk loop without \<^verbatim>\<open>yield\<close>: the local variables
  \<open>out1\<close>, \<open>chunk\<close>, \<open>status\<close> after the loop, unbound (\<open>None\<close>) if the body never ran.
\<close>

fun gen_loop :: "('c \<Rightarrow> exn + yielded) \<Rightarrow> 'c list \<Rightarrow> yielded list \<times> outcome" where
  "gen_loop body [] = ([], Exhausted)"
| "gen_loop body (c # cs) =
     (case body c of
        Inl e \<Rightarrow> ([], finish e)
      | Inr y \<Rightarrow> (case gen_loop body cs of (ys, r) \<Rightarrow> (y # ys, r)))"

fun post_loop ::
  "('c \<Rightarrow> exn + yielded) \<Rightarrow> 'c list \<Rightarrow> yielded option \<Rightarrow> exn + yielded option" where
  "post_loop body [] locals = Inr locals"
| "post_loop body (c # cs) locals = bind_exn (body c) (\<lambda>v. post_loop body cs (Some v))"

text \<open>
  The quadrature point values of the \<^verbatim>\<open>'stress'\<close> mode: a zero array with
  \<open>dim2sym (dm + 1)\<close> rows, whose rows 0 and 1 receive \<open>S11\<close> and \<open>S22\<close> and whose row 3
  receives \<open>S12\<close>.
\<close>

definition stress_out_qp :: "arr4 \<Rightarrow> arr4 \<Rightarrow> arr4" where
  "stress_out_qp mtx_c stress =
     map (\<lambda>iel. map (\<lambda>iqp.
         let dm = length (mtx_c ! iel ! iqp);
             n_sym = dim2sym (dm + 1);
             out_qp = replicate n_sym [0];
             out_qp = set2 out_qp 0 0 (stress ! iel ! iqp ! 0 ! 0);
             out_qp = set2 out_qp 1 0 (stress ! iel ! iqp ! 1 ! 0);
             out_qp = set2 out_qp 3 0 (stress ! iel ! iqp ! 2 ! 0)
         in out_qp)
       [0..<shape1 mtx_c]) [0..<length mtx_c]"

text \<open>
  The array \<open>out_qp\<close> of the post-processing modes: the Green strain for \<^verbatim>\<open>'strain'\<close>,
  the stress of the membrane law for \<^verbatim>\<open>'stress'\<close>.
\<close>

definition postproc_qp :: "('vm, 'ps) env \<Rightarrow> prepared \<Rightarrow> exn + arr4" where
  "postproc_qp env p =
     (if term_mode env = Some ''strain''
      then Inr (get_green_strain_sym3d env (p_mtx_c p) (p_c33 p))
      else bind_exn (eval_membrane_mooney_rivlin (uninit env) (material_a1 env)
                       (material_a2 env) (p_mtx_c p) (p_c33 p) 0)
             (\<lambda>stress. Inr (stress_out_qp (p_mtx_c p) stress)))"

text \<open>
  The second part of \<^verbatim>\<open>__call__\<close>, from the branch on \<open>term_mode\<close>: what the generator
  hands out and how it ends. In the post-processing modes the \<^verbatim>\<open>yield\<close> stands after the
  loop and reads \<open>out1\<close>, \<open>chunk\<close> and \<open>status\<close>, which are unbound if the body never ran.
\<close>

definition evaluate ::
  "('vm, 'ps) env \<Rightarrow> prepared \<Rightarrow> nat option \<Rightarrow> shape \<Rightarrow> int \<Rightarrow> yielded list \<times> outcome" where
  "evaluate env p chunk_size shape mode =
     (let a1 = material_a1 env; a2 = material_a2 env;
          mtx_c = p_mtx_c p; c33 = p_c33 p; mtx_b = p_mtx_b p in
      if term_mode env = None then
        (case eval_membrane_mooney_rivlin (uninit env) a1 a2 mtx_c c33 mode of
           Inl e \<Rightarrow> ([], finish e)
         | Inr crt \<Rightarrow>
             if mode = 0 then
               (let bts = dot_sequences env mtx_b crt ''ATB'' in
                gen_loop (residual_chunk env p bts) (char_fun env chunk_size shape))
             else
               (let btd = dot_sequences env mtx_b crt ''ATB'';
                    btdb = dot_sequences env btd mtx_b ''AB'' in
                case eval_membrane_mooney_rivlin (uninit env) a1 a2 mtx_c c33 0 of
                  Inl e \<Rightarrow> ([], finish e)
                | Inr stress \<Rightarrow>
                    (let kts = get_tangent_stress_matrix env stress (p_bfg p) in
                     case bop4 (+) kts btdb of
                       Inl e \<Rightarrow> ([], finish e)
                     | Inr mtx_k \<Rightarrow>
                         gen_loop (tangent_chunk env p mtx_k)
                           (char_fun env chunk_size shape))))
      else if term_mode env = Some ''strain'' \<or> term_mode env = Some ''stress'' then
        (case postproc_qp env p of
           Inl e \<Rightarrow> ([], finish e)
         | Inr out_qp \<Rightarrow>
             (let shape = (chunk_size, 1, shape2 out_qp, shape3 out_qp) in
              case post_loop (postproc_chunk env p out_qp)
                     (char_fun env chunk_size shape) None of
                Inl e \<Rightarrow> ([], finish e)
              | Inr None \<Rightarrow> ([], Raised UnboundLocalError)
              | Inr (Some y) \<Rightarrow> ([y], Exhausted)))
      else ([], Exhausted))"

text \<open>
  \<^verbatim>\<open>__call__(diff_var, chunk_size, **kwargs)\<close>, run until the generator ends: the state of
  the term afterwards, the values handed out, and the way the generator ended.
\<close>

definition tl_membrane_call ::
  "('vm, 'ps) env \<Rightarrow> term_state \<Rightarrow> string option \<Rightarrow> nat option
     \<Rightarrow> term_state \<times> yielded list \<times> outcome" where
  "tl_membrane_call env s diff_var chunk_size =
     (case prepare env s of
        (s, Inl e) \<Rightarrow> (s, [], finish e)
      | (s, Inr p) \<Rightarrow>
          (case get_shape env diff_var chunk_size of
             Inl e \<Rightarrow> (s, [], finish e)
           | Inr (shape, mode) \<Rightarrow> (s, evaluate env p chunk_size shape mode)))"

text \<open>
  A sequence of calls on one term, each with its own surroundings and arguments: the
  state of the term after the last one.
\<close>

fun run_calls ::
  "(('vm, 'ps) env \<times> string option \<times> nat option) list \<Rightarrow> term_state \<Rightarrow> term_state" where
  "run_calls [] s = s"
| "run_calls ((env, diff_var, chunk_size) # calls) s =
     run_calls calls (fst (tl_membrane_call env s diff_var chunk_size))"

text \<open>
  \<open>geometry_from env g\<close> is \<open>env\<close> with everything that only
  \<^verbatim>\<open>describe_membrane_geometry\<close> reads taken from \<open>g\<close>: the coordinates and the
  connectivity of the facets, the reference element, the approximation order, and the
  services that build the frames and the mapping.
\<close>

definition geometry_from :: "('vm, 'ps) env \<Rightarrow> ('vm, 'ps) env \<Rightarrow> ('vm, 'ps) env" where
  "geometry_from env g =
     env\<lparr>field_coors := field_coors g, sd_econn := sd_econn g, sg_nFP := sg_nFP g,
         field_surface_facet := field_surface_facet g,
         field_approx_order := field_approx_order g,
         create_transformation_matrix := create_transformation_matrix g,
         create_mapping := create_mapping g, get_qp := get_qp g,
         any_from_args := any_from_args g, get_mapping := get_mapping g\<rparr>"


section \<open>A small mesh for the examples\<close>

text \<open>
  Two triangles of the unit square in the plane \<open>z = 0\<close>, one quadrature point, three nodes
  per element, no displacement. The collaborators are the simplest ones that give arrays
  of the shapes the module expects: the element frames are the identity,
  \<^verbatim>\<open>dot_sequences\<close> is the product of the matrices of two sequences item by item, the
  deformation is the undeformed state, integration copies the value at the single
  quadrature point, the quadrature service knows the triangle \<^verbatim>\<open>'2_3'\<close> only and raises for
  any other reference element, and the chunk generator splits the two elements into chunks of one
  element when \<open>chunk_size\<close> is 1 and hands out a single chunk otherwise.
\<close>

definition mat_mul :: "arr2 \<Rightarrow> arr2 \<Rightarrow> arr2" where
  "mat_mul a b = map (\<lambda>row. map (\<lambda>col. sum_list (map2 (*) row col)) (transpose b)) a"

definition example_dot3 :: "arr3 \<Rightarrow> arr3 \<Rightarrow> string \<Rightarrow> arr3" where
  "example_dot3 a b mode =
     map2 (\<lambda>x y. if mode = ''ATB'' then mat_mul (transpose x) y
                 else if mode = ''ABT'' then mat_mul x (transpose y)
                 else mat_mul x y) a b"

definition example_dot32 :: "arr3 \<Rightarrow> arr2 \<Rightarrow> string \<Rightarrow> arr2" where
  "example_dot32 a b mode = map2 (\<lambda>x v. map (\<lambda>row. sum_list (map2 (*) row v)) x) a b"

definition example_dot :: "arr4 \<Rightarrow> arr4 \<Rightarrow> string \<Rightarrow> arr4" where
  "example_dot a b mode = map2 (\<lambda>x y. example_dot3 x y mode) a b"

definition example_buffer :: "nat \<Rightarrow> shape \<Rightarrow> arr4" where
  "example_buffer n sh =
     (case sh of (chunk_size, s1, s2, s3) \<Rightarrow>
        replicate n (replicate s1 (replicate s2 (replicate s3 0))))"

definition example_char_fun :: "nat option \<Rightarrow> shape \<Rightarrow> (arr4 \<times> chunk) list" where
  "example_char_fun chunk_size sh =
     (if chunk_size = Some 1
      then [(example_buffer 1 sh, [0]), (example_buffer 1 sh, [1])]
      else [(example_buffer 2 sh, [0, 1])])"

definition example_geo :: mapping where
  "example_geo =
     \<lparr>variable = (\<lambda>i. if i = 0
                      then replicate 2 [[[- 1, 1, 0], [- 1, 0, 1]]]
                      else replicate 2 [[[1 / 2]]]),
      integrate_chunk = (\<lambda>out data lchunk. (map (\<lambda>el. [el ! 0]) data, 0))\<rparr>"

definition example_env :: "(unit, unit) env" where
  "example_env =
     \<lparr>term_mode = None,
      material_a1 = replicate 2 [[[1 / 2]]],
      material_a2 = replicate 2 [[[1 / 4]]],
      material_h0 = replicate 2 [[[1]]],
      state_arg_name = ''u'',
      s_data_shape = (2, 1, 3, 3),
      sd_econn = [[0, 1, 2], [1, 3, 2]],
      sd_leconn = [[0, 1, 2], [1, 3, 2]],
      sg_nFP = 3,
      field_coors = [[0, 0, 0], [1, 0, 0], [0, 1, 0], [1, 1, 0]],
      field_surface_facet = ''2_3'',
      field_approx_order = 1,
      state_in_region = replicate 4 [0, 0, 0],
      char_fun_ig = 0,
      char_fun = example_char_fun,
      get_local_chunk = (\<lambda>chunk. chunk),
      create_transformation_matrix =
        (\<lambda>coors. Some (map (\<lambda>el. [[1, 0, 0], [0, 1, 0], [0, 0, 1]]) coors)),
      create_mapping = (\<lambda>coors gel order. Some ()),
      get_qp = (\<lambda>gel. if gel = ''2_3'' then Some ([[1 / 3, 1 / 3]], [1 / 2]) else None),
      any_from_args = (\<lambda>gel order. Some ()),
      get_mapping = (\<lambda>vm qp ps. Some example_geo),
      dot_sequences = example_dot,
      dot_sequences3 = example_dot3,
      dot_sequences32 = example_dot32,
      describe_deformation =
        (\<lambda>el_u bfg. (map (\<lambda>el. [[[1, 0], [0, 1]]]) el_u, map (\<lambda>el. [1]) el_u,
                      map (\<lambda>el. [replicate 3 (replicate 9 0)]) el_u)),
      get_tangent_stress_matrix =
        (\<lambda>stress bfg. map (\<lambda>el. [replicate 9 (replicate 9 0)]) stress),
      get_green_strain_sym3d = (\<lambda>mtx_c c33. map (\<lambda>el. [replicate 6 [0]]) mtx_c),
      transform_data = (\<lambda>out mtx. out),
      uninit = (\<lambda>iel iqp i j. 0)\<rparr>"

text \<open>
  The state of a term of the element groups 0 and 1 after a call that described the
  geometry of group 0 on the example mesh.
\<close>

definition example_state1 :: term_state where
  "example_state1 =
     \<lparr>self_mtx_t = [0 \<mapsto> Some (replicate 2 [[1, 0, 0], [0, 1, 0], [0, 0, 1]]), 1 \<mapsto> None],
      self_membrane_geo = [0 \<mapsto> Some example_geo, 1 \<mapsto> None],
      self_bfg = [0 \<mapsto> Some (replicate 2 [[[- 1, 1, 0], [- 1, 0, 1]]]), 1 \<mapsto> None]\<rparr>"


section \<open>Properties of the membrane law\<close>

subsection \<open>Writing into the output block\<close>

lemma length_empty2: "length (empty2 u r c) = r"
  by (simp add: empty2_def)

lemma nth_empty2: "i < r \<Longrightarrow> empty2 u r c ! i = map (u i) [0..<c]"
  by (simp add: empty2_def)

lemma length_set2: "length (set2 m i j v) = length m"
  by (simp add: set2_def)

lemma length_nth_set2: "length (set2 m i j v ! k) = length (m ! k)"
  by (cases "k < length m"; cases "k = i") (simp_all add: set2_def list_update_beyond)

lemma nth_set2:
  "k < length m \<Longrightarrow>
   set2 m i j v ! k ! l = (if k = i \<and> l = j \<and> j < length (m ! i) then v else m ! k ! l)"
  by (cases "k = i"; cases "l = j"; cases "j < length (m ! i)") (simp_all add: set2_def list_update_beyond)

lemmas out_simps = length_empty2 nth_empty2 length_set2 length_nth_set2 nth_set2

lemma stress_qp:
  assumes "3 \<le> n"
  shows "mooney_rivlin_qp u n a12 a22 c11 c12 c22 c33 0 ! 0 ! 0 =
           - (c33 * (a12 + a22 * (c11 + c22))) * c22 * c33 + a12 + a22 * (c22 + c33)"
    and "mooney_rivlin_qp u n a12 a22 c11 c12 c22 c33 0 ! 1 ! 0 =
           - (c33 * (a12 + a22 * (c11 + c22))) * c11 * c33 + a12 + a22 * (c11 + c33)"
    and "mooney_rivlin_qp u n a12 a22 c11 c12 c22 c33 0 ! 2 ! 0 =
           (c33 * (a12 + a22 * (c11 + c22))) * c12 * c33 - a22 * c12"
    and "length (mooney_rivlin_qp u n a12 a22 c11 c12 c22 c33 0) = n"
  using assms by (simp_all add: mooney_rivlin_qp_def Let_def out_simps)

lemma stress_qp_3:
  "mooney_rivlin_qp u 3 a12 a22 c11 c12 c22 c33 0 =
     [[- (c33 * (a12 + a22 * (c11 + c22))) * c22 * c33 + a12 + a22 * (c22 + c33)],
      [- (c33 * (a12 + a22 * (c11 + c22))) * c11 * c33 + a12 + a22 * (c11 + c33)],
      [(c33 * (a12 + a22 * (c11 + c22))) * c12 * c33 - a22 * c12]]"
  by (simp add: mooney_rivlin_qp_def Let_def empty2_def set2_def upt_rec numeral_3_eq_3)

lemma tangent_qp_sym:
  assumes "3 \<le> n" "mode \<noteq> 0" "i < 3" "j < 3"
  shows "mooney_rivlin_qp u n a12 a22 c11 c12 c22 c33 mode ! i ! j =
         mooney_rivlin_qp u n a12 a22 c11 c12 c22 c33 mode ! j ! i"
proof -
  have "i = 0 \<or> i = 1 \<or> i = 2" "j = 0 \<or> j = 1 \<or> j = 2" using assms by auto
  then show ?thesis using assms(1,2)
    by (auto simp add: mooney_rivlin_qp_def Let_def out_simps)
qed

subsection \<open>The batch\<close>

lemma dim2sym_ge: "2 \<le> d \<Longrightarrow> 3 \<le> dim2sym d"
proof -
  assume "2 \<le> d"
  then have "6 \<le> (d + 1) * d"
    using mult_le_mono [of 3 "d + 1" 2 d] by simp
  then show ?thesis by (simp add: dim2sym_def)
qed

lemma broadcastable_map [simp]:
  "broadcastable n q (map (map f) a) = broadcastable n q a"
  by (simp add: broadcastable_def list_all_iff)

lemma bsel_in:
  "length xs = n \<or> length xs = 1 \<Longrightarrow> i < n \<Longrightarrow> bsel xs i \<in> set xs"
  by (auto simp: bsel_def)

lemma bsel_map:
  "length xs = n \<or> length xs = 1 \<Longrightarrow> i < n \<Longrightarrow> bsel (map f xs) i = f (bsel xs i)"
  by (auto simp: bsel_def)

lemma at2_map:
  assumes "broadcastable n q a" "i < n" "j < q"
  shows "at2 (map (map f) a) i j = f (bsel (bsel a i) j)"
proof -
  have l: "length a = n \<or> length a = 1" using assms(1) by (simp add: broadcastable_def)
  have "bsel a i \<in> set a" using l assms(2) by (rule bsel_in)
  then have r: "length (bsel a i) = q \<or> length (bsel a i) = 1"
    using assms(1) by (auto simp: broadcastable_def list_all_iff)
  show ?thesis
    unfolding at2_def using l r assms(2,3) by (simp add: bsel_map)
qed

lemma idx_last2_ok:
  "blocks_ge (Suc i) (Suc j) a \<Longrightarrow> idx_last2 a i j = Inr (map (map (\<lambda>m. m ! i ! j)) a)"
  by (auto simp: blocks_ge_def idx_last2_def list_all_iff Suc_le_eq)

lemma blocks_ge_mono: "blocks_ge r c a \<Longrightarrow> r' \<le> r \<Longrightarrow> c' \<le> c \<Longrightarrow> blocks_ge r' c' a"
  by (fastforce simp: blocks_ge_def list_all_iff)

lemma eval_ok:
  assumes "wf_batch a1 a2 mtx_c c33"
  shows "eval_membrane_mooney_rivlin u a1 a2 mtx_c c33 mode =
           Inr (map (\<lambda>iel. map (\<lambda>iqp.
                  mooney_rivlin_qp (u iel iqp) (dim2sym (length (mtx_c ! iel ! iqp)))
                    (2 * first_coef a1 iel iqp) (2 * first_coef a2 iel iqp)
                    (mtx_c ! iel ! iqp ! 0 ! 0) (mtx_c ! iel ! iqp ! 0 ! 1)
                    (mtx_c ! iel ! iqp ! 1 ! 1) (at2 c33 iel iqp) mode)
                  [0..<shape1 mtx_c]) [0..<length mtx_c])"
proof -
  have b1: "blocks_ge (Suc 0) (Suc 0) a1" and b2: "blocks_ge (Suc 0) (Suc 0) a2"
    and bc: "blocks_ge 2 2 mtx_c"
    and r: "list_all (\<lambda>r. length r = shape1 mtx_c) mtx_c"
    and c1: "broadcastable (length mtx_c) (shape1 mtx_c) a1"
    and c2: "broadcastable (length mtx_c) (shape1 mtx_c) a2"
    and c3: "broadcastable (length mtx_c) (shape1 mtx_c) c33"
    using assms by (simp_all add: wf_batch_def)
  have i00: "idx_last2 mtx_c 0 0 = Inr (map (map (\<lambda>m. m ! 0 ! 0)) mtx_c)"
    by (rule idx_last2_ok) (rule blocks_ge_mono [OF bc], simp_all)
  have i01: "idx_last2 mtx_c 0 (Suc 0) = Inr (map (map (\<lambda>m. m ! 0 ! Suc 0)) mtx_c)"
    using idx_last2_ok [of 0 "Suc 0" mtx_c] blocks_ge_mono [OF bc, of "Suc 0" 2]
    by (simp add: numeral_2_eq_2)
  have i11: "idx_last2 mtx_c (Suc 0) (Suc 0) = Inr (map (map (\<lambda>m. m ! Suc 0 ! Suc 0)) mtx_c)"
    using idx_last2_ok [of "Suc 0" "Suc 0" mtx_c] bc by (simp add: numeral_2_eq_2)
  have row: "length (mtx_c ! iel) = shape1 mtx_c" if "iel < length mtx_c" for iel
    using r that by (simp add: list_all_length)
  show ?thesis
    unfolding eval_membrane_mooney_rivlin_def
    by (simp add: idx_last2_ok [OF b1] idx_last2_ok [OF b2] i00 i01 i11 bind_exn_def
        c1 c2 c3 row first_coef_def at2_map [OF c1] at2_map [OF c2] cong: map_cong)
qed

lemma eval_block:
  assumes "wf_batch a1 a2 mtx_c c33" "iel < length mtx_c" "iqp < shape1 mtx_c"
  shows "\<exists>out. eval_membrane_mooney_rivlin u a1 a2 mtx_c c33 mode = Inr out
           \<and> length out = length mtx_c \<and> length (out ! iel) = shape1 mtx_c
           \<and> out ! iel ! iqp =
               mooney_rivlin_qp (u iel iqp) (dim2sym (length (mtx_c ! iel ! iqp)))
                 (2 * first_coef a1 iel iqp) (2 * first_coef a2 iel iqp)
                 (mtx_c ! iel ! iqp ! 0 ! 0) (mtx_c ! iel ! iqp ! 0 ! 1)
                 (mtx_c ! iel ! iqp ! 1 ! 1) (at2 c33 iel iqp) mode"
  using assms(2,3) by (simp add: eval_ok [OF assms(1)])

lemma block_rows:
  assumes "wf_batch a1 a2 mtx_c c33" "iel < length mtx_c" "iqp < shape1 mtx_c"
  shows "3 \<le> dim2sym (length (mtx_c ! iel ! iqp))"
proof -
  have "length (mtx_c ! iel) = shape1 mtx_c"
    using assms(1,2) by (simp add: wf_batch_def list_all_length)
  then have "mtx_c ! iel ! iqp \<in> set (mtx_c ! iel)" "mtx_c ! iel \<in> set mtx_c"
    using assms(2,3) by simp_all
  then have "2 \<le> length (mtx_c ! iel ! iqp)"
    using assms(1) by (auto simp: wf_batch_def blocks_ge_def list_all_iff)
  then show ?thesis by (rule dim2sym_ge)
qed

subsection \<open>Stress\<close>

text \<open>
  Claim C1. For every well-formed input batch and mode 0, the function returns an array
  with one block per element and quadrature point of \<open>mtx_c\<close>, and the block at
  \<open>(iel, iqp)\<close> holds \<open>S11 = - pressure * C22 * C33 + a12 + a22 * (C22 + C33)\<close>,
  \<open>S22 = - pressure * C11 * C33 + a12 + a22 * (C11 + C33)\<close> and
  \<open>S12 = pressure * C12 * C33 - a22 * C12\<close> in rows 0, 1, 2, where \<open>a12\<close> and \<open>a22\<close> are
  twice the first coefficients of \<open>a1\<close> and \<open>a2\<close> and
  \<open>pressure = C33 * (a12 + a22 * (C11 + C22))\<close>.
\<close>

theorem stress_components:
  assumes "wf_batch a1 a2 mtx_c c33" "iel < length mtx_c" "iqp < shape1 mtx_c"
  shows "\<exists>out. eval_membrane_mooney_rivlin u a1 a2 mtx_c c33 0 = Inr out
           \<and> length out = length mtx_c \<and> length (out ! iel) = shape1 mtx_c
           \<and> (let a12 = 2 * first_coef a1 iel iqp; a22 = 2 * first_coef a2 iel iqp;
                   C11 = mtx_c ! iel ! iqp ! 0 ! 0; C12 = mtx_c ! iel ! iqp ! 0 ! 1;
                   C22 = mtx_c ! iel ! iqp ! 1 ! 1; C33 = at2 c33 iel iqp;
                   pressure = C33 * (a12 + a22 * (C11 + C22))
               in out ! iel ! iqp ! 0 ! 0 = - pressure * C22 * C33 + a12 + a22 * (C22 + C33)
                  \<and> out ! iel ! iqp ! 1 ! 0 = - pressure * C11 * C33 + a12 + a22 * (C11 + C33)
                  \<and> out ! iel ! iqp ! 2 ! 0 = pressure * C12 * C33 - a22 * C12)"
proof -
  obtain out where o: "eval_membrane_mooney_rivlin u a1 a2 mtx_c c33 0 = Inr out"
      "length out = length mtx_c" "length (out ! iel) = shape1 mtx_c"
      "out ! iel ! iqp =
         mooney_rivlin_qp (u iel iqp) (dim2sym (length (mtx_c ! iel ! iqp)))
           (2 * first_coef a1 iel iqp) (2 * first_coef a2 iel iqp)
           (mtx_c ! iel ! iqp ! 0 ! 0) (mtx_c ! iel ! iqp ! 0 ! 1)
           (mtx_c ! iel ! iqp ! 1 ! 1) (at2 c33 iel iqp) 0"
    using eval_block [OF assms] by blast
  note n = block_rows [OF assms]
  have s: "out ! iel ! iqp ! 0 ! 0 =
             - (at2 c33 iel iqp * (2 * first_coef a1 iel iqp + 2 * first_coef a2 iel iqp
                  * (mtx_c ! iel ! iqp ! 0 ! 0 + mtx_c ! iel ! iqp ! 1 ! 1)))
               * (mtx_c ! iel ! iqp ! 1 ! 1) * at2 c33 iel iqp + 2 * first_coef a1 iel iqp
             + 2 * first_coef a2 iel iqp * (mtx_c ! iel ! iqp ! 1 ! 1 + at2 c33 iel iqp)"
      "out ! iel ! iqp ! 1 ! 0 =
             - (at2 c33 iel iqp * (2 * first_coef a1 iel iqp + 2 * first_coef a2 iel iqp
                  * (mtx_c ! iel ! iqp ! 0 ! 0 + mtx_c ! iel ! iqp ! 1 ! 1)))
               * (mtx_c ! iel ! iqp ! 0 ! 0) * at2 c33 iel iqp + 2 * first_coef a1 iel iqp
             + 2 * first_coef a2 iel iqp * (mtx_c ! iel ! iqp ! 0 ! 0 + at2 c33 iel iqp)"
      "out ! iel ! iqp ! 2 ! 0 =
             (at2 c33 iel iqp * (2 * first_coef a1 iel iqp + 2 * first_coef a2 iel iqp
                  * (mtx_c ! iel ! iqp ! 0 ! 0 + mtx_c ! iel ! iqp ! 1 ! 1)))
               * (mtx_c ! iel ! iqp ! 0 ! 1) * at2 c33 iel iqp
             - 2 * first_coef a2 iel iqp * (mtx_c ! iel ! iqp ! 0 ! 1)"
    unfolding o(4) by (rule stress_qp [OF n])+
  show ?thesis
    unfolding Let_def using o(1,2,3) s by blast
qed

theorem stress_components_witness:
  "wf_batch [[[[1/2]]]] [[[[1/4]]]] [[[[2, 1], [1, 3]]]] [[1/5]]
   \<and> (\<exists>out. eval_membrane_mooney_rivlin (\<lambda>_ _ _ _. 0) [[[[1/2]]]] [[[[1/4]]]]
               [[[[2, 1], [1, 3]]]] [[1/5]] 0 = Inr out
         \<and> out ! 0 ! 0 ! 0 ! 0 = 109/50 \<and> out ! 0 ! 0 ! 1 ! 0 = 91/50
         \<and> out ! 0 ! 0 ! 2 ! 0 = - 9/25)"
proof -
  have h: "wf_batch [[[[1/2]]]] [[[[1/4]]]] [[[[2, 1], [1, 3]]]] [[1/5]]"
    by (simp add: wf_batch_def blocks_ge_def broadcastable_def shape1_def)
  have i: "(0::nat) < length [[[[2, 1], [1, 3::real]]]]"
    "(0::nat) < shape1 [[[[2, 1], [1, 3::real]]]]"
    by (simp_all add: shape1_def)
  show ?thesis
    using h stress_components [OF h i, of "\<lambda>_ _ _ _. 0"]
    by (auto simp add: first_coef_def at2_def bsel_def Let_def)
qed

lemma tangent_qp_entries:
  fixes a12 a22 c11 c12 c22 c33 :: real and u :: "nat \<Rightarrow> nat \<Rightarrow> real" and n :: nat and mode :: int
  assumes "3 \<le> n" "mode \<noteq> 0"
  defines "p \<equiv> c33 * (a12 + a22 * (c11 + c22))"
  defines "D \<equiv> mooney_rivlin_qp u n a12 a22 c11 c12 c22 c33 mode"
  shows "D ! 0 ! 0 = - 2 * ((a22 - p * c22) * c22 * c33\<^sup>2
                            + c33 * c22 * (a22 * c33 - p * c22 * c33))"
    and "D ! 1 ! 1 = - 2 * ((a22 - p * c11) * c11 * c33\<^sup>2
                            + c33 * c11 * (a22 * c33 - p * c11 * c33))"
    and "D ! 2 ! 2 = - a22 + p * (c33 + 2 * c12\<^sup>2 * c33\<^sup>2)
                     + c12 * c33 * (2 * p * c12 * c33)"
    and "D ! 1 ! 0 = 2 * ((a22 - p * c33 - (a22 - p * c11) * c22 * c33\<^sup>2)
                          - c33 * c11 * (a22 * c33 - p * c22 * c33))"
    and "D ! 2 ! 0 = 2 * (- p * c12 * c22 * c33\<^sup>2
                          + c12 * c33 * (a22 * c33 - p * c22 * c33))"
    and "D ! 2 ! 1 = 2 * (- p * c12 * c11 * c33\<^sup>2
                          + c12 * c33 * (a22 * c33 - p * c11 * c33))"
    and "D ! 0 ! 1 = D ! 1 ! 0" and "D ! 0 ! 2 = D ! 2 ! 0" and "D ! 1 ! 2 = D ! 2 ! 1"
  using assms(1,2) unfolding p_def D_def
  by (simp_all add: mooney_rivlin_qp_def Let_def out_simps)

subsection \<open>Tangent\<close>

text \<open>
  Claim C3. For every well-formed input batch, the tangent block \<open>D\<close> returned in mode 1
  (any mode other than 0 takes that branch) is symmetric, \<open>D[i][j] = D[j][i]\<close> for
  \<open>i, j\<close> in \<open>{0, 1, 2}\<close>, and the entries above the diagonal are copies of the
  entries computed below it: \<open>D12 = D21\<close>, \<open>D13 = D31\<close>, \<open>D23 = D32\<close>, each with the
  value of the formula that the function evaluates for the lower triangle.
\<close>

theorem tangent_symmetric:
  assumes "wf_batch a1 a2 mtx_c c33" "iel < length mtx_c" "iqp < shape1 mtx_c"
    and "mode \<noteq> 0"
  shows "\<exists>D. eval_membrane_mooney_rivlin u a1 a2 mtx_c c33 mode = Inr D
           \<and> (\<forall>i<3. \<forall>j<3. D ! iel ! iqp ! i ! j = D ! iel ! iqp ! j ! i)
           \<and> (let a22 = 2 * first_coef a2 iel iqp;
                   C11 = mtx_c ! iel ! iqp ! 0 ! 0; C12 = mtx_c ! iel ! iqp ! 0 ! 1;
                   C22 = mtx_c ! iel ! iqp ! 1 ! 1; C33 = at2 c33 iel iqp;
                   pressure = C33 * (2 * first_coef a1 iel iqp + a22 * (C11 + C22));
                   dp11 = a22 * C33 - pressure * C22 * C33;
                   dp22 = a22 * C33 - pressure * C11 * C33;
                   D21 = 2 * ((a22 - pressure * C33 - (a22 - pressure * C11) * C22 * C33\<^sup>2)
                              - C33 * C11 * dp11);
                   D31 = 2 * (- pressure * C12 * C22 * C33\<^sup>2 + C12 * C33 * dp11);
                   D32 = 2 * (- pressure * C12 * C11 * C33\<^sup>2 + C12 * C33 * dp22)
               in D ! iel ! iqp ! 1 ! 0 = D21 \<and> D ! iel ! iqp ! 0 ! 1 = D21
                  \<and> D ! iel ! iqp ! 2 ! 0 = D31 \<and> D ! iel ! iqp ! 0 ! 2 = D31
                  \<and> D ! iel ! iqp ! 2 ! 1 = D32 \<and> D ! iel ! iqp ! 1 ! 2 = D32)"
proof -
  obtain D where o: "eval_membrane_mooney_rivlin u a1 a2 mtx_c c33 mode = Inr D"
      "D ! iel ! iqp =
         mooney_rivlin_qp (u iel iqp) (dim2sym (length (mtx_c ! iel ! iqp)))
           (2 * first_coef a1 iel iqp) (2 * first_coef a2 iel iqp)
           (mtx_c ! iel ! iqp ! 0 ! 0) (mtx_c ! iel ! iqp ! 0 ! 1)
           (mtx_c ! iel ! iqp ! 1 ! 1) (at2 c33 iel iqp) mode"
    using eval_block [OF assms(1,2,3)] by blast
  note n = block_rows [OF assms(1,2,3)]
  note e = tangent_qp_entries [OF n assms(4)]
  have s: "\<forall>i<3. \<forall>j<3. D ! iel ! iqp ! i ! j = D ! iel ! iqp ! j ! i"
    unfolding o(2) using tangent_qp_sym [OF n assms(4)] by blast
  show ?thesis
    unfolding Let_def
    by (rule exI [of _ D], intro conjI, rule o(1), rule s; unfold o(2))
      (simp_all only: e(4,5,6) e(7,8,9))
qed

theorem tangent_symmetric_witness:
  "wf_batch [[[[1/2]]]] [[[[1/4]]]] [[[[2, 1], [1, 3]]]] [[1/5]]
   \<and> (\<exists>D. eval_membrane_mooney_rivlin (\<lambda>_ _ _ _. 0) [[[[1/2]]]] [[[[1/4]]]]
               [[[[2, 1], [1, 3]]]] [[1/5]] 1 = Inr D
         \<and> (\<forall>i<3. \<forall>j<3. D ! 0 ! 0 ! i ! j = D ! 0 ! 0 ! j ! i)
         \<and> D ! 0 ! 0 ! 1 ! 0 = D ! 0 ! 0 ! 0 ! 1)"
proof -
  have h: "wf_batch [[[[1/2]]]] [[[[1/4]]]] [[[[2, 1], [1, 3]]]] [[1/5]]"
    by (simp add: wf_batch_def blocks_ge_def broadcastable_def shape1_def)
  have i: "(0::nat) < length [[[[2, 1], [1, 3::real]]]]"
    "(0::nat) < shape1 [[[[2, 1], [1, 3::real]]]]"
    by (simp_all add: shape1_def)
  have m: "(1::int) \<noteq> 0" by simp
  obtain D where d: "eval_membrane_mooney_rivlin (\<lambda>_ _ _ _. 0) [[[[1/2]]]] [[[[1/4]]]]
               [[[[2, 1], [1, 3]]]] [[1/5]] 1 = Inr D"
      "\<forall>i<3. \<forall>j<3. D ! 0 ! 0 ! i ! j = D ! 0 ! 0 ! j ! i"
    using tangent_symmetric [OF h i m, of "\<lambda>_ _ _ _. 0"] unfolding Let_def by blast
  have "D ! 0 ! 0 ! 1 ! 0 = D ! 0 ! 0 ! 0 ! 1"
    using d(2) by simp
  then show ?thesis
    using h d by blast
qed

subsection \<open>Dependence on the material coefficients\<close>

text \<open>
  Claim C8. In every mode, two pairs of coefficient arrays that agree in their first
  components \<^verbatim>\<open>[..., 0, 0]\<close> give the same result, whatever their other components are:
  the function reads \<open>a1\<close> and \<open>a2\<close> through their first coefficients only.
\<close>

theorem first_coefficient_only:
  assumes "idx_last2 a1 0 0 = idx_last2 a1' 0 0" "idx_last2 a2 0 0 = idx_last2 a2' 0 0"
  shows "eval_membrane_mooney_rivlin u a1 a2 mtx_c c33 mode =
         eval_membrane_mooney_rivlin u a1' a2' mtx_c c33 mode"
  unfolding eval_membrane_mooney_rivlin_def assms ..

theorem first_coefficient_only_witness:
  "idx_last2 [[[[1/2, 7], [8, 9]]]] 0 0 = idx_last2 [[[[1/2]]]] 0 0
   \<and> idx_last2 [[[[1/4, 3]]]] 0 0 = idx_last2 [[[[1/4], [5]]]] 0 0
   \<and> eval_membrane_mooney_rivlin (\<lambda>_ _ _ _. 0) [[[[1/2, 7], [8, 9]]]] [[[[1/4, 3]]]]
        [[[[2, 1], [1, 3]]]] [[1/5]] 1 =
      eval_membrane_mooney_rivlin (\<lambda>_ _ _ _. 0) [[[[1/2]]]] [[[[1/4], [5]]]]
        [[[[2, 1], [1, 3]]]] [[1/5]] 1"
proof -
  have h: "idx_last2 [[[[1/2, 7], [8, 9]]]] 0 0 = idx_last2 [[[[1/2]]]] 0 0"
    "idx_last2 [[[[1/4, 3]]]] 0 0 = idx_last2 [[[[1/4], [5]]]] 0 0"
    by (simp_all add: idx_last2_def)
  show ?thesis
    using h first_coefficient_only [OF h] by blast
qed

subsection \<open>One element, one quadrature point\<close>

lemma wf_single: "wf_batch [[[[a1]]]] [[[[a2]]]] [[[[c11, c12], [c12, c22]]]] [[c33]]"
  by (simp add: wf_batch_def blocks_ge_def broadcastable_def shape1_def)

lemma eval_single:
  "eval_membrane_mooney_rivlin u [[[[a1]]]] [[[[a2]]]] [[[[c11, c12], [c12, c22]]]] [[c33]] mode
     = Inr [[mooney_rivlin_qp (u 0 0) 3 (2 * a1) (2 * a2) c11 c12 c22 c33 mode]]"
  by (simp add: eval_ok [OF wf_single] shape1_def first_coef_def at2_def bsel_def dim2sym_def
      numeral_3_eq_3)

lemma stress_at_eq:
  "stress_at a1 a2 c11 c22 c12 c33 0 =
     - (c33 * (2 * a1 + 2 * a2 * (c11 + c22))) * c22 * c33 + 2 * a1 + 2 * a2 * (c22 + c33)"
  "stress_at a1 a2 c11 c22 c12 c33 1 =
     - (c33 * (2 * a1 + 2 * a2 * (c11 + c22))) * c11 * c33 + 2 * a1 + 2 * a2 * (c11 + c33)"
  "stress_at a1 a2 c11 c22 c12 c33 2 =
     (c33 * (2 * a1 + 2 * a2 * (c11 + c22))) * c12 * c33 - 2 * a2 * c12"
  unfolding stress_at_def eval_single by (simp_all add: stress_qp_3)

lemma tangent_at_eq:
  fixes a1 a2 c11 c22 c12 c33 :: real
  defines "p \<equiv> c33 * (2 * a1 + 2 * a2 * (c11 + c22))"
  shows "tangent_at a1 a2 c11 c22 c12 c33 0 0 =
           - 2 * ((2 * a2 - p * c22) * c22 * c33\<^sup>2 + c33 * c22 * (2 * a2 * c33 - p * c22 * c33))"
    and "tangent_at a1 a2 c11 c22 c12 c33 1 1 =
           - 2 * ((2 * a2 - p * c11) * c11 * c33\<^sup>2 + c33 * c11 * (2 * a2 * c33 - p * c11 * c33))"
    and "tangent_at a1 a2 c11 c22 c12 c33 2 2 =
           - (2 * a2) + p * (c33 + 2 * c12\<^sup>2 * c33\<^sup>2) + c12 * c33 * (2 * p * c12 * c33)"
    and "tangent_at a1 a2 c11 c22 c12 c33 1 0 =
           2 * ((2 * a2 - p * c33 - (2 * a2 - p * c11) * c22 * c33\<^sup>2)
                - c33 * c11 * (2 * a2 * c33 - p * c22 * c33))"
    and "tangent_at a1 a2 c11 c22 c12 c33 2 0 =
           2 * (- p * c12 * c22 * c33\<^sup>2 + c12 * c33 * (2 * a2 * c33 - p * c22 * c33))"
    and "tangent_at a1 a2 c11 c22 c12 c33 2 1 =
           2 * (- p * c12 * c11 * c33\<^sup>2 + c12 * c33 * (2 * a2 * c33 - p * c11 * c33))"
    and "tangent_at a1 a2 c11 c22 c12 c33 0 1 = tangent_at a1 a2 c11 c22 c12 c33 1 0"
    and "tangent_at a1 a2 c11 c22 c12 c33 0 2 = tangent_at a1 a2 c11 c22 c12 c33 2 0"
    and "tangent_at a1 a2 c11 c22 c12 c33 1 2 = tangent_at a1 a2 c11 c22 c12 c33 2 1"
proof -
  have n: "(3::nat) \<le> 3" and m: "(1::int) \<noteq> 0" by simp_all
  note e = tangent_qp_entries [OF n m, where u = "\<lambda>_ _. 0" and ?a12.0 = "2 * a1"
      and ?a22.0 = "2 * a2" and ?c11.0 = c11 and ?c12.0 = c12 and ?c22.0 = c22 and ?c33.0 = c33]
  show "tangent_at a1 a2 c11 c22 c12 c33 0 0 =
           - 2 * ((2 * a2 - p * c22) * c22 * c33\<^sup>2 + c33 * c22 * (2 * a2 * c33 - p * c22 * c33))"
    and "tangent_at a1 a2 c11 c22 c12 c33 1 1 =
           - 2 * ((2 * a2 - p * c11) * c11 * c33\<^sup>2 + c33 * c11 * (2 * a2 * c33 - p * c11 * c33))"
    and "tangent_at a1 a2 c11 c22 c12 c33 2 2 =
           - (2 * a2) + p * (c33 + 2 * c12\<^sup>2 * c33\<^sup>2) + c12 * c33 * (2 * p * c12 * c33)"
    and "tangent_at a1 a2 c11 c22 c12 c33 1 0 =
           2 * ((2 * a2 - p * c33 - (2 * a2 - p * c11) * c22 * c33\<^sup>2)
                - c33 * c11 * (2 * a2 * c33 - p * c22 * c33))"
    and "tangent_at a1 a2 c11 c22 c12 c33 2 0 =
           2 * (- p * c12 * c22 * c33\<^sup>2 + c12 * c33 * (2 * a2 * c33 - p * c22 * c33))"
    and "tangent_at a1 a2 c11 c22 c12 c33 2 1 =
           2 * (- p * c12 * c11 * c33\<^sup>2 + c12 * c33 * (2 * a2 * c33 - p * c11 * c33))"
    and "tangent_at a1 a2 c11 c22 c12 c33 0 1 = tangent_at a1 a2 c11 c22 c12 c33 1 0"
    and "tangent_at a1 a2 c11 c22 c12 c33 0 2 = tangent_at a1 a2 c11 c22 c12 c33 2 0"
    and "tangent_at a1 a2 c11 c22 c12 c33 1 2 = tangent_at a1 a2 c11 c22 c12 c33 2 1"
    unfolding tangent_at_def eval_single p_def sum.case nth_Cons_0
    by (rule e)+
qed

subsection \<open>Rounding to binary64\<close>

lemma rne_of_int: "rne (of_int n) = n"
  by (simp add: rne_def)

lemma rne_error: "\<bar>of_int (rne x) - x\<bar> \<le> 1 / 2"
  unfolding rne_def Let_def by (auto simp: abs_le_iff)

lemma rne_minus: "rne (- x) = - rne x"
proof (cases "x \<in> \<int>")
  case True
  then obtain n where "x = of_int n" by (auto elim: Ints_cases)
  then show ?thesis
    using rne_of_int [of n] rne_of_int [of "- n"] by simp
next
  case False
  have "x \<noteq> of_int \<lfloor>x\<rfloor>"
    using False by (metis Ints_of_int)
  then have "of_int \<lfloor>x\<rfloor> < x" "x < of_int \<lfloor>x\<rfloor> + 1"
    by linarith+
  then have f: "\<lfloor>- x\<rfloor> = - \<lfloor>x\<rfloor> - 1"
    by (intro floor_unique) (simp, linarith, simp)
  have p: "even (- \<lfloor>x\<rfloor> - 1) \<longleftrightarrow> odd \<lfloor>x\<rfloor>" by simp
  show ?thesis
    unfolding rne_def Let_def f p by (auto simp: algebra_simps)
qed

lemma rne_ge: 
  assumes "of_int m \<le> x" shows "m \<le> rne x"
proof -
  have "m \<le> \<lfloor>x\<rfloor>" using assms by (simp add: le_floor_iff)
  then show ?thesis
    unfolding rne_def Let_def by auto
qed

lemma rne_le: "x \<le> of_int m \<Longrightarrow> rne x \<le> m"
  using rne_ge [of "- m" "- x"] by (simp add: rne_minus)

lemma rne_abs: "\<bar>rne x\<bar> = rne \<bar>x\<bar>"
proof (cases "0 \<le> x")
  case True
  then have "0 \<le> rne x" using rne_ge [of 0 x] by simp
  then show ?thesis using True by simp
next
  case False
  then have "rne x \<le> 0" using rne_le [of x 0] by simp
  then show ?thesis using False by (simp add: rne_minus abs_if)
qed

lemma binary64_0: "binary64 0 = 0"
  by (simp add: binary64_def)

lemma binary64_minus: "binary64 (- x) = - binary64 x"
  by (simp add: binary64_def Let_def rne_minus)

lemma binary64_exponent:
  assumes "x \<noteq> 0"
  shows "\<exists>k. k \<le> 1074 \<and> \<bar>x\<bar> * 2 powi k < 2 ^ 53
             \<and> (2 ^ 52 \<le> \<bar>x\<bar> * 2 powi k \<or> k = 1074)
             \<and> binary64 x = of_int (rne (x * 2 powi k)) * 2 powi (- k)"
proof -
  define l where "l = \<lfloor>log 2 \<bar>x\<bar>\<rfloor>"
  define e where "e = max l (- 1022)"
  have p: "0 < \<bar>x\<bar>" using assms by simp
  have "2 powr real_of_int l \<le> \<bar>x\<bar> \<and> \<bar>x\<bar> < 2 powr real_of_int (l + 1)"
    using floor_log_eq_powr_iff [OF p, of 2 l] by (simp add: l_def)
  then have b: "2 powi l \<le> \<bar>x\<bar>" "\<bar>x\<bar> < 2 powi (l + 1)"
    using powr_real_of_int' [of 2 l] powr_real_of_int' [of 2 "l + 1"] by simp_all
  have s: "(2::real) powi (52 - e) = 2 ^ 52 / 2 powi e"
    "(2::real) powi (52 - e) = 2 ^ 53 / 2 powi (e + 1)"
    by (simp_all add: power_int_diff power_int_add)
  have le: "l \<le> e" by (simp add: e_def)
  have "\<bar>x\<bar> < 2 powi (e + 1)"
    using b(2) power_int_increasing [of "l + 1" "e + 1" "2::real"] le by simp
  then have u: "\<bar>x\<bar> * 2 powi (52 - e) < 2 ^ 53"
    unfolding s(2) by (simp add: field_simps)
  have lo: "2 ^ 52 \<le> \<bar>x\<bar> * 2 powi (52 - e)" if "e = l"
    using b(1) that unfolding s(1) by (simp add: field_simps)
  have c: "2 ^ 52 \<le> \<bar>x\<bar> * 2 powi (52 - e) \<or> 52 - e = 1074"
    using lo by (auto simp: e_def max_def)
  have k: "52 - e \<le> 1074" by (simp add: e_def)
  have v: "binary64 x = of_int (rne (x * 2 powi (52 - e))) * 2 powi (- (52 - e))"
    using assms by (simp add: binary64_def Let_def l_def e_def)
  show ?thesis
    using k u c v by blast
qed

lemma binary64_scaled:
  assumes "k \<le> 1074" "\<bar>x\<bar> * 2 powi k < 2 ^ 53" "2 ^ 52 \<le> \<bar>x\<bar> * 2 powi k \<or> k = 1074"
  shows "binary64 x = of_int (rne (x * 2 powi k)) * 2 powi (- k)"
proof (cases "x = 0")
  case True
  then show ?thesis using rne_of_int [of 0] by (simp add: binary64_0)
next
  case False
  then obtain j where j: "j \<le> 1074" "\<bar>x\<bar> * 2 powi j < 2 ^ 53"
      "2 ^ 52 \<le> \<bar>x\<bar> * 2 powi j \<or> j = 1074"
      "binary64 x = of_int (rne (x * 2 powi j)) * 2 powi (- j)"
    using binary64_exponent by blast
  have p: "0 < \<bar>x\<bar>" using False by simp
  have d: "2 * (2::real) ^ 52 = 2 ^ 53" by simp
  have h: "\<bar>x\<bar> * 2 powi (a + 1) = 2 * (\<bar>x\<bar> * 2 powi a)" for a :: int
    by (simp add: power_int_add)
  have "\<not> j < k"
  proof
    assume "j < k"
    then have "j + 1 \<le> k" "j \<noteq> 1074" using assms(1) by simp_all
    then have "\<bar>x\<bar> * 2 powi (j + 1) \<le> \<bar>x\<bar> * 2 powi k"
      using p by (simp add: power_int_increasing)
    moreover have "2 ^ 53 \<le> \<bar>x\<bar> * 2 powi (j + 1)"
      using j(3) \<open>j \<noteq> 1074\<close> unfolding h by simp
    ultimately show False using assms(2) by simp
  qed
  moreover have "\<not> k < j"
  proof
    assume "k < j"
    then have "k + 1 \<le> j" "k \<noteq> 1074" using j(1) by simp_all
    then have "\<bar>x\<bar> * 2 powi (k + 1) \<le> \<bar>x\<bar> * 2 powi j"
      using p by (simp add: power_int_increasing)
    moreover have "2 ^ 53 \<le> \<bar>x\<bar> * 2 powi (k + 1)"
      using assms(3) \<open>k \<noteq> 1074\<close> unfolding h by simp
    ultimately show False using j(2) by simp
  qed
  ultimately have "j = k" by simp
  then show ?thesis using j(4) by simp
qed

lemma binary64_error: "\<bar>binary64 x - x\<bar> \<le> \<bar>x\<bar> / 2 ^ 53 + 1 / 2 ^ 1075"
proof (cases "x = 0")
  case True
  then show ?thesis by (simp add: binary64_0)
next
  case False
  then obtain k where k: "k \<le> 1074" "\<bar>x\<bar> * 2 powi k < 2 ^ 53"
      "2 ^ 52 \<le> \<bar>x\<bar> * 2 powi k \<or> k = 1074"
      "binary64 x = of_int (rne (x * 2 powi k)) * 2 powi (- k)"
    using binary64_exponent by blast
  define s :: real where "s = 2 powi k"
  have s: "0 < s" by (simp add: s_def)
  have i: "(2::real) powi (- k) = 1 / s"
    by (simp add: s_def power_int_minus field_simps)
  have "binary64 x - x = (of_int (rne (x * s)) - x * s) / s"
    using s unfolding k(4) i s_def [symmetric] by (simp add: field_simps)
  then have "\<bar>binary64 x - x\<bar> = \<bar>of_int (rne (x * s)) - x * s\<bar> / s"
    using s by simp
  also have "\<dots> \<le> (1 / 2) / s"
    using rne_error [of "x * s"] s by (intro divide_right_mono) simp_all
  finally have e: "\<bar>binary64 x - x\<bar> \<le> 1 / (2 * s)" by simp
  show ?thesis
  proof (cases "k = 1074")
    case True
    then have "s = 2 ^ 1074" by (simp add: s_def)
    then have "1 / (2 * s) = 1 / 2 ^ 1075" by simp
    then have "\<bar>binary64 x - x\<bar> \<le> 1 / 2 ^ 1075" using e by simp
    moreover have "0 \<le> \<bar>x\<bar> / 2 ^ 53" by simp
    ultimately show ?thesis by (rule order_trans [OF _ le_add_same_cancel2 [THEN iffD2]])
  next
    case False
    then have "2 ^ 52 \<le> \<bar>x\<bar> * s" using k(3) by (simp add: s_def)
    then have "1 / (2 * s) \<le> \<bar>x\<bar> / 2 ^ 53"
      using s by (simp add: field_simps)
    then have "\<bar>binary64 x - x\<bar> \<le> \<bar>x\<bar> / 2 ^ 53" using e by (rule order_trans [rotated])
    moreover have "(0::real) \<le> 1 / 2 ^ 1075" by simp
    ultimately show ?thesis by (rule order_trans [OF _ le_add_same_cancel1 [THEN iffD2]])
  qed
qed


lemma binary64_idem: "binary64 (binary64 x) = binary64 x"
proof (cases "x = 0")
  case True
  then show ?thesis by (simp add: binary64_0)
next
  case False
  then obtain k where k: "k \<le> 1074" "\<bar>x\<bar> * 2 powi k < 2 ^ 53"
      "2 ^ 52 \<le> \<bar>x\<bar> * 2 powi k \<or> k = 1074"
      "binary64 x = of_int (rne (x * 2 powi k)) * 2 powi (- k)"
    using binary64_exponent by blast
  define n where "n = rne (x * 2 powi k)"
  define y where "y = binary64 x"
  have y: "y = of_int n * 2 powi (- k)"
    by (simp add: y_def n_def k(4))
  have a: "\<bar>n\<bar> = rne (\<bar>x\<bar> * 2 powi k)"
    unfolding n_def rne_abs by (simp add: abs_mult)
  have "\<bar>x\<bar> * 2 powi k \<le> of_int (2 ^ 53)" using k(2) by simp
  then have le: "\<bar>n\<bar> \<le> 2 ^ 53" unfolding a by (rule rne_le)
  have ys: "y * 2 powi j = of_int n * 2 powi (j - k)" for j
    unfolding y by (simp add: power_int_diff power_int_minus field_simps)
  have ay: "\<bar>y\<bar> * 2 powi j = of_int \<bar>n\<bar> * 2 powi (j - k)" for j
  proof -
    have "\<bar>y\<bar> * 2 powi j = \<bar>y * 2 powi j\<bar>" by (simp add: abs_mult)
    also have "\<dots> = \<bar>of_int n * 2 powi (j - k)\<bar>" unfolding ys ..
    also have "\<dots> = of_int \<bar>n\<bar> * 2 powi (j - k)" by (simp add: abs_mult)
    finally show ?thesis .
  qed
  show ?thesis
  proof (cases "\<bar>n\<bar> = 2 ^ 53")
    case True
    have h: "(2::real) powi (- 1) = 1 / 2" by (simp add: power_int_minus)
    have "n = 2 * 2 ^ 52 \<or> n = 2 * - (2 ^ 52)" using True by (simp add: abs_if split: if_splits)
    then obtain m where m: "n = 2 * m" by blast
    have "\<bar>y\<bar> * 2 powi (k - 1) = 2 ^ 52"
      unfolding ay True by (simp add: h)
    then have "binary64 y = of_int (rne (y * 2 powi (k - 1))) * 2 powi (- (k - 1))"
      using k(1) by (intro binary64_scaled) simp_all
    moreover have "y * 2 powi (k - 1) = of_int m"
      unfolding ys m by (simp add: h)
    moreover have "of_int m * (2::real) powi (- (k - 1)) = y"
      unfolding y m by (simp add: power_int_diff power_int_minus field_simps)
    ultimately show ?thesis
      by (simp add: rne_of_int y_def [symmetric])
  next
    case False
    then have lt: "\<bar>n\<bar> < 2 ^ 53" using le by simp
    have "\<bar>y\<bar> * 2 powi k = of_int \<bar>n\<bar>" unfolding ay by simp
    moreover have "2 ^ 52 \<le> \<bar>n\<bar>" if "2 ^ 52 \<le> \<bar>x\<bar> * 2 powi k"
      unfolding a using that by (intro rne_ge) simp
    ultimately have "binary64 y = of_int (rne (y * 2 powi k)) * 2 powi (- k)"
      using k(1,3) lt by (intro binary64_scaled) auto
    moreover have "y * 2 powi k = of_int n" unfolding ys by simp
    ultimately have "binary64 y = of_int n * 2 powi (- k)" by (simp only: rne_of_int)
    then show ?thesis unfolding y [symmetric] y_def .
  qed
qed

lemma rne_numeral: "rne (numeral n) = numeral n" "rne (- numeral n) = - numeral n"
  using rne_of_int [of "numeral n"] rne_of_int [of "- numeral n"] by simp_all

lemma binary64_2: "binary64 2 = 2"
proof -
  have "binary64 2 = of_int (rne (2 * 2 powi 51)) * 2 powi (- 51)"
    by (rule binary64_scaled) simp_all
  then show ?thesis
    by (simp add: rne_numeral power_int_minus)
qed

lemma binary64_eval:
  assumes "rne (x * 2 ^ k) = n" "2 ^ 52 \<le> \<bar>x\<bar> * 2 ^ k" "\<bar>x\<bar> * 2 ^ k < 2 ^ 53" "k \<le> 1074"
  shows "binary64 x = of_int n / 2 ^ k"
  using binary64_scaled [of "int k" x] assms
  by (simp add: power_int_minus field_simps)


subsection \<open>The membrane law in rounded arithmetic\<close>

lemma mooney_rivlin_qp_fl_exact:
  "mooney_rivlin_qp_fl (\<lambda>x. x) u n a12 a22 c11 c12 c22 c33 mode =
     mooney_rivlin_qp u n a12 a22 c11 c12 c22 c33 mode"
  unfolding mooney_rivlin_qp_fl_def mooney_rivlin_qp_def add_fl_def sub_fl_def mul_fl_def
    sq_fl_def ..

lemma eval_fl_exact:
  "eval_membrane_mooney_rivlin_fl (\<lambda>x. x) u a1 a2 mtx_c c33 mode =
     eval_membrane_mooney_rivlin u a1 a2 mtx_c c33 mode"
  unfolding eval_membrane_mooney_rivlin_fl_def eval_membrane_mooney_rivlin_def
    mooney_rivlin_qp_fl_exact mul_fl_def ..

lemma eval_fl_ok:
  assumes "wf_batch a1 a2 mtx_c c33"
  shows "eval_membrane_mooney_rivlin_fl fl u a1 a2 mtx_c c33 mode =
           Inr (map (\<lambda>iel. map (\<lambda>iqp.
                  mooney_rivlin_qp_fl fl (u iel iqp) (dim2sym (length (mtx_c ! iel ! iqp)))
                    (mul_fl fl 2 (first_coef a1 iel iqp)) (mul_fl fl 2 (first_coef a2 iel iqp))
                    (mtx_c ! iel ! iqp ! 0 ! 0) (mtx_c ! iel ! iqp ! 0 ! 1)
                    (mtx_c ! iel ! iqp ! 1 ! 1) (at2 c33 iel iqp) mode)
                  [0..<shape1 mtx_c]) [0..<length mtx_c])"
proof -
  have b1: "blocks_ge (Suc 0) (Suc 0) a1" and b2: "blocks_ge (Suc 0) (Suc 0) a2"
    and bc: "blocks_ge 2 2 mtx_c"
    and r: "list_all (\<lambda>r. length r = shape1 mtx_c) mtx_c"
    and c1: "broadcastable (length mtx_c) (shape1 mtx_c) a1"
    and c2: "broadcastable (length mtx_c) (shape1 mtx_c) a2"
    and c3: "broadcastable (length mtx_c) (shape1 mtx_c) c33"
    using assms by (simp_all add: wf_batch_def)
  have i00: "idx_last2 mtx_c 0 0 = Inr (map (map (\<lambda>m. m ! 0 ! 0)) mtx_c)"
    by (rule idx_last2_ok) (rule blocks_ge_mono [OF bc], simp_all)
  have i01: "idx_last2 mtx_c 0 (Suc 0) = Inr (map (map (\<lambda>m. m ! 0 ! Suc 0)) mtx_c)"
    using idx_last2_ok [of 0 "Suc 0" mtx_c] blocks_ge_mono [OF bc, of "Suc 0" 2]
    by (simp add: numeral_2_eq_2)
  have i11: "idx_last2 mtx_c (Suc 0) (Suc 0) = Inr (map (map (\<lambda>m. m ! Suc 0 ! Suc 0)) mtx_c)"
    using idx_last2_ok [of "Suc 0" "Suc 0" mtx_c] bc by (simp add: numeral_2_eq_2)
  have row: "length (mtx_c ! iel) = shape1 mtx_c" if "iel < length mtx_c" for iel
    using r that by (simp add: list_all_length)
  show ?thesis
    unfolding eval_membrane_mooney_rivlin_fl_def
    by (simp add: idx_last2_ok [OF b1] idx_last2_ok [OF b2] i00 i01 i11 bind_exn_def
        c1 c2 c3 row first_coef_def at2_map [OF c1] at2_map [OF c2] cong: map_cong)
qed

lemma eval_fl_block:
  assumes "wf_batch a1 a2 mtx_c c33" "iel < length mtx_c" "iqp < shape1 mtx_c"
  shows "\<exists>out. eval_membrane_mooney_rivlin_fl fl u a1 a2 mtx_c c33 mode = Inr out
           \<and> out ! iel ! iqp =
               mooney_rivlin_qp_fl fl (u iel iqp) (dim2sym (length (mtx_c ! iel ! iqp)))
                 (mul_fl fl 2 (first_coef a1 iel iqp)) (mul_fl fl 2 (first_coef a2 iel iqp))
                 (mtx_c ! iel ! iqp ! 0 ! 0) (mtx_c ! iel ! iqp ! 0 ! 1)
                 (mtx_c ! iel ! iqp ! 1 ! 1) (at2 c33 iel iqp) mode"
  using assms(2,3) by (simp add: eval_fl_ok [OF assms(1)])

lemma stress_qp_f64_undeformed:
  "mooney_rivlin_qp_fl binary64 u 3 a12 a22 1 0 1 1 0 =
     [[residue a12 a22], [residue a12 a22], [0]]"
proof -
  have t: "binary64 (1 + 1) = 2" using binary64_2 by simp
  have m: "binary64 (- binary64 x) = - binary64 x" for x
    by (simp add: binary64_minus binary64_idem)
  show ?thesis
    by (simp add: mooney_rivlin_qp_fl_def Let_def empty2_def set2_def upt_rec numeral_3_eq_3
        add_fl_def sub_fl_def mul_fl_def t m binary64_2 binary64_idem binary64_0 residue_def
        add.commute [of "- binary64 x" for x])
qed

subsection \<open>The undeformed membrane\<close>

lemma undeformed_stress_exact:
  assumes "wf_batch a1 a2 mtx_c c33" "iel < length mtx_c" "iqp < shape1 mtx_c"
    and "mtx_c ! iel ! iqp = [[1, 0], [0, 1]]" "at2 c33 iel iqp = 1"
  shows "\<exists>S. eval_membrane_mooney_rivlin u a1 a2 mtx_c c33 0 = Inr S
           \<and> S ! iel ! iqp = [[0], [0], [0]]"
proof -
  obtain S where o: "eval_membrane_mooney_rivlin u a1 a2 mtx_c c33 0 = Inr S"
      "S ! iel ! iqp =
         mooney_rivlin_qp (u iel iqp) (dim2sym (length (mtx_c ! iel ! iqp)))
           (2 * first_coef a1 iel iqp) (2 * first_coef a2 iel iqp)
           (mtx_c ! iel ! iqp ! 0 ! 0) (mtx_c ! iel ! iqp ! 0 ! 1)
           (mtx_c ! iel ! iqp ! 1 ! 1) (at2 c33 iel iqp) 0"
    using eval_block [OF assms(1,2,3)] by blast
  have d: "dim2sym (length (mtx_c ! iel ! iqp)) = 3"
    by (simp add: assms(4) dim2sym_def)
  have "S ! iel ! iqp = [[0], [0], [0]]"
    unfolding o(2) d by (simp add: assms(4,5) stress_qp_3)
  with o(1) show ?thesis by blast
qed

lemma residue_bound_aux:
  fixes A B h Da Db Dt E4 E5 E6 R :: real
  assumes "0 \<le> A" "0 \<le> B" "0 \<le> h"
    "Da \<le> 2 * A + 2 * A / 2 ^ 53 + h"
    "Db \<le> 2 * B + 2 * B / 2 ^ 53 + h"
    "Dt \<le> 2 * Db + 2 * Db / 2 ^ 53 + h"
    "E4 \<le> (Da + Dt) / 2 ^ 53 + h"
    "E5 \<le> (Dt + E4) / 2 ^ 53 + h"
    "E6 \<le> (E4 + E5) / 2 ^ 53 + h"
    "R \<le> E4 + E5 + E6"
  shows "R \<le> (A + 4 * B) / 2 ^ 51 + 8 * h"
proof -
  have s1: "Dt \<le> (4 + 1 / 8) * B + 4 * h"
    using assms(2,3,5,6) by (simp add: add_divide_distrib)
  have s2: "Da \<le> (2 + 1 / 8) * A + h"
    using assms(1,4) by (simp add: add_divide_distrib)
  have s3: "E4 \<le> ((2 + 1 / 8) * A + (4 + 1 / 8) * B) / 2 ^ 53 + 2 * h"
    using assms(3,7) s1 s2 by (simp add: add_divide_distrib)
  have s4: "E5 \<le> (A / 8 + (4 + 1 / 4) * B) / 2 ^ 53 + 2 * h"
    using assms(1,2,3,8) s1 s3 by (simp add: add_divide_distrib)
  have s5: "E6 \<le> (A / 8 + B / 8) / 2 ^ 53 + 2 * h"
    using assms(1,2,3,9) s3 s4 by (simp add: add_divide_distrib)
  show ?thesis
    using assms(1,2,3,10) s3 s4 s5 by (simp add: add_divide_distrib)
qed

lemma example_rounding:
  "binary64 (2 * (3602879701896397 / 2 ^ 55)) = 3602879701896397 / 2 ^ 54"
  "binary64 (3602879701896397 / 2 ^ 54 * 2) = 3602879701896397 / 2 ^ 53"
  "binary64 (3602879701896397 / 2 ^ 54 + 3602879701896397 / 2 ^ 53) = 5404319552844596 / 2 ^ 53"
  "binary64 (3602879701896397 / 2 ^ 54 - 5404319552844596 / 2 ^ 53) = - (7205759403792795 / 2 ^ 54)"
  "binary64 (- (7205759403792795 / 2 ^ 54) + 3602879701896397 / 2 ^ 53) = - (1 / 2 ^ 54)"
proof -
  show "binary64 (2 * (3602879701896397 / 2 ^ 55)) = 3602879701896397 / 2 ^ 54"
    using binary64_eval [of "2 * (3602879701896397 / 2 ^ 55)" 55 7205759403792794]
    by (simp add: rne_numeral)
  show "binary64 (3602879701896397 / 2 ^ 54 * 2) = 3602879701896397 / 2 ^ 53"
    using binary64_eval [of "3602879701896397 / 2 ^ 54 * 2" 54 7205759403792794]
    by (simp add: rne_numeral)
  show "binary64 (3602879701896397 / 2 ^ 54 + 3602879701896397 / 2 ^ 53) = 5404319552844596 / 2 ^ 53"
    using binary64_eval [of "3602879701896397 / 2 ^ 54 + 3602879701896397 / 2 ^ 53" 53 5404319552844596]
    by (simp add: rne_def)
  show "binary64 (3602879701896397 / 2 ^ 54 - 5404319552844596 / 2 ^ 53) = - (7205759403792795 / 2 ^ 54)"
    using binary64_eval [of "3602879701896397 / 2 ^ 54 - 5404319552844596 / 2 ^ 53" 54 "- 7205759403792795"]
    by (simp add: rne_numeral)
  show "binary64 (- (7205759403792795 / 2 ^ 54) + 3602879701896397 / 2 ^ 53) = - (1 / 2 ^ 54)"
    using binary64_eval [of "- (7205759403792795 / 2 ^ 54) + 3602879701896397 / 2 ^ 53" 106 "- (2 ^ 52)"]
    by (simp add: rne_numeral)
qed

lemma binary64_error_le:
  assumes "\<bar>x\<bar> \<le> b"
  shows "\<bar>binary64 x - x\<bar> \<le> b / 2 ^ 53 + 1 / 2 ^ 1075"
proof -
  have "\<bar>x\<bar> / 2 ^ 53 \<le> b / 2 ^ 53"
    using assms by (intro divide_right_mono) simp_all
  then show ?thesis
    by (rule order_trans [OF binary64_error add_right_mono])
qed

lemma residue_bound:
  "\<bar>residue (binary64 (2 * x)) (binary64 (2 * y))\<bar>
     \<le> (\<bar>x\<bar> + 4 * \<bar>y\<bar>) / 2 ^ 51 + 1 / 2 ^ 1072"
proof -
  define h :: real where "h = 1 / 2 ^ 1075"
  define a12 where "a12 = binary64 (2 * x)"
  define a22 where "a22 = binary64 (2 * y)"
  define t where "t = binary64 (a22 * 2)"
  define v where "v = binary64 (a12 + t)"
  define q where "q = binary64 (a12 - v)"
  define r where "r = binary64 (q + t)"
  note e = binary64_error_le [folded h_def]
  have h: "0 \<le> h" by (simp add: h_def)
  have "\<bar>a12 - 2 * x\<bar> \<le> 2 * \<bar>x\<bar> / 2 ^ 53 + h"
    unfolding a12_def by (rule e) simp
  then have Da: "\<bar>a12\<bar> \<le> 2 * \<bar>x\<bar> + 2 * \<bar>x\<bar> / 2 ^ 53 + h"
    by linarith
  have "\<bar>a22 - 2 * y\<bar> \<le> 2 * \<bar>y\<bar> / 2 ^ 53 + h"
    unfolding a22_def by (rule e) simp
  then have Db: "\<bar>a22\<bar> \<le> 2 * \<bar>y\<bar> + 2 * \<bar>y\<bar> / 2 ^ 53 + h"
    by linarith
  have "\<bar>t - a22 * 2\<bar> \<le> 2 * \<bar>a22\<bar> / 2 ^ 53 + h"
    unfolding t_def by (rule e) simp
  then have Dt: "\<bar>t\<bar> \<le> 2 * \<bar>a22\<bar> + 2 * \<bar>a22\<bar> / 2 ^ 53 + h"
    by linarith
  have E4: "\<bar>v - (a12 + t)\<bar> \<le> (\<bar>a12\<bar> + \<bar>t\<bar>) / 2 ^ 53 + h"
    unfolding v_def by (rule e) simp
  have "\<bar>a12 - v\<bar> \<le> \<bar>t\<bar> + \<bar>v - (a12 + t)\<bar>"
    by linarith
  then have E5: "\<bar>q - (a12 - v)\<bar> \<le> (\<bar>t\<bar> + \<bar>v - (a12 + t)\<bar>) / 2 ^ 53 + h"
    unfolding q_def by (rule e)
  have "\<bar>q + t\<bar> \<le> \<bar>v - (a12 + t)\<bar> + \<bar>q - (a12 - v)\<bar>"
    by linarith
  then have E6: "\<bar>r - (q + t)\<bar> \<le> (\<bar>v - (a12 + t)\<bar> + \<bar>q - (a12 - v)\<bar>) / 2 ^ 53 + h"
    unfolding r_def by (rule e)
  have R: "\<bar>r\<bar> \<le> \<bar>v - (a12 + t)\<bar> + \<bar>q - (a12 - v)\<bar> + \<bar>r - (q + t)\<bar>"
    by linarith
  have "\<bar>r\<bar> \<le> (\<bar>x\<bar> + 4 * \<bar>y\<bar>) / 2 ^ 51 + 8 * h"
    by (rule residue_bound_aux [OF _ _ h Da Db Dt E4 E5 E6 R]) simp_all
  moreover have "r = residue (binary64 (2 * x)) (binary64 (2 * y))"
    by (simp add: residue_def r_def q_def v_def t_def a12_def a22_def)
  moreover have "8 * h = 1 / 2 ^ 1072"
    by (simp add: h_def)
  ultimately show ?thesis by simp
qed


lemma eval_f64_single:
  "eval_membrane_mooney_rivlin_f64 u [[[[a1]]]] [[[[a2]]]] [[[[c11, c12], [c12, c22]]]] [[c33]]
       mode
     = Inr [[mooney_rivlin_qp_fl binary64 (u 0 0) 3 (binary64 (2 * a1)) (binary64 (2 * a2))
               c11 c12 c22 c33 mode]]"
  by (simp add: eval_membrane_mooney_rivlin_f64_def eval_fl_ok [OF wf_single] shape1_def
      first_coef_def at2_def bsel_def dim2sym_def numeral_3_eq_3 mul_fl_def)

text \<open>
  Claim C4, as amended. At a point where the in-plane block of \<open>mtx_c\<close> is the identity
  (\<open>C11 = C22 = 1\<close>, \<open>C12 = 0\<close>) and \<open>c33 = 1\<close>, the stress returned in mode 0 is the zero
  vector when the arithmetic is exact. In the binary64 arithmetic of numpy, for
  coefficients \<open>a1\<close>, \<open>a2\<close> of magnitude at most \<open>2 ^ 1020\<close>, so that no result
  overflows, \<open>S12\<close> is zero and \<open>S11 = S22\<close> is what the roundings leave of
  \<open>- pressure + a12 + a22 * 2\<close>: its magnitude is at most
  \<open>(\<bar>a1\<bar> + 4 * \<bar>a2\<bar>) / 2 ^ 51 + 1 / 2 ^ 1072\<close>, and it is not always zero.
\<close>

theorem zero_displacement_stress_residue:
  assumes "wf_batch a1 a2 mtx_c c33" "iel < length mtx_c" "iqp < shape1 mtx_c"
    and "mtx_c ! iel ! iqp = [[1, 0], [0, 1]]" "at2 c33 iel iqp = 1"
    and "\<bar>first_coef a1 iel iqp\<bar> \<le> 2 ^ 1020" "\<bar>first_coef a2 iel iqp\<bar> \<le> 2 ^ 1020"
  shows "(\<exists>S. eval_membrane_mooney_rivlin u a1 a2 mtx_c c33 0 = Inr S
              \<and> S ! iel ! iqp = [[0], [0], [0]])
         \<and> (\<exists>S r. eval_membrane_mooney_rivlin_f64 u a1 a2 mtx_c c33 0 = Inr S
                \<and> S ! iel ! iqp = [[r], [r], [0]]
                \<and> r = residue (binary64 (2 * first_coef a1 iel iqp))
                          (binary64 (2 * first_coef a2 iel iqp))
                \<and> \<bar>r\<bar> \<le> (\<bar>first_coef a1 iel iqp\<bar> + 4 * \<bar>first_coef a2 iel iqp\<bar>) / 2 ^ 51
                          + 1 / 2 ^ 1072)"
proof -
  obtain S where o: "eval_membrane_mooney_rivlin_fl binary64 u a1 a2 mtx_c c33 0 = Inr S"
      "S ! iel ! iqp =
         mooney_rivlin_qp_fl binary64 (u iel iqp) (dim2sym (length (mtx_c ! iel ! iqp)))
           (mul_fl binary64 2 (first_coef a1 iel iqp))
           (mul_fl binary64 2 (first_coef a2 iel iqp))
           (mtx_c ! iel ! iqp ! 0 ! 0) (mtx_c ! iel ! iqp ! 0 ! 1)
           (mtx_c ! iel ! iqp ! 1 ! 1) (at2 c33 iel iqp) 0"
    using eval_fl_block [OF assms(1,2,3)] by blast
  have d: "dim2sym (length (mtx_c ! iel ! iqp)) = 3"
    by (simp add: assms(4) dim2sym_def)
  have "S ! iel ! iqp =
          [[residue (binary64 (2 * first_coef a1 iel iqp)) (binary64 (2 * first_coef a2 iel iqp))],
           [residue (binary64 (2 * first_coef a1 iel iqp)) (binary64 (2 * first_coef a2 iel iqp))],
           [0]]"
    unfolding o(2) d by (simp add: assms(4,5) stress_qp_f64_undeformed mul_fl_def)
  then have "\<exists>S r. eval_membrane_mooney_rivlin_f64 u a1 a2 mtx_c c33 0 = Inr S
                \<and> S ! iel ! iqp = [[r], [r], [0]]
                \<and> r = residue (binary64 (2 * first_coef a1 iel iqp))
                          (binary64 (2 * first_coef a2 iel iqp))
                \<and> \<bar>r\<bar> \<le> (\<bar>first_coef a1 iel iqp\<bar> + 4 * \<bar>first_coef a2 iel iqp\<bar>) / 2 ^ 51
                          + 1 / 2 ^ 1072"
    using o(1) residue_bound unfolding eval_membrane_mooney_rivlin_f64_def by blast
  then show ?thesis
    using undeformed_stress_exact [OF assms(1-5)] by blast
qed

theorem zero_displacement_stress_residue_witness:
  "wf_batch [[[[1 / 2]]]] [[[[1 / 4]]]] [[[[1, 0], [0, 1]]]] [[1]]
   \<and> (0::nat) < length [[[[1, 0], [0, 1::real]]]] \<and> (0::nat) < shape1 [[[[1, 0], [0, 1::real]]]]
   \<and> [[[[1, 0], [0, 1::real]]]] ! 0 ! 0 = [[1, 0], [0, 1]] \<and> at2 [[1]] 0 0 = 1
   \<and> \<bar>first_coef [[[[1 / 2]]]] 0 0\<bar> \<le> 2 ^ 1020 \<and> \<bar>first_coef [[[[1 / 4]]]] 0 0\<bar> \<le> 2 ^ 1020
   \<and> (\<exists>S. eval_membrane_mooney_rivlin (\<lambda>_ _ _ _. 7) [[[[1 / 2]]]] [[[[1 / 4]]]]
               [[[[1, 0], [0, 1]]]] [[1]] 0 = Inr S \<and> S ! 0 ! 0 = [[0], [0], [0]])
   \<and> (\<exists>S r. eval_membrane_mooney_rivlin_f64 (\<lambda>_ _ _ _. 7) [[[[1 / 2]]]] [[[[1 / 4]]]]
               [[[[1, 0], [0, 1]]]] [[1]] 0 = Inr S \<and> S ! 0 ! 0 = [[r], [r], [0]]
          \<and> \<bar>r\<bar> \<le> (1 / 2 + 4 * (1 / 4)) / 2 ^ 51 + 1 / 2 ^ 1072)"
proof -
  have h: "wf_batch [[[[1 / 2]]]] [[[[1 / 4]]]] [[[[1, 0], [0, 1]]]] [[1]]"
    by (simp add: wf_batch_def blocks_ge_def broadcastable_def shape1_def)
  have i: "(0::nat) < length [[[[1, 0], [0, 1::real]]]]"
    "(0::nat) < shape1 [[[[1, 0], [0, 1::real]]]]"
    "[[[[1, 0], [0, 1::real]]]] ! 0 ! 0 = [[1, 0], [0, 1]]" "at2 [[1]] 0 0 = 1"
    by (simp_all add: shape1_def at2_def bsel_def)
  have f: "first_coef [[[[1 / 2]]]] 0 0 = 1 / 2" "first_coef [[[[1 / 4]]]] 0 0 = 1 / 4"
    by (simp_all add: first_coef_def bsel_def)
  have b: "\<bar>first_coef [[[[1 / 2]]]] 0 0\<bar> \<le> 2 ^ 1020"
    "\<bar>first_coef [[[[1 / 4]]]] 0 0\<bar> \<le> 2 ^ 1020"
    unfolding f by simp_all
  note t = zero_displacement_stress_residue [OF h i b, of "\<lambda>_ _ _ _. 7", unfolded f]
  have "\<exists>S r. eval_membrane_mooney_rivlin_f64 (\<lambda>_ _ _ _. 7) [[[[1 / 2]]]] [[[[1 / 4]]]]
               [[[[1, 0], [0, 1]]]] [[1]] 0 = Inr S \<and> S ! 0 ! 0 = [[r], [r], [0]]
          \<and> \<bar>r\<bar> \<le> (1 / 2 + 4 * (1 / 4)) / 2 ^ 51 + 1 / 2 ^ 1072"
    using t [THEN conjunct2] by fastforce
  then show ?thesis
    using h i b t [THEN conjunct1] by blast
qed

text \<open>
  Claim C4, as stated, fails in binary64 arithmetic: for \<open>a1 = a2 = 0.1\<close>, the
  binary64 number \<open>3602879701896397 / 2 ^ 55\<close>, the function returns
  \<open>S11 = S22 = - 2 ^ - 54\<close> at the undeformed state. The roundings are
  \<open>a12 = a22 = 0.2\<close>, \<open>a22 * 2 = 0.4\<close>, \<open>pressure = 0.6000000000000001\<close> (the exact sum
  lies halfway between two numbers and goes to the even one),
  \<open>- pressure + a12 = - 0.4000000000000001\<close>, and the last sum is exact.
\<close>

theorem zero_displacement_binary64_counterexample:
  "binary64 (3602879701896397 / 2 ^ 55) = 3602879701896397 / 2 ^ 55
   \<and> eval_membrane_mooney_rivlin_f64 (\<lambda>_ _ _ _. 0) [[[[3602879701896397 / 2 ^ 55]]]]
         [[[[3602879701896397 / 2 ^ 55]]]] [[[[1, 0], [0, 1]]]] [[1]] 0
       = Inr [[[[- (1 / 2 ^ 54)], [- (1 / 2 ^ 54)], [0]]]]"
proof -
  have r: "binary64 (3602879701896397 / 2 ^ 55) = 3602879701896397 / 2 ^ 55"
    using binary64_eval [of "3602879701896397 / 2 ^ 55" 56 7205759403792794]
    by (simp add: rne_numeral)
  have v: "residue (3602879701896397 / 2 ^ 54) (3602879701896397 / 2 ^ 54) = - (1 / 2 ^ 54)"
    unfolding residue_def example_rounding ..
  have "eval_membrane_mooney_rivlin_f64 (\<lambda>_ _ _ _. 0) [[[[3602879701896397 / 2 ^ 55]]]]
         [[[[3602879701896397 / 2 ^ 55]]]] [[[[1, 0], [0, 1]]]] [[1]] 0
       = Inr [[[[- (1 / 2 ^ 54)], [- (1 / 2 ^ 54)], [0]]]]"
    unfolding eval_f64_single stress_qp_f64_undeformed example_rounding v ..
  with r show ?thesis ..
qed


subsection \<open>The tangent as a derivative of the stress\<close>

lemma stress_at_deriv:
  fixes a1 a2 :: real
  assumes "(f11 has_real_derivative d11) (at t)" "(f22 has_real_derivative d22) (at t)"
    "(f12 has_real_derivative d12) (at t)" "(J has_real_derivative dJ) (at t)"
  defines "K \<equiv> 2 * a1 + 2 * a2 * (f11 t + f22 t)"
  shows "((\<lambda>s. stress_at a1 a2 (f11 s) (f22 s) (f12 s) (J s) 0) has_real_derivative
            - 2 * J t * dJ * K * f22 t - (J t)\<^sup>2 * (2 * a2 * (d11 + d22)) * f22 t
            - (J t)\<^sup>2 * K * d22 + 2 * a2 * (d22 + dJ)) (at t)"
    and "((\<lambda>s. stress_at a1 a2 (f11 s) (f22 s) (f12 s) (J s) 1) has_real_derivative
            - 2 * J t * dJ * K * f11 t - (J t)\<^sup>2 * (2 * a2 * (d11 + d22)) * f11 t
            - (J t)\<^sup>2 * K * d11 + 2 * a2 * (d11 + dJ)) (at t)"
    and "((\<lambda>s. stress_at a1 a2 (f11 s) (f22 s) (f12 s) (J s) 2) has_real_derivative
            2 * J t * dJ * K * f12 t + (J t)\<^sup>2 * (2 * a2 * (d11 + d22)) * f12 t
            + (J t)\<^sup>2 * K * d12 - 2 * a2 * d12) (at t)"
  unfolding stress_at_eq K_def
  by (auto intro!: derivative_eq_intros assms(1-4) simp: algebra_simps power2_eq_square)

lemma c33_deriv:
  fixes c11 c22 c12 :: real
  assumes "c11 * c22 - c12\<^sup>2 \<noteq> 0"
  shows "((\<lambda>x. 1 / (x * c22 - c12\<^sup>2)) has_real_derivative
            - c22 * (1 / (c11 * c22 - c12\<^sup>2))\<^sup>2) (at c11)"
    and "((\<lambda>y. 1 / (c11 * y - c12\<^sup>2)) has_real_derivative
            - c11 * (1 / (c11 * c22 - c12\<^sup>2))\<^sup>2) (at c22)"
    and "((\<lambda>z. 1 / (c11 * c22 - z\<^sup>2)) has_real_derivative
            2 * c12 * (1 / (c11 * c22 - c12\<^sup>2))\<^sup>2) (at c12)"
  using assms
  by (auto intro!: derivative_eq_intros simp: power2_eq_square divide_simps)

lemma const_deriv: "((\<lambda>s. c) has_real_derivative 0) (at t)"
  and id_deriv: "((\<lambda>s. s) has_real_derivative 1) (at t)"
  by simp_all

lemma jacobian_c11:
  fixes a1 a2 c11 c22 c12 :: real
  assumes "c11 * c22 - c12\<^sup>2 \<noteq> 0"
  defines "c33 \<equiv> 1 / (c11 * c22 - c12\<^sup>2)"
  shows "((\<lambda>x. stress_at a1 a2 x c22 c12 (1 / (x * c22 - c12\<^sup>2)) 0) has_real_derivative
            tangent_at a1 a2 c11 c22 c12 c33 0 0 / 2) (at c11)"
    and "((\<lambda>x. stress_at a1 a2 x c22 c12 (1 / (x * c22 - c12\<^sup>2)) 1) has_real_derivative
            tangent_at a1 a2 c11 c22 c12 c33 1 0 / 2) (at c11)"
    and "((\<lambda>x. stress_at a1 a2 x c22 c12 (1 / (x * c22 - c12\<^sup>2)) 2) has_real_derivative
            tangent_at a1 a2 c11 c22 c12 c33 2 0 / 2) (at c11)"
proof -
  note J = c33_deriv(1) [OF assms(1), folded c33_def]
  note d = stress_at_deriv [OF id_deriv const_deriv const_deriv J, of a1 a2 c22 c12,
      folded c33_def]
  show "((\<lambda>x. stress_at a1 a2 x c22 c12 (1 / (x * c22 - c12\<^sup>2)) 0) has_real_derivative
            tangent_at a1 a2 c11 c22 c12 c33 0 0 / 2) (at c11)"
    unfolding tangent_at_eq
    by (rule DERIV_cong [OF d(1)]) (simp add: algebra_simps power2_eq_square)
  show "((\<lambda>x. stress_at a1 a2 x c22 c12 (1 / (x * c22 - c12\<^sup>2)) 1) has_real_derivative
            tangent_at a1 a2 c11 c22 c12 c33 1 0 / 2) (at c11)"
    unfolding tangent_at_eq
    by (rule DERIV_cong [OF d(2)]) (simp add: algebra_simps power2_eq_square)
  show "((\<lambda>x. stress_at a1 a2 x c22 c12 (1 / (x * c22 - c12\<^sup>2)) 2) has_real_derivative
            tangent_at a1 a2 c11 c22 c12 c33 2 0 / 2) (at c11)"
    unfolding tangent_at_eq
    by (rule DERIV_cong [OF d(3)]) (simp add: algebra_simps power2_eq_square)
qed

lemma jacobian_c22:
  fixes a1 a2 c11 c22 c12 :: real
  assumes "c11 * c22 - c12\<^sup>2 \<noteq> 0"
  defines "c33 \<equiv> 1 / (c11 * c22 - c12\<^sup>2)"
  shows "((\<lambda>y. stress_at a1 a2 c11 y c12 (1 / (c11 * y - c12\<^sup>2)) 0) has_real_derivative
            tangent_at a1 a2 c11 c22 c12 c33 0 1 / 2) (at c22)"
    and "((\<lambda>y. stress_at a1 a2 c11 y c12 (1 / (c11 * y - c12\<^sup>2)) 1) has_real_derivative
            tangent_at a1 a2 c11 c22 c12 c33 1 1 / 2) (at c22)"
    and "((\<lambda>y. stress_at a1 a2 c11 y c12 (1 / (c11 * y - c12\<^sup>2)) 2) has_real_derivative
            tangent_at a1 a2 c11 c22 c12 c33 2 1 / 2) (at c22)"
proof -
  note J = c33_deriv(2) [OF assms(1), folded c33_def]
  note d = stress_at_deriv [OF const_deriv id_deriv const_deriv J, of a1 a2 c11 c12,
      folded c33_def]
  show "((\<lambda>y. stress_at a1 a2 c11 y c12 (1 / (c11 * y - c12\<^sup>2)) 0) has_real_derivative
            tangent_at a1 a2 c11 c22 c12 c33 0 1 / 2) (at c22)"
    unfolding tangent_at_eq
    by (rule DERIV_cong [OF d(1)]) (simp add: algebra_simps power2_eq_square)
  show "((\<lambda>y. stress_at a1 a2 c11 y c12 (1 / (c11 * y - c12\<^sup>2)) 1) has_real_derivative
            tangent_at a1 a2 c11 c22 c12 c33 1 1 / 2) (at c22)"
    unfolding tangent_at_eq
    by (rule DERIV_cong [OF d(2)]) (simp add: algebra_simps power2_eq_square)
  show "((\<lambda>y. stress_at a1 a2 c11 y c12 (1 / (c11 * y - c12\<^sup>2)) 2) has_real_derivative
            tangent_at a1 a2 c11 c22 c12 c33 2 1 / 2) (at c22)"
    unfolding tangent_at_eq
    by (rule DERIV_cong [OF d(3)]) (simp add: algebra_simps power2_eq_square)
qed

lemma jacobian_c12:
  fixes a1 a2 c11 c22 c12 :: real
  assumes "c11 * c22 - c12\<^sup>2 \<noteq> 0"
  defines "c33 \<equiv> 1 / (c11 * c22 - c12\<^sup>2)"
  shows "((\<lambda>z. stress_at a1 a2 c11 c22 z (1 / (c11 * c22 - z\<^sup>2)) 0) has_real_derivative
            tangent_at a1 a2 c11 c22 c12 c33 0 2) (at c12)"
    and "((\<lambda>z. stress_at a1 a2 c11 c22 z (1 / (c11 * c22 - z\<^sup>2)) 1) has_real_derivative
            tangent_at a1 a2 c11 c22 c12 c33 1 2) (at c12)"
    and "((\<lambda>z. stress_at a1 a2 c11 c22 z (1 / (c11 * c22 - z\<^sup>2)) 2) has_real_derivative
            tangent_at a1 a2 c11 c22 c12 c33 2 2) (at c12)"
proof -
  note J = c33_deriv(3) [OF assms(1), folded c33_def]
  note d = stress_at_deriv [OF const_deriv const_deriv id_deriv J, of a1 a2 c11 c22,
      folded c33_def]
  show "((\<lambda>z. stress_at a1 a2 c11 c22 z (1 / (c11 * c22 - z\<^sup>2)) 0) has_real_derivative
            tangent_at a1 a2 c11 c22 c12 c33 0 2) (at c12)"
    unfolding tangent_at_eq
    by (rule DERIV_cong [OF d(1)]) (simp add: algebra_simps power2_eq_square)
  show "((\<lambda>z. stress_at a1 a2 c11 c22 z (1 / (c11 * c22 - z\<^sup>2)) 1) has_real_derivative
            tangent_at a1 a2 c11 c22 c12 c33 1 2) (at c12)"
    unfolding tangent_at_eq
    by (rule DERIV_cong [OF d(2)]) (simp add: algebra_simps power2_eq_square)
  show "((\<lambda>z. stress_at a1 a2 c11 c22 z (1 / (c11 * c22 - z\<^sup>2)) 2) has_real_derivative
            tangent_at a1 a2 c11 c22 c12 c33 2 2) (at c12)"
    unfolding tangent_at_eq
    by (rule DERIV_cong [OF d(3)]) (simp add: algebra_simps power2_eq_square)
qed


text \<open>
  Claim C2, as amended. The tangent is the Jacobian of the stress with respect to the
  Green strain components \<open>(E11, E22, 2 E12)\<close>, where \<open>C = 2 E + I\<close>, when \<open>c33\<close>
  follows \<open>mtx_c\<close> by \<open>c33 = 1 / (C11 * C22 - C12\<^sup>2)\<close>: for each stress component \<open>i\<close>,
  \<open>D[i][0] = 2 dS[i]/dC11\<close>, \<open>D[i][1] = 2 dS[i]/dC22\<close> and \<open>D[i][2] = dS[i]/dC12\<close>.
\<close>

theorem tangent_is_strain_jacobian:
  fixes a1 a2 c11 c22 c12 :: real
  assumes "c11 * c22 - c12\<^sup>2 \<noteq> 0" "i < 3"
  shows "((\<lambda>x. stress_at a1 a2 x c22 c12 (1 / (x * c22 - c12\<^sup>2)) i) has_real_derivative
            tangent_at a1 a2 c11 c22 c12 (1 / (c11 * c22 - c12\<^sup>2)) i 0 / 2) (at c11)
       \<and> ((\<lambda>y. stress_at a1 a2 c11 y c12 (1 / (c11 * y - c12\<^sup>2)) i) has_real_derivative
            tangent_at a1 a2 c11 c22 c12 (1 / (c11 * c22 - c12\<^sup>2)) i 1 / 2) (at c22)
       \<and> ((\<lambda>z. stress_at a1 a2 c11 c22 z (1 / (c11 * c22 - z\<^sup>2)) i) has_real_derivative
            tangent_at a1 a2 c11 c22 c12 (1 / (c11 * c22 - c12\<^sup>2)) i 2) (at c12)"
proof -
  note c = jacobian_c11 [OF assms(1)] jacobian_c22 [OF assms(1)] jacobian_c12 [OF assms(1)]
  have "i = 0 \<or> i = 1 \<or> i = 2" using assms(2) by auto
  then show ?thesis using c by blast
qed

theorem tangent_is_strain_jacobian_witness:
  "(2::real) * 3 - 1\<^sup>2 \<noteq> 0 \<and> (0::nat) < 3
   \<and> ((\<lambda>x. stress_at (1/2) (1/4) x 3 1 (1 / (x * 3 - 1\<^sup>2)) 0) has_real_derivative
          tangent_at (1/2) (1/4) 2 3 1 (1 / (2 * 3 - 1\<^sup>2)) 0 0 / 2) (at 2)
   \<and> ((\<lambda>y. stress_at (1/2) (1/4) 2 y 1 (1 / (2 * y - 1\<^sup>2)) 0) has_real_derivative
          tangent_at (1/2) (1/4) 2 3 1 (1 / (2 * 3 - 1\<^sup>2)) 0 1 / 2) (at 3)
   \<and> ((\<lambda>z. stress_at (1/2) (1/4) 2 3 z (1 / (2 * 3 - z\<^sup>2)) 0) has_real_derivative
          tangent_at (1/2) (1/4) 2 3 1 (1 / (2 * 3 - 1\<^sup>2)) 0 2) (at 1)"
proof -
  have h: "(2::real) * 3 - 1\<^sup>2 \<noteq> 0" "(0::nat) < 3" by simp_all
  show ?thesis
    using h tangent_is_strain_jacobian [OF h, of "1/2" "1/4"] by blast
qed

text \<open>
  Claim C2, as stated, fails: with \<open>c33\<close> held fixed, the derivative of \<open>S11\<close> in \<open>C11\<close>
  at the undeformed state with \<open>a1 = 1/2\<close>, \<open>a2 = 0\<close> is 0, and the tangent entry
  \<open>D[0][0]\<close> is 4.
\<close>

theorem tangent_fixed_c33_counterexample:
  "\<not> ((\<lambda>x. stress_at (1/2) 0 x 1 0 1 0) has_real_derivative
        tangent_at (1/2) 0 1 1 0 1 0 0) (at 1)"
proof
  assume a: "((\<lambda>x. stress_at (1/2) 0 x 1 0 1 0) has_real_derivative
        tangent_at (1/2) 0 1 1 0 1 0 0) (at 1)"
  have "(\<lambda>x. stress_at (1/2) 0 x 1 0 1 0) = (\<lambda>x. 0)"
    by (simp add: stress_at_eq fun_eq_iff)
  then have "((\<lambda>x. stress_at (1/2) 0 x 1 0 1 0) has_real_derivative 0) (at 1)"
    by simp
  with a have "tangent_at (1/2) 0 1 1 0 1 0 0 = 0"
    by (rule DERIV_unique)
  moreover have "tangent_at (1/2) 0 1 1 0 1 0 0 = 4"
    by (simp add: tangent_at_eq)
  ultimately show False by simp
qed

section \<open>Properties of the membrane term\<close>

subsection \<open>Exceptions of the first part of a call\<close>

lemma bind_exn_simps [simp]:
  "bind_exn (Inl e) f = Inl e" "bind_exn (Inr x) f = f x"
  by (simp_all add: bind_exn_def)

lemma bind_exn_Inl:
  "bind_exn r f = Inl e \<Longrightarrow> r = Inl e \<or> (\<exists>x. r = Inr x \<and> f x = Inl e)"
  by (cases r) simp_all

lemma sequence_exn_Inl: "sequence_exn rs = Inl e \<Longrightarrow> Inl e \<in> set rs"
proof (induction rs)
  case Nil
  then show ?case by simp
next
  case (Cons r rs)
  then show ?case
    by (cases r; cases "sequence_exn rs") auto
qed

lemma take_rows_Inl: "take_rows a idx = Inl e \<Longrightarrow> e = IndexError"
  by (simp add: take_rows_def split: if_splits)

lemma gather_Inl: "gather a conn = Inl e \<Longrightarrow> e = IndexError"
  unfolding gather_def by (auto dest!: sequence_exn_Inl take_rows_Inl [OF sym])

lemma collaborator_Inl: "collaborator r = Inl e \<Longrightarrow> e = CollaboratorError"
  by (simp add: collaborator_def split: option.splits)

lemma describe_membrane_geometry_Inl:
  "snd (describe_membrane_geometry env ig s) = Inl e \<Longrightarrow>
     e = IndexError \<or> e = CollaboratorError"
  by (auto simp: describe_membrane_geometry_def Let_def split: sum.splits prod.splits
      dest!: bind_exn_Inl gather_Inl collaborator_Inl)

lemma lookup_Inl: "lookup d k = Inl e \<Longrightarrow> e = KeyError"
  by (simp add: lookup_def split: option.splits)

lemma read_prepared_Inl:
  "read_prepared env s = Inl e \<Longrightarrow> e = KeyError \<or> e = IndexError \<or> e = AttributeError"
  unfolding read_prepared_def Let_def
  by (auto dest!: bind_exn_Inl lookup_Inl gather_Inl split: option.splits prod.splits)

lemma prepare_Inl:
  assumes "snd (prepare env s) = Inl e"
  shows "e = KeyError \<or> e = IndexError \<or> e = AttributeError \<or> e = CollaboratorError"
proof (cases "lookup (self_mtx_t s) (char_fun_ig env)")
  case (Inl e')
  then show ?thesis using assms lookup_Inl [OF Inl] by (simp add: prepare_def)
next
  case (Inr cached)
  show ?thesis
  proof (cases "cached = None")
    case True
    obtain s' r where d: "describe_membrane_geometry env (char_fun_ig env) s = (s', r)"
      by (cases "describe_membrane_geometry env (char_fun_ig env) s")
    show ?thesis
    proof (cases r)
      case (Inl e')
      then have "e = e'" using assms Inr True d by (simp add: prepare_def)
      moreover have "e' = IndexError \<or> e' = CollaboratorError"
        using describe_membrane_geometry_Inl [of env "char_fun_ig env" s e'] d Inl by simp
      ultimately show ?thesis by auto
    next
      case (Inr u)
      then have "read_prepared env s' = Inl e"
        using assms \<open>lookup (self_mtx_t s) (char_fun_ig env) = Inr cached\<close> True d
        by (simp add: prepare_def)
      then show ?thesis using read_prepared_Inl by blast
    qed
  next
    case False
    then have "read_prepared env s = Inl e"
      using assms Inr by (auto simp: prepare_def)
    then show ?thesis using read_prepared_Inl by blast
  qed
qed

lemma finish_simps [simp]:
  "finish StopIteration = Exhausted" "e \<noteq> StopIteration \<Longrightarrow> finish e = Raised e"
  by (simp_all add: finish_def)

lemma get_shape_simps:
  assumes "s_data_shape env = (n_el, n_qp, dm, n_ep)"
  shows "dm \<noteq> 3 \<Longrightarrow> get_shape env diff_var chunk_size = Inl AssertionFailed"
    and "dm = 3 \<Longrightarrow> get_shape env None chunk_size = Inr ((chunk_size, 1, 3 * n_ep, 1), 0)"
    and "dm = 3 \<Longrightarrow> get_shape env (Some (state_arg_name env)) chunk_size =
           Inr ((chunk_size, 1, 3 * n_ep, 3 * n_ep), 1)"
    and "dm = 3 \<Longrightarrow> d \<noteq> state_arg_name env \<Longrightarrow>
           get_shape env (Some d) chunk_size = Inl StopIteration"
  by (simp_all add: get_shape_def assms sfepy_assert_def)


subsection \<open>The cache of the geometry\<close>

lemma describe_membrane_geometry_ok:
  assumes "gather (field_coors env) (map (take (sg_nFP env)) (sd_econn env)) = Inr coors"
    and "create_transformation_matrix env coors = Some T"
    and "create_mapping env (dot_sequences3 env (sub_first coors) T ''AB'')
           (field_surface_facet env) 1 = Some vm"
    and "get_qp env (field_surface_facet env) = Some qp"
    and "any_from_args env (field_surface_facet env) (field_approx_order env) = Some ps"
    and "get_mapping env vm qp ps = Some geo"
  shows "describe_membrane_geometry env ig s =
           (s\<lparr>self_mtx_t := (self_mtx_t s)(ig \<mapsto> Some T),
              self_membrane_geo := (self_membrane_geo s)(ig \<mapsto> Some geo),
              self_bfg := (self_bfg s)(ig \<mapsto> Some (variable geo 0))\<rparr>, Inr ())"
  using assms by (simp add: describe_membrane_geometry_def Let_def collaborator_def)

text \<open>
  When the mapping service raises after the frames are stored, the entry of
  \<^verbatim>\<open>self.mtx_t\<close> is assigned and the two others are as they were.
\<close>

lemma describe_membrane_geometry_half:
  assumes "gather (field_coors env) (map (take (sg_nFP env)) (sd_econn env)) = Inr coors"
    and "create_transformation_matrix env coors = Some T"
    and "get_qp env (field_surface_facet env) = None"
    and "create_mapping env (dot_sequences3 env (sub_first coors) T ''AB'')
           (field_surface_facet env) 1 = Some vm"
  shows "describe_membrane_geometry env ig s =
           (s\<lparr>self_mtx_t := (self_mtx_t s)(ig \<mapsto> Some T)\<rparr>, Inl CollaboratorError)"
  using assms by (simp add: describe_membrane_geometry_def Let_def collaborator_def)

lemma describe_membrane_geometry_other:
  assumes "ig' \<noteq> ig"
  shows "self_mtx_t (fst (describe_membrane_geometry env ig s)) ig' = self_mtx_t s ig'"
    and "self_membrane_geo (fst (describe_membrane_geometry env ig s)) ig' =
           self_membrane_geo s ig'"
    and "self_bfg (fst (describe_membrane_geometry env ig s)) ig' = self_bfg s ig'"
  using assms
  by (simp_all add: describe_membrane_geometry_def Let_def split: sum.splits prod.splits)

lemma prepare_cached:
  assumes "self_mtx_t s (char_fun_ig env) = Some (Some T)"
  shows "prepare env s = (s, read_prepared env s)"
  using assms by (simp add: prepare_def lookup_def)

lemma prepare_fresh:
  assumes "self_mtx_t s (char_fun_ig env) = Some None"
    and "describe_membrane_geometry env (char_fun_ig env) s = (s', Inr ())"
  shows "prepare env s = (s', read_prepared env s')"
  using assms by (simp add: prepare_def lookup_def)

lemma read_prepared_cached:
  assumes "self_mtx_t s (char_fun_ig env) = Some (Some T)"
    and "self_bfg s (char_fun_ig env) = Some (Some b)"
    and "self_membrane_geo s (char_fun_ig env) = Some (Some geo)"
  shows "read_prepared env s =
           bind_exn (gather (state_in_region env) (sd_leconn env)) (\<lambda>el_u.
             case describe_deformation env (dot_sequences3 env el_u T ''AB'') b of
               (mtx_c, c33, mtx_b) \<Rightarrow>
                 Inr \<lparr>p_mtx_t = T, p_bfg = b, p_geo = Some geo, p_n_ep = shape3 b,
                      p_mtx_c = mtx_c, p_c33 = c33, p_mtx_b = mtx_b\<rparr>)"
  by (simp add: read_prepared_def lookup_def assms Let_def)

text \<open>
  A call for a group whose frames are stored while its gradients are still \<^verbatim>\<open>None\<close>, as
  a description that raised halfway leaves them, does not describe the geometry again:
  it raises and leaves the state as it is.
\<close>

lemma half_described_call_raises:
  assumes "self_mtx_t s (char_fun_ig env) = Some (Some T)"
    and "self_bfg s (char_fun_ig env) = Some None"
  shows "\<exists>e. e \<noteq> StopIteration
             \<and> tl_membrane_call env s diff_var chunk_size = (s, [], Raised e)"
proof -
  have "\<exists>e. e \<noteq> StopIteration \<and> read_prepared env s = Inl e"
    using assms
    by (auto simp add: read_prepared_def lookup_def Let_def bind_exn_def
        split: option.splits sum.splits dest: gather_Inl)
  then show ?thesis
    by (auto simp add: tl_membrane_call_def prepare_cached [OF assms(1)] finish_def)
qed

lemma fromkeys_in: "ig \<in> set igs \<Longrightarrow> fromkeys igs ig = Some None"
  unfolding fromkeys_def by (induction igs) auto

lemma fromkeys_out: "ig \<notin> set igs \<Longrightarrow> fromkeys igs ig = None"
  unfolding fromkeys_def by (induction igs) auto

lemma call_state: "fst (tl_membrane_call env s diff_var chunk_size) = fst (prepare env s)"
  by (simp add: tl_membrane_call_def split: prod.splits sum.splits)

lemma prepare_keeps_described:
  assumes "self_mtx_t s ig = Some (Some T)"
  shows "self_mtx_t (fst (prepare env s)) ig = self_mtx_t s ig
         \<and> self_membrane_geo (fst (prepare env s)) ig = self_membrane_geo s ig
         \<and> self_bfg (fst (prepare env s)) ig = self_bfg s ig"
proof (cases "char_fun_ig env = ig")
  case True
  then show ?thesis using assms by (simp add: prepare_cached)
next
  case False
  then have o: "ig \<noteq> char_fun_ig env" by simp
  obtain s' r where d: "describe_membrane_geometry env (char_fun_ig env) s = (s', r)"
    by (cases "describe_membrane_geometry env (char_fun_ig env) s")
  have "s' = fst (describe_membrane_geometry env (char_fun_ig env) s)"
    by (simp add: d)
  then have k: "self_mtx_t s' ig = self_mtx_t s ig"
    "self_membrane_geo s' ig = self_membrane_geo s ig" "self_bfg s' ig = self_bfg s ig"
    by (simp_all add: describe_membrane_geometry_other [OF o])
  show ?thesis
    by (simp add: prepare_def Let_def d k split: sum.splits)
qed

lemma run_calls_keeps_described:
  assumes "self_mtx_t s ig = Some (Some T)"
  shows "self_mtx_t (run_calls calls s) ig = self_mtx_t s ig
         \<and> self_membrane_geo (run_calls calls s) ig = self_membrane_geo s ig
         \<and> self_bfg (run_calls calls s) ig = self_bfg s ig"
  using assms
proof (induction calls arbitrary: s)
  case Nil
  then show ?case by simp
next
  case (Cons c calls)
  obtain env diff_var chunk_size where c: "c = (env, diff_var, chunk_size)"
    by (cases c)
  let ?s = "fst (tl_membrane_call env s diff_var chunk_size)"
  have k: "self_mtx_t ?s ig = self_mtx_t s ig"
    "self_membrane_geo ?s ig = self_membrane_geo s ig" "self_bfg ?s ig = self_bfg s ig"
    using prepare_keeps_described [OF Cons.prems, of env] by (simp_all add: call_state)
  then have "self_mtx_t ?s ig = Some (Some T)" using Cons.prems by simp
  from Cons.IH [OF this] show ?case by (simp add: c k)
qed

lemma geometry_from_sel:
  "term_mode (geometry_from env g) = term_mode env"
  "material_a1 (geometry_from env g) = material_a1 env"
  "material_a2 (geometry_from env g) = material_a2 env"
  "material_h0 (geometry_from env g) = material_h0 env"
  "state_arg_name (geometry_from env g) = state_arg_name env"
  "s_data_shape (geometry_from env g) = s_data_shape env"
  "sd_leconn (geometry_from env g) = sd_leconn env"
  "state_in_region (geometry_from env g) = state_in_region env"
  "char_fun_ig (geometry_from env g) = char_fun_ig env"
  "char_fun (geometry_from env g) = char_fun env"
  "get_local_chunk (geometry_from env g) = get_local_chunk env"
  "dot_sequences (geometry_from env g) = dot_sequences env"
  "dot_sequences3 (geometry_from env g) = dot_sequences3 env"
  "dot_sequences32 (geometry_from env g) = dot_sequences32 env"
  "describe_deformation (geometry_from env g) = describe_deformation env"
  "get_tangent_stress_matrix (geometry_from env g) = get_tangent_stress_matrix env"
  "get_green_strain_sym3d (geometry_from env g) = get_green_strain_sym3d env"
  "transform_data (geometry_from env g) = transform_data env"
  "uninit (geometry_from env g) = uninit env"
  by (simp_all add: geometry_from_def)

lemmas strong_cong = sum.case_cong option.case_cong prod.case_cong if_cong

lemma geometry_not_read:
  "read_prepared (geometry_from env g) s = read_prepared env s"
  "get_shape (geometry_from env g) diff_var chunk_size = get_shape env diff_var chunk_size"
  "evaluate (geometry_from env g) p chunk_size sh mode = evaluate env p chunk_size sh mode"
proof -
  show "read_prepared (geometry_from env g) s = read_prepared env s"
    by (simp add: read_prepared_def geometry_from_sel Let_def cong: strong_cong)
  show "get_shape (geometry_from env g) diff_var chunk_size =
        get_shape env diff_var chunk_size"
    by (simp add: get_shape_def geometry_from_sel cong: strong_cong)
  have v: "to_global_vec (geometry_from env g) = to_global_vec env"
    by (simp add: to_global_vec_def geometry_from_sel fun_eq_iff)
  have m: "to_global_mat (geometry_from env g) = to_global_mat env"
    by (simp add: to_global_mat_def geometry_from_sel fun_eq_iff)
  have r: "residual_chunk (geometry_from env g) = residual_chunk env"
    by (simp add: residual_chunk_def v geometry_from_sel fun_eq_iff cong: strong_cong)
  have t: "tangent_chunk (geometry_from env g) = tangent_chunk env"
    by (simp add: tangent_chunk_def m geometry_from_sel fun_eq_iff cong: strong_cong)
  have c: "postproc_chunk (geometry_from env g) = postproc_chunk env"
    by (simp add: postproc_chunk_def geometry_from_sel fun_eq_iff cong: strong_cong)
  have q: "postproc_qp (geometry_from env g) = postproc_qp env"
    by (simp add: postproc_qp_def geometry_from_sel fun_eq_iff cong: strong_cong)
  show "evaluate (geometry_from env g) p chunk_size sh mode =
        evaluate env p chunk_size sh mode"
    by (simp add: evaluate_def r t c q geometry_from_sel cong: strong_cong)
qed

lemma call_geometry_not_read:
  assumes "self_mtx_t s (char_fun_ig env) = Some (Some T)"
  shows "tl_membrane_call (geometry_from env g) s diff_var chunk_size =
         tl_membrane_call env s diff_var chunk_size"
proof -
  have "self_mtx_t s (char_fun_ig (geometry_from env g)) = Some (Some T)"
    using assms by (simp add: geometry_from_sel)
  then show ?thesis
    unfolding tl_membrane_call_def
    by (simp add: prepare_cached assms geometry_not_read cong: strong_cong)
qed

subsection \<open>The post-processing loop\<close>

lemma bind_exn_InrD:
  "bind_exn r f = Inr y \<Longrightarrow> \<exists>x. r = Inr x \<and> f x = Inr y"
  by (cases r) simp_all

lemma call_stop:
  assumes "snd (prepare env s) = Inr p" "get_shape env diff_var chunk_size = Inl StopIteration"
  shows "snd (tl_membrane_call env s diff_var chunk_size) = ([], Exhausted)"
  using assms by (cases "prepare env s") (simp add: tl_membrane_call_def)

lemma call_evaluate:
  assumes "snd (prepare env s) = Inr p" "get_shape env diff_var chunk_size = Inr (sh, mode)"
  shows "snd (tl_membrane_call env s diff_var chunk_size) = evaluate env p chunk_size sh mode"
  using assms by (cases "prepare env s") (simp add: tl_membrane_call_def)

lemma post_loop_last:
  assumes "\<forall>c \<in> set cs. \<exists>y. body c = Inr y" "body c = Inr y"
  shows "post_loop body (cs @ [c]) locals = Inr (Some y)"
  using assms
proof (induction cs arbitrary: locals)
  case Nil
  then show ?case by simp
next
  case (Cons x cs)
  then obtain v where "body x = Inr v" by auto
  then show ?case using Cons by simp
qed

lemma evaluate_postproc:
  assumes "term_mode env = Some ''strain'' \<or> term_mode env = Some ''stress''"
    and "postproc_qp env p = Inr out_qp"
    and "char_fun env chunk_size (chunk_size, 1, shape2 out_qp, shape3 out_qp) = cs @ [c]"
    and "\<forall>x \<in> set cs. \<exists>y. postproc_chunk env p out_qp x = Inr y"
    and "postproc_chunk env p out_qp c = Inr y"
  shows "evaluate env p chunk_size sh mode = ([y], Exhausted)"
proof -
  have n: "(term_mode env = None) = False" using assms(1) by auto
  have m: "(term_mode env = Some ''strain'' \<or> term_mode env = Some ''stress'') = True"
    using assms(1) by simp
  show ?thesis
    by (simp only: evaluate_def Let_def n m if_False if_True assms(2) sum.case assms(3)
        post_loop_last [OF assms(4,5)] option.case)
qed

lemma evaluate_postproc_empty:
  assumes "term_mode env = Some ''strain'' \<or> term_mode env = Some ''stress''"
    and "postproc_qp env p = Inr out_qp"
    and "char_fun env chunk_size (chunk_size, 1, shape2 out_qp, shape3 out_qp) = []"
  shows "evaluate env p chunk_size sh mode = ([], Raised UnboundLocalError)"
proof -
  have n: "(term_mode env = None) = False" using assms(1) by auto
  have m: "(term_mode env = Some ''strain'' \<or> term_mode env = Some ''stress'') = True"
    using assms(1) by simp
  show ?thesis
    by (simp only: evaluate_def Let_def n m if_False if_True assms(2) sum.case assms(3)
        post_loop.simps option.case)
qed

lemma postproc_chunk_chunk:
  "postproc_chunk env p out_qp (out, chunk) = Inr y \<Longrightarrow> fst (snd y) = chunk"
  by (auto simp: postproc_chunk_def Let_def split: option.splits prod.splits
      dest!: bind_exn_InrD)

subsection \<open>The residual loop\<close>

text \<open>
  The residual branch yields inside its loop: when no body raises, the generator hands
  out one result for every chunk of the chunk generator, in order.
\<close>

lemma gen_loop_chunks:
  assumes "\<forall>c \<in> set cs. \<exists>y. body c = Inr y \<and> fst (snd y) = f c"
  shows "snd (gen_loop body cs) = Exhausted
         \<and> map (\<lambda>y. fst (snd y)) (fst (gen_loop body cs)) = map f cs"
  using assms
proof (induction cs)
  case Nil
  then show ?case by simp
next
  case (Cons c cs)
  then obtain y where y: "body c = Inr y" "fst (snd y) = f c" by auto
  have "snd (gen_loop body cs) = Exhausted
        \<and> map (\<lambda>y. fst (snd y)) (fst (gen_loop body cs)) = map f cs"
    using Cons by simp
  then show ?case
    by (cases "gen_loop body cs") (simp add: y)
qed

lemma residual_chunk_chunk:
  assumes "residual_chunk env p bts c = Inr y"
  shows "fst (snd y) = get_local_chunk env (snd c)"
proof (cases "p_geo p")
  case None
  then show ?thesis using assms by (cases c) (simp add: residual_chunk_def Let_def)
next
  case (Some geo)
  obtain out chunk where c: "c = (out, chunk)" by (cases c)
  obtain data where d: "bop4 (*) bts (material_h0 env) = Inr data"
    using assms Some c by (cases "bop4 (*) bts (material_h0 env)")
      (simp_all add: residual_chunk_def Let_def)
  obtain out' status where i: "integrate_chunk geo out data (get_local_chunk env chunk)
      = (out', status)"
    by (cases "integrate_chunk geo out data (get_local_chunk env chunk)")
  show ?thesis
    using assms Some c d i
    by (cases "to_global_vec env (p_mtx_t p) (get_local_chunk env chunk) (p_n_ep p) out'")
      (auto simp add: residual_chunk_def Let_def)
qed

lemma residual_yields_every_chunk:
  assumes "term_mode env = None"
    and "eval_membrane_mooney_rivlin (uninit env) (material_a1 env) (material_a2 env)
           (p_mtx_c p) (p_c33 p) 0 = Inr crt"
    and "\<forall>c \<in> set (char_fun env chunk_size sh).
           \<exists>y. residual_chunk env p (dot_sequences env (p_mtx_b p) crt ''ATB'') c = Inr y"
  shows "snd (evaluate env p chunk_size sh 0) = Exhausted
         \<and> map (\<lambda>y. fst (snd y)) (fst (evaluate env p chunk_size sh 0))
             = map (\<lambda>c. get_local_chunk env (snd c)) (char_fun env chunk_size sh)"
proof -
  have e: "evaluate env p chunk_size sh 0 =
           gen_loop (residual_chunk env p (dot_sequences env (p_mtx_b p) crt ''ATB''))
             (char_fun env chunk_size sh)"
    unfolding evaluate_def Let_def assms(1) assms(2) by simp
  have "\<forall>c \<in> set (char_fun env chunk_size sh).
          \<exists>y. residual_chunk env p (dot_sequences env (p_mtx_b p) crt ''ATB'') c = Inr y
              \<and> fst (snd y) = get_local_chunk env (snd c)"
    using assms(3) residual_chunk_chunk by blast
  then show ?thesis
    unfolding e by (rule gen_loop_chunks)
qed


subsection \<open>The example mesh\<close>

lemma example_coors:
  "gather (field_coors example_env) (map (take (sg_nFP example_env)) (sd_econn example_env))
     = Inr [[[0, 0, 0], [1, 0, 0], [0, 1, 0]], [[1, 0, 0], [1, 1, 0], [0, 1, 0]]]"
  by (simp add: example_env_def gather_def take_rows_def)


lemma example_describe_group:
  "describe_membrane_geometry (example_env\<lparr>char_fun_ig := g\<rparr>) ig s =
     (s\<lparr>self_mtx_t := (self_mtx_t s)
            (ig \<mapsto> Some (replicate 2 [[1, 0, 0], [0, 1, 0], [0, 0, 1]])),
        self_membrane_geo := (self_membrane_geo s)(ig \<mapsto> Some example_geo),
        self_bfg := (self_bfg s)(ig \<mapsto> Some (replicate 2 [[[- 1, 1, 0], [- 1, 0, 1]]]))\<rparr>,
      Inr ())"
proof -
  let ?env = "example_env\<lparr>char_fun_ig := g\<rparr>"
  have c: "gather (field_coors ?env) (map (take (sg_nFP ?env)) (sd_econn ?env))
     = Inr [[[0, 0, 0], [1, 0, 0], [0, 1, 0]], [[1, 0, 0], [1, 1, 0], [0, 1, 0]]]"
    using example_coors by (simp add: example_env_def)
  have t: "create_transformation_matrix ?env
             [[[0, 0, 0], [1, 0, 0], [0, 1, 0]], [[1, 0, 0], [1, 1, 0], [0, 1, 0]]]
           = Some (replicate 2 [[1, 0, 0], [0, 1, 0], [0, 0, 1]])"
    by (simp add: example_env_def numeral_2_eq_2)
  have m: "create_mapping ?env x (field_surface_facet ?env) 1 = Some ()" for x
    by (simp add: example_env_def)
  have q: "get_qp ?env (field_surface_facet ?env) = Some ([[1 / 3, 1 / 3]], [1 / 2])"
    by (simp add: example_env_def)
  have p: "any_from_args ?env (field_surface_facet ?env) (field_approx_order ?env) = Some ()"
    by (simp add: example_env_def)
  have g: "get_mapping ?env () ([[1 / 3, 1 / 3]], [1 / 2]) () = Some example_geo"
    by (simp add: example_env_def)
  have v: "variable example_geo 0 = replicate 2 [[[- 1, 1, 0], [- 1, 0, 1]]]"
    by (simp add: example_geo_def)
  show ?thesis
    unfolding describe_membrane_geometry_ok [OF c t m q p g] v ..
qed

lemma example_env_group: "example_env\<lparr>char_fun_ig := 0\<rparr> = example_env"
  by (simp add: example_env_def)

lemma example_first_group:
  "fst (tl_membrane_call example_env (tl_membrane_init [0, 1]) None (Some 1)) = example_state1"
proof -
  have g: "char_fun_ig example_env = 0" by (simp add: example_env_def)
  have n: "self_mtx_t (tl_membrane_init [0, 1]) (char_fun_ig example_env) = Some None"
    by (simp add: tl_membrane_init_def fromkeys_def g)
  have d: "describe_membrane_geometry example_env (char_fun_ig example_env)
             (tl_membrane_init [0, 1]) = (example_state1, Inr ())"
    using example_describe_group [of 0 0 "tl_membrane_init [0, 1]"]
    by (auto simp add: example_env_group g example_state1_def tl_membrane_init_def
        fromkeys_def fun_eq_iff)
  show ?thesis
    unfolding call_state prepare_fresh [OF n d] by simp
qed

lemma example_describe:
  "describe_membrane_geometry example_env 0 (tl_membrane_init [0]) =
     (\<lparr>self_mtx_t = [0 \<mapsto> Some (replicate 2 [[1, 0, 0], [0, 1, 0], [0, 0, 1]])],
       self_membrane_geo = [0 \<mapsto> Some example_geo],
       self_bfg = [0 \<mapsto> Some (replicate 2 [[[- 1, 1, 0], [- 1, 0, 1]]])]\<rparr>, Inr ())"
  using example_describe_group [of 0 0 "tl_membrane_init [0]"]
  by (simp add: example_env_group tl_membrane_init_def fromkeys_def)

lemma example_read_prepared:
  "\<exists>b. read_prepared example_env
     \<lparr>self_mtx_t = [0 \<mapsto> Some (replicate 2 [[1, 0, 0], [0, 1, 0], [0, 0, 1]])],
      self_membrane_geo = [0 \<mapsto> Some example_geo],
      self_bfg = [0 \<mapsto> Some (replicate 2 [[[- 1, 1, 0], [- 1, 0, 1]]])]\<rparr> =
   Inr \<lparr>p_mtx_t = replicate 2 [[1, 0, 0], [0, 1, 0], [0, 0, 1]],
        p_bfg = replicate 2 [[[- 1, 1, 0], [- 1, 0, 1]]],
        p_geo = Some example_geo, p_n_ep = 3,
        p_mtx_c = replicate 2 [[[1, 0], [0, 1]]], p_c33 = replicate 2 [1], p_mtx_b = b\<rparr>"
proof -
  have s: "char_fun_ig example_env = 0" "sd_leconn example_env = [[0, 1, 2], [1, 3, 2]]"
    "state_in_region example_env = replicate 4 [0, 0, 0]"
    "describe_deformation example_env =
        (\<lambda>el_u bfg. (map (\<lambda>el. [[[1, 0], [0, 1]]]) el_u, map (\<lambda>el. [1]) el_u,
                      map (\<lambda>el. [replicate 3 (replicate 9 0)]) el_u))"
    "dot_sequences3 example_env = example_dot3"
    by (simp_all add: example_env_def)
  show ?thesis
    by (simp add: read_prepared_def s lookup_def Let_def shape3_def numeral_2_eq_2
        gather_def take_rows_def example_dot3_def numeral_3_eq_3)
qed

lemma prepare_term_mode: "prepare (env\<lparr>term_mode := m\<rparr>) s = prepare env s"
proof -
  have d: "describe_membrane_geometry (env\<lparr>term_mode := m\<rparr>) ig s =
           describe_membrane_geometry env ig s" for ig
    by (simp add: describe_membrane_geometry_def cong: strong_cong)
  have r: "read_prepared (env\<lparr>term_mode := m\<rparr>) s' = read_prepared env s'" for s'
    by (simp add: read_prepared_def cong: strong_cong)
  show ?thesis
    by (simp add: prepare_def d r cong: strong_cong)
qed

lemma example_prepare:
  "\<exists>s b. prepare (example_env\<lparr>term_mode := m\<rparr>) (tl_membrane_init [0]) =
     (s, Inr \<lparr>p_mtx_t = replicate 2 [[1, 0, 0], [0, 1, 0], [0, 0, 1]],
              p_bfg = replicate 2 [[[- 1, 1, 0], [- 1, 0, 1]]],
              p_geo = Some example_geo, p_n_ep = 3,
              p_mtx_c = replicate 2 [[[1, 0], [0, 1]]], p_c33 = replicate 2 [1],
              p_mtx_b = b\<rparr>)"
proof -
  have n: "self_mtx_t (tl_membrane_init [0]) (char_fun_ig example_env) = Some None"
    by (simp add: example_env_def tl_membrane_init_def fromkeys_def)
  have d: "describe_membrane_geometry example_env (char_fun_ig example_env)
             (tl_membrane_init [0]) =
     (\<lparr>self_mtx_t = [0 \<mapsto> Some (replicate 2 [[1, 0, 0], [0, 1, 0], [0, 0, 1]])],
       self_membrane_geo = [0 \<mapsto> Some example_geo],
       self_bfg = [0 \<mapsto> Some (replicate 2 [[[- 1, 1, 0], [- 1, 0, 1]]])]\<rparr>, Inr ())"
    using example_describe by (simp add: example_env_def)
  show ?thesis
    unfolding prepare_term_mode prepare_fresh [OF n d]
    using example_read_prepared by blast
qed

lemma dim2sym_values: "dim2sym 2 = 3" "dim2sym 3 = 6" "dim2sym (Suc (Suc 0)) = 3"
  "dim2sym (Suc (Suc (Suc 0))) = 6"
  by (simp_all add: dim2sym_def)

lemma replicate_values: "replicate 2 x = [x, x]" "replicate 6 x = [x, x, x, x, x, x]"
  by (simp_all add: eval_nat_numeral)

lemma example_eval_stress:
  "eval_membrane_mooney_rivlin (\<lambda>iel iqp i j. 0) (replicate 2 [[[1 / 2]]])
     (replicate 2 [[[1 / 4]]]) (replicate 2 [[[1, 0], [0, 1]]]) (replicate 2 [1]) 0
   = Inr (replicate 2 [[[0], [0], [0]]])"
proof -
  have w: "wf_batch (replicate 2 [[[1 / 2]]]) (replicate 2 [[[1 / 4]]])
             (replicate 2 [[[1, 0], [0, 1]]]) (replicate 2 [1])"
    by (simp add: wf_batch_def blocks_ge_def broadcastable_def shape1_def replicate_values)
  show ?thesis
    unfolding eval_ok [OF w]
    by (simp add: replicate_values shape1_def first_coef_def at2_def bsel_def
        dim2sym_values stress_qp_3 upt_rec)
qed

lemma example_postproc_qp:
  assumes "p_mtx_c p = replicate 2 [[[1, 0], [0, 1]]]" "p_c33 p = replicate 2 [1]"
  shows "postproc_qp (example_env\<lparr>term_mode := Some ''stress''\<rparr>) p =
           Inr (replicate 2 [[[0], [0], [0], [0], [0], [0]]])"
proof -
  have s: "uninit example_env = (\<lambda>iel iqp i j. 0)"
    "material_a1 example_env = replicate 2 [[[1 / 2]]]"
    "material_a2 example_env = replicate 2 [[[1 / 4]]]"
    by (simp_all add: example_env_def)
  have o: "stress_out_qp (replicate 2 [[[1, 0], [0, 1]]]) (replicate 2 [[[0], [0], [0]]])
           = replicate 2 [[[0], [0], [0], [0], [0], [0]]]"
    by (simp add: stress_out_qp_def replicate_values shape1_def dim2sym_values set2_def
        Let_def upt_rec)
  show ?thesis
    by (simp add: postproc_qp_def assms s example_eval_stress o)
qed

lemma example_postproc_chunk:
  assumes "p_geo p = Some example_geo"
    and "chunk = [0] \<or> chunk = [1] \<or> chunk = [0, 1]"
  shows "postproc_chunk (example_env\<lparr>term_mode := Some ''stress''\<rparr>) p
           (replicate 2 [[[0], [0], [0], [0], [0], [0]]]) (out, chunk) =
         Inr (replicate (length chunk) [[[0], [0], [0], [0], [0], [0]]], chunk, 0)"
proof -
  have s: "get_local_chunk example_env = (\<lambda>chunk. chunk)"
    "transform_data example_env = (\<lambda>out mtx. out)"
    by (simp_all add: example_env_def)
  show ?thesis
    using assms(2)
    by (auto simp add: postproc_chunk_def assms(1) s example_geo_def take_rows_def
        replicate_values bop4_def bzip_def Let_def)
qed

lemma example_char_fun_stress:
  "char_fun (example_env\<lparr>term_mode := m\<rparr>) (Some 1) sh =
     [(example_buffer 1 sh, [0])] @ [(example_buffer 1 sh, [1])]"
  "char_fun (example_env\<lparr>term_mode := m\<rparr>) (Some 2) sh = [] @ [(example_buffer 2 sh, [0, 1])]"
  by (simp_all add: example_env_def example_char_fun_def)

lemma example_prepare_plain:
  "\<exists>p. snd (prepare example_env (tl_membrane_init [0])) = Inr p"
proof -
  have "example_env\<lparr>term_mode := None\<rparr> = example_env"
    by (simp add: example_env_def)
  then show ?thesis
    using example_prepare [of None] by auto
qed


lemma example_stress_call:
  assumes "cs = Some 1 \<and> last_chunk = [1] \<or> cs = Some 2 \<and> last_chunk = [0, 1]"
  shows "snd (tl_membrane_call (example_env\<lparr>term_mode := Some ''stress''\<rparr>)
                (tl_membrane_init [0]) None cs)
         = ([(replicate (length last_chunk) [[[0], [0], [0], [0], [0], [0]]], last_chunk, 0)],
            Exhausted)"
proof -
  let ?env = "example_env\<lparr>term_mode := Some ''stress''\<rparr>"
  let ?qp = "replicate 2 [[[0], [0], [0], [0], [0], [0::real]]]"
  obtain s b where "prepare ?env (tl_membrane_init [0]) =
     (s, Inr \<lparr>p_mtx_t = replicate 2 [[1, 0, 0], [0, 1, 0], [0, 0, 1]],
              p_bfg = replicate 2 [[[- 1, 1, 0], [- 1, 0, 1]]],
              p_geo = Some example_geo, p_n_ep = 3,
              p_mtx_c = replicate 2 [[[1, 0], [0, 1]]], p_c33 = replicate 2 [1],
              p_mtx_b = b\<rparr>)"
    using example_prepare [of "Some ''stress''"] by blast
  then obtain p where p: "snd (prepare ?env (tl_membrane_init [0])) = Inr p"
    and f: "p_geo p = Some example_geo" "p_mtx_c p = replicate 2 [[[1, 0], [0, 1]]]"
      "p_c33 p = replicate 2 [1]"
    by simp
  have g: "get_shape ?env None cs = Inr ((cs, 1, 3 * 3, 1), 0)"
    by (rule get_shape_simps(2) [of _ 2 1]) (simp_all add: example_env_def)
  have m: "term_mode ?env = Some ''strain'' \<or> term_mode ?env = Some ''stress''"
    by simp
  note q = example_postproc_qp [OF f(2,3)]
  note c = example_postproc_chunk [OF f(1)]
  show ?thesis
  proof (cases "cs = Some 1")
    case True
    then have l: "last_chunk = [1]" using assms by auto
    have "evaluate ?env p cs (cs, 1, 3 * 3, 1) 0 =
            ([(replicate (length [1::nat]) [[[0], [0], [0], [0], [0], [0]]], [1], 0)],
             Exhausted)"
      unfolding True
      by (rule evaluate_postproc [OF m q example_char_fun_stress(1)]) (simp_all add: c)
    then show ?thesis
      using call_evaluate [OF p g] l by simp
  next
    case False
    then have l: "cs = Some 2" "last_chunk = [0, 1]" using assms by auto
    have "evaluate ?env p cs (cs, 1, 3 * 3, 1) 0 =
            ([(replicate (length [0, 1::nat]) [[[0], [0], [0], [0], [0], [0]]], [0, 1], 0)],
             Exhausted)"
      unfolding l
      by (rule evaluate_postproc [OF m q example_char_fun_stress(2)]) (simp_all add: c)
    then show ?thesis
      using call_evaluate [OF p g] l by simp
  qed
qed


subsection \<open>Calls of the term\<close>

text \<open>
  Claim C10. \<^verbatim>\<open>get_shape\<close> asserts that the space dimension given by the approximation is
  3 before anything else: for data of another dimension it raises and returns no shape,
  and a call hands out nothing and ends with an exception.
\<close>

theorem non_3d_rejected:
  assumes "s_data_shape env = (n_el, n_qp, dm, n_ep)" "dm \<noteq> 3"
  shows "get_shape env diff_var chunk_size = Inl AssertionFailed
         \<and> fst (snd (tl_membrane_call env s diff_var chunk_size)) = []
         \<and> (\<exists>e. snd (snd (tl_membrane_call env s diff_var chunk_size)) = Raised e)"
proof -
  note g = get_shape_simps(1) [OF assms]
  obtain s' r where p: "prepare env s = (s', r)" by (cases "prepare env s")
  show ?thesis
  proof (cases r)
    case (Inl e)
    then have "e \<noteq> StopIteration" using prepare_Inl [of env s e] p by auto
    then show ?thesis using g p Inl by (simp add: tl_membrane_call_def)
  next
    case (Inr q)
    then show ?thesis using g p by (simp add: tl_membrane_call_def)
  qed
qed

theorem non_3d_rejected_witness:
  "s_data_shape (example_env\<lparr>s_data_shape := (2, 1, 2, 3)\<rparr>) = (2, 1, 2, 3) \<and> (2::nat) \<noteq> 3
   \<and> get_shape (example_env\<lparr>s_data_shape := (2, 1, 2, 3)\<rparr>) None (Some 2)
       = Inl AssertionFailed
   \<and> fst (snd (tl_membrane_call (example_env\<lparr>s_data_shape := (2, 1, 2, 3)\<rparr>)
                 (tl_membrane_init [0]) None (Some 2))) = []"
proof -
  have h: "s_data_shape (example_env\<lparr>s_data_shape := (2, 1, 2, 3)\<rparr>) = (2, 1, 2, 3)"
    "(2::nat) \<noteq> 3"
    by simp_all
  show ?thesis
    using h non_3d_rejected [OF h, of None "Some 2" "tl_membrane_init [0]"] by blast
qed


text \<open>
  Claim C6, as amended. When \<open>diff_var\<close> is neither \<^verbatim>\<open>None\<close> nor the name of the state
  argument (and the dimension is 3), \<^verbatim>\<open>get_shape\<close> raises StopIteration, which ends the
  generator: a call whose first part completes hands out no value, partial or whole,
  and ends as an exhausted generator, with no error for the caller.
\<close>

theorem other_variable_ends_silently:
  assumes "snd (prepare env s) = Inr p" "s_data_shape env = (n_el, n_qp, 3, n_ep)"
    and "diff_var = Some d" "d \<noteq> state_arg_name env"
  shows "get_shape env diff_var chunk_size = Inl StopIteration
         \<and> snd (tl_membrane_call env s diff_var chunk_size) = ([], Exhausted)"
proof -
  have g: "get_shape env diff_var chunk_size = Inl StopIteration"
    unfolding assms(3) using get_shape_simps(4) [OF assms(2) _ assms(4)] by simp
  with call_stop [OF assms(1) g] show ?thesis by simp
qed


theorem other_variable_ends_silently_witness:
  "(\<exists>p. snd (prepare example_env (tl_membrane_init [0])) = Inr p)
   \<and> s_data_shape example_env = (2, 1, 3, 3) \<and> ''p'' \<noteq> state_arg_name example_env
   \<and> get_shape example_env (Some ''p'') (Some 1) = Inl StopIteration
   \<and> snd (tl_membrane_call example_env (tl_membrane_init [0]) (Some ''p'') (Some 1))
       = ([], Exhausted)"
proof -
  obtain p where p: "snd (prepare example_env (tl_membrane_init [0])) = Inr p"
    using example_prepare_plain by blast
  have h: "s_data_shape example_env = (2, 1, 3, 3)" "Some ''p'' = Some ''p''"
    "''p'' \<noteq> state_arg_name example_env"
    by (simp_all add: example_env_def)
  show ?thesis
    using p h other_variable_ends_silently [OF p h, of "Some 1"] by blast
qed


text \<open>
  Claim C6, as stated, fails: on the example mesh the request for the derivative in a
  variable \<^verbatim>\<open>'p'\<close>, which is not the state variable \<^verbatim>\<open>'u'\<close>, ends the generator with no
  value and no exception.
\<close>

theorem other_variable_counterexample:
  "Some ''p'' \<noteq> Some (state_arg_name example_env)
   \<and> snd (tl_membrane_call example_env (tl_membrane_init [0]) (Some ''p'') (Some 1))
       = ([], Exhausted)"
proof -
  obtain p where p: "snd (prepare example_env (tl_membrane_init [0])) = Inr p"
    using example_prepare_plain by blast
  have h: "s_data_shape example_env = (2, 1, 3, 3)" "''p'' \<noteq> state_arg_name example_env"
    by (simp_all add: example_env_def)
  have "get_shape example_env (Some ''p'') (Some 1) = Inl StopIteration"
    using get_shape_simps(4) [OF h(1) _ h(2)] by simp
  from call_stop [OF p this] h(2) show ?thesis by simp
qed


text \<open>
  Claim C7. The frames \<open>mtx_t\<close>, the mapping \<open>membrane_geo\<close> and the gradients \<open>bfg\<close> of an
  element group are computed by the first call for the group, the one that finds the
  entry of the group \<^verbatim>\<open>None\<close>, on a new term or after other groups were described: when
  the description completes, the call stores the three values and changes nothing else
  of the state. After any sequence of later calls, with any surroundings, arguments and
  modes, the three entries are still these values. A later call for the group leaves
  the whole state as it is; what it works with are the stored frames, mapping and
  gradients, from which the deformation is described; and it does not read the geometry
  again, since its result is the same whatever geometry it is given. What the call
  hands out is the evaluation on these stored values.
\<close>

theorem geometry_described_once:
  fixes env :: "('vm, 'ps) env"
  assumes "self_mtx_t s ig = Some None" "char_fun_ig env = ig"
    and "gather (field_coors env) (map (take (sg_nFP env)) (sd_econn env)) = Inr coors"
    and "create_transformation_matrix env coors = Some T"
    and "create_mapping env (dot_sequences3 env (sub_first coors) T ''AB'')
           (field_surface_facet env) 1 = Some vm"
    and "get_qp env (field_surface_facet env) = Some qp"
    and "any_from_args env (field_surface_facet env) (field_approx_order env) = Some ps"
    and "get_mapping env vm qp ps = Some geo"
  shows "let s1 = fst (tl_membrane_call env s diff_var chunk_size)
         in s1 = s\<lparr>self_mtx_t := (self_mtx_t s)(ig \<mapsto> Some T),
                   self_membrane_geo := (self_membrane_geo s)(ig \<mapsto> Some geo),
                   self_bfg := (self_bfg s)(ig \<mapsto> Some (variable geo 0))\<rparr>
            \<and> (\<forall>calls :: (('vm, 'ps) env \<times> string option \<times> nat option) list.
                 let s2 = run_calls calls s1
                 in self_mtx_t s2 ig = Some (Some T)
                    \<and> self_membrane_geo s2 ig = Some (Some geo)
                    \<and> self_bfg s2 ig = Some (Some (variable geo 0))
                    \<and> (\<forall>(env' :: ('vm, 'ps) env) g diff_var' chunk_size'.
                          char_fun_ig env' = ig \<longrightarrow>
                          fst (tl_membrane_call env' s2 diff_var' chunk_size') = s2
                          \<and> prepare env' s2 =
                              (s2, bind_exn (gather (state_in_region env') (sd_leconn env'))
                                 (\<lambda>el_u. case describe_deformation env'
                                               (dot_sequences3 env' el_u T ''AB'')
                                               (variable geo 0) of
                                     (mtx_c, c33, mtx_b) \<Rightarrow>
                                       Inr \<lparr>p_mtx_t = T, p_bfg = variable geo 0,
                                            p_geo = Some geo,
                                            p_n_ep = shape3 (variable geo 0),
                                            p_mtx_c = mtx_c, p_c33 = c33,
                                            p_mtx_b = mtx_b\<rparr>))
                          \<and> tl_membrane_call (geometry_from env' g) s2 diff_var' chunk_size'
                              = tl_membrane_call env' s2 diff_var' chunk_size'
                          \<and> snd (tl_membrane_call env' s2 diff_var' chunk_size') =
                              (case snd (prepare env' s2) of
                                 Inl e \<Rightarrow> ([], finish e)
                               | Inr p \<Rightarrow>
                                   (case get_shape env' diff_var' chunk_size' of
                                      Inl e \<Rightarrow> ([], finish e)
                                    | Inr (shape, mode) \<Rightarrow>
                                        evaluate env' p chunk_size' shape mode))))"
proof -
  define s1 where "s1 = fst (tl_membrane_call env s diff_var chunk_size)"
  have n: "self_mtx_t s (char_fun_ig env) = Some None"
    using assms(1,2) by simp
  note d = describe_membrane_geometry_ok [OF assms(3-8), of "char_fun_ig env" s]
  have e: "s1 = s\<lparr>self_mtx_t := (self_mtx_t s)(ig \<mapsto> Some T),
                   self_membrane_geo := (self_membrane_geo s)(ig \<mapsto> Some geo),
                   self_bfg := (self_bfg s)(ig \<mapsto> Some (variable geo 0))\<rparr>"
    using assms(2) by (simp add: s1_def call_state prepare_fresh [OF n d])
  have s1: "self_mtx_t s1 ig = Some (Some T)" "self_membrane_geo s1 ig = Some (Some geo)"
      "self_bfg s1 ig = Some (Some (variable geo 0))"
    by (simp_all add: e)
  have later: "self_mtx_t (run_calls calls s1) ig = Some (Some T)
        \<and> self_membrane_geo (run_calls calls s1) ig = Some (Some geo)
        \<and> self_bfg (run_calls calls s1) ig = Some (Some (variable geo 0))
        \<and> (\<forall>(env' :: ('vm, 'ps) env) g diff_var' chunk_size'. char_fun_ig env' = ig \<longrightarrow>
              fst (tl_membrane_call env' (run_calls calls s1) diff_var' chunk_size')
                = run_calls calls s1
              \<and> prepare env' (run_calls calls s1) =
                  (run_calls calls s1,
                   bind_exn (gather (state_in_region env') (sd_leconn env'))
                     (\<lambda>el_u. case describe_deformation env'
                                   (dot_sequences3 env' el_u T ''AB'') (variable geo 0) of
                         (mtx_c, c33, mtx_b) \<Rightarrow>
                           Inr \<lparr>p_mtx_t = T, p_bfg = variable geo 0, p_geo = Some geo,
                                p_n_ep = shape3 (variable geo 0),
                                p_mtx_c = mtx_c, p_c33 = c33, p_mtx_b = mtx_b\<rparr>))
              \<and> tl_membrane_call (geometry_from env' g) (run_calls calls s1)
                    diff_var' chunk_size'
                  = tl_membrane_call env' (run_calls calls s1) diff_var' chunk_size'
              \<and> snd (tl_membrane_call env' (run_calls calls s1) diff_var' chunk_size') =
                  (case snd (prepare env' (run_calls calls s1)) of
                     Inl e \<Rightarrow> ([], finish e)
                   | Inr p \<Rightarrow>
                       (case get_shape env' diff_var' chunk_size' of
                          Inl e \<Rightarrow> ([], finish e)
                        | Inr (shape, mode) \<Rightarrow> evaluate env' p chunk_size' shape mode)))"
    for calls :: "(('vm, 'ps) env \<times> string option \<times> nat option) list"
  proof -
    define s2 where "s2 = run_calls calls s1"
    note k = run_calls_keeps_described [OF s1(1), of calls, folded s2_def]
    have m: "self_mtx_t s2 ig = Some (Some T)" "self_membrane_geo s2 ig = Some (Some geo)"
      "self_bfg s2 ig = Some (Some (variable geo 0))"
      using k s1 by simp_all
    have "fst (tl_membrane_call env' s2 dv cs) = s2
          \<and> prepare env' s2 =
              (s2, bind_exn (gather (state_in_region env') (sd_leconn env'))
                 (\<lambda>el_u. case describe_deformation env'
                               (dot_sequences3 env' el_u T ''AB'') (variable geo 0) of
                     (mtx_c, c33, mtx_b) \<Rightarrow>
                       Inr \<lparr>p_mtx_t = T, p_bfg = variable geo 0, p_geo = Some geo,
                            p_n_ep = shape3 (variable geo 0),
                            p_mtx_c = mtx_c, p_c33 = c33, p_mtx_b = mtx_b\<rparr>))
          \<and> tl_membrane_call (geometry_from env' g) s2 dv cs = tl_membrane_call env' s2 dv cs
          \<and> snd (tl_membrane_call env' s2 dv cs) =
              (case snd (prepare env' s2) of
                 Inl e \<Rightarrow> ([], finish e)
               | Inr p \<Rightarrow>
                   (case get_shape env' dv cs of
                      Inl e \<Rightarrow> ([], finish e)
                    | Inr (shape, mode) \<Rightarrow> evaluate env' p cs shape mode))"
      if "char_fun_ig env' = ig" for env' g :: "('vm, 'ps) env" and dv cs
    proof -
      have c: "self_mtx_t s2 (char_fun_ig env') = Some (Some T)"
        "self_bfg s2 (char_fun_ig env') = Some (Some (variable geo 0))"
        "self_membrane_geo s2 (char_fun_ig env') = Some (Some geo)"
        using m that by simp_all
      have w: "snd (tl_membrane_call env' s2 dv cs) =
              (case snd (prepare env' s2) of
                 Inl e \<Rightarrow> ([], finish e)
               | Inr p \<Rightarrow>
                   (case get_shape env' dv cs of
                      Inl e \<Rightarrow> ([], finish e)
                    | Inr (shape, mode) \<Rightarrow> evaluate env' p cs shape mode))"
        by (simp add: tl_membrane_call_def split: prod.splits sum.splits)
      have "fst (tl_membrane_call env' s2 dv cs) = s2
          \<and> prepare env' s2 =
              (s2, bind_exn (gather (state_in_region env') (sd_leconn env'))
                 (\<lambda>el_u. case describe_deformation env'
                               (dot_sequences3 env' el_u T ''AB'') (variable geo 0) of
                     (mtx_c, c33, mtx_b) \<Rightarrow>
                       Inr \<lparr>p_mtx_t = T, p_bfg = variable geo 0, p_geo = Some geo,
                            p_n_ep = shape3 (variable geo 0),
                            p_mtx_c = mtx_c, p_c33 = c33, p_mtx_b = mtx_b\<rparr>))
          \<and> tl_membrane_call (geometry_from env' g) s2 dv cs = tl_membrane_call env' s2 dv cs"
        using call_geometry_not_read [OF c(1)]
        by (simp add: call_state prepare_cached [OF c(1)] read_prepared_cached [OF c])
      with w show ?thesis by simp
    qed
    then show ?thesis unfolding s2_def [symmetric] using m by simp
  qed
  show ?thesis
    unfolding Let_def s1_def [symmetric]
    by (rule conjI [OF e allI [OF later]])
qed

theorem geometry_described_once_witness:
  "fst (tl_membrane_call example_env (tl_membrane_init [0, 1]) None (Some 1)) = example_state1
   \<and> self_mtx_t example_state1 1 = Some None
   \<and> char_fun_ig (example_env\<lparr>char_fun_ig := 1\<rparr>) = 1
   \<and> gather (field_coors (example_env\<lparr>char_fun_ig := 1\<rparr>))
        (map (take (sg_nFP (example_env\<lparr>char_fun_ig := 1\<rparr>)))
           (sd_econn (example_env\<lparr>char_fun_ig := 1\<rparr>)))
       = Inr [[[0, 0, 0], [1, 0, 0], [0, 1, 0]], [[1, 0, 0], [1, 1, 0], [0, 1, 0]]]
   \<and> create_transformation_matrix (example_env\<lparr>char_fun_ig := 1\<rparr>)
        [[[0, 0, 0], [1, 0, 0], [0, 1, 0]], [[1, 0, 0], [1, 1, 0], [0, 1, 0]]]
       = Some (replicate 2 [[1, 0, 0], [0, 1, 0], [0, 0, 1]])
   \<and> create_mapping (example_env\<lparr>char_fun_ig := 1\<rparr>)
        (dot_sequences3 (example_env\<lparr>char_fun_ig := 1\<rparr>)
           (sub_first [[[0, 0, 0], [1, 0, 0], [0, 1, 0]], [[1, 0, 0], [1, 1, 0], [0, 1, 0]]])
           (replicate 2 [[1, 0, 0], [0, 1, 0], [0, 0, 1]]) ''AB'')
        (field_surface_facet (example_env\<lparr>char_fun_ig := 1\<rparr>)) 1 = Some ()
   \<and> get_qp (example_env\<lparr>char_fun_ig := 1\<rparr>)
        (field_surface_facet (example_env\<lparr>char_fun_ig := 1\<rparr>))
       = Some ([[1 / 3, 1 / 3]], [1 / 2])
   \<and> any_from_args (example_env\<lparr>char_fun_ig := 1\<rparr>)
        (field_surface_facet (example_env\<lparr>char_fun_ig := 1\<rparr>))
        (field_approx_order (example_env\<lparr>char_fun_ig := 1\<rparr>)) = Some ()
   \<and> get_mapping (example_env\<lparr>char_fun_ig := 1\<rparr>) () ([[1 / 3, 1 / 3]], [1 / 2]) ()
       = Some example_geo
   \<and> fst (tl_membrane_call (example_env\<lparr>char_fun_ig := 1\<rparr>) example_state1 None (Some 1))
       = \<lparr>self_mtx_t = [0 \<mapsto> Some (replicate 2 [[1, 0, 0], [0, 1, 0], [0, 0, 1]]),
                        1 \<mapsto> Some (replicate 2 [[1, 0, 0], [0, 1, 0], [0, 0, 1]])],
          self_membrane_geo = [0 \<mapsto> Some example_geo, 1 \<mapsto> Some example_geo],
          self_bfg = [0 \<mapsto> Some (replicate 2 [[[- 1, 1, 0], [- 1, 0, 1]]]),
                      1 \<mapsto> Some (replicate 2 [[[- 1, 1, 0], [- 1, 0, 1]]])]\<rparr>
   \<and> (\<forall>calls :: ((unit, unit) env \<times> string option \<times> nat option) list.
         self_mtx_t (run_calls calls
             (fst (tl_membrane_call (example_env\<lparr>char_fun_ig := 1\<rparr>) example_state1
                     None (Some 1)))) 1
           = Some (Some (replicate 2 [[1, 0, 0], [0, 1, 0], [0, 0, 1]])))
   \<and> char_fun_ig (example_env\<lparr>char_fun_ig := 1, term_mode := Some ''stress''\<rparr>) = 1
   \<and> fst (tl_membrane_call (example_env\<lparr>char_fun_ig := 1, term_mode := Some ''stress''\<rparr>)
            (fst (tl_membrane_call (example_env\<lparr>char_fun_ig := 1\<rparr>) example_state1
                    None (Some 1)))
            (Some ''u'') (Some 2))
       = fst (tl_membrane_call (example_env\<lparr>char_fun_ig := 1\<rparr>) example_state1 None (Some 1))"
proof -
  let ?env = "example_env\<lparr>char_fun_ig := 1\<rparr>"
  let ?calls = "[] :: ((unit, unit) env \<times> string option \<times> nat option) list"
  have h1: "self_mtx_t example_state1 1 = Some None"
    by (simp add: example_state1_def)
  have h2: "char_fun_ig ?env = 1"
    by simp
  have h3: "gather (field_coors ?env) (map (take (sg_nFP ?env)) (sd_econn ?env))
     = Inr [[[0, 0, 0], [1, 0, 0], [0, 1, 0]], [[1, 0, 0], [1, 1, 0], [0, 1, 0]]]"
    using example_coors by (simp add: example_env_def)
  have h4: "create_transformation_matrix ?env
             [[[0, 0, 0], [1, 0, 0], [0, 1, 0]], [[1, 0, 0], [1, 1, 0], [0, 1, 0]]]
           = Some (replicate 2 [[1, 0, 0], [0, 1, 0], [0, 0, 1]])"
    by (simp add: example_env_def numeral_2_eq_2)
  have h5: "create_mapping ?env x (field_surface_facet ?env) 1 = Some ()" for x
    by (simp add: example_env_def)
  have h6: "get_qp ?env (field_surface_facet ?env) = Some ([[1 / 3, 1 / 3]], [1 / 2])"
    by (simp add: example_env_def)
  have h7: "any_from_args ?env (field_surface_facet ?env) (field_approx_order ?env) = Some ()"
    by (simp add: example_env_def)
  have h8: "get_mapping ?env () ([[1 / 3, 1 / 3]], [1 / 2]) () = Some example_geo"
    by (simp add: example_env_def)
  have v: "variable example_geo 0 = replicate 2 [[[- 1, 1, 0], [- 1, 0, 1]]]"
    by (simp add: example_geo_def)
  have g: "char_fun_ig (example_env\<lparr>char_fun_ig := 1, term_mode := Some ''stress''\<rparr>) = 1"
    by simp
  note t = geometry_described_once [OF h1 h2 h3 h4 h5 h6 h7 h8, of None "Some 1",
      unfolded Let_def v]
  have a: "fst (tl_membrane_call ?env example_state1 None (Some 1))
       = \<lparr>self_mtx_t = [0 \<mapsto> Some (replicate 2 [[1, 0, 0], [0, 1, 0], [0, 0, 1]]),
                        1 \<mapsto> Some (replicate 2 [[1, 0, 0], [0, 1, 0], [0, 0, 1]])],
          self_membrane_geo = [0 \<mapsto> Some example_geo, 1 \<mapsto> Some example_geo],
          self_bfg = [0 \<mapsto> Some (replicate 2 [[[- 1, 1, 0], [- 1, 0, 1]]]),
                      1 \<mapsto> Some (replicate 2 [[[- 1, 1, 0], [- 1, 0, 1]]])]\<rparr>"
    unfolding t [THEN conjunct1] by (simp add: example_state1_def)
  have r: "self_mtx_t (run_calls calls (fst (tl_membrane_call ?env example_state1
                     None (Some 1)))) 1
           = Some (Some (replicate 2 [[1, 0, 0], [0, 1, 0], [0, 0, 1]]))"
    for calls :: "((unit, unit) env \<times> string option \<times> nat option) list"
    by (rule t [THEN conjunct2, THEN spec, THEN conjunct1])
  have "fst (tl_membrane_call (example_env\<lparr>char_fun_ig := 1, term_mode := Some ''stress''\<rparr>)
            (run_calls ?calls (fst (tl_membrane_call ?env example_state1 None (Some 1))))
            (Some ''u'') (Some 2))
       = run_calls ?calls (fst (tl_membrane_call ?env example_state1 None (Some 1)))"
    by (rule t [THEN conjunct2, THEN spec, THEN conjunct2, THEN conjunct2, THEN conjunct2,
          rule_format, OF g, THEN conjunct1])
  then have l: "fst (tl_membrane_call
            (example_env\<lparr>char_fun_ig := 1, term_mode := Some ''stress''\<rparr>)
            (fst (tl_membrane_call ?env example_state1 None (Some 1)))
            (Some ''u'') (Some 2))
       = fst (tl_membrane_call ?env example_state1 None (Some 1))"
    by simp
  show ?thesis
    by (intro conjI allI example_first_group h1 h2 h3 h4 h5 h6 h7 h8 a r g l)
qed

text \<open>
  Claim C9. In the modes \<^verbatim>\<open>'strain'\<close> and \<^verbatim>\<open>'stress'\<close>, a call whose steps raise nothing
  hands out exactly one tuple, after the chunk loop, and the tuple is the one that the
  body of the loop leaves at the last chunk, whatever the number of chunks before it.
\<close>

theorem postprocessing_yields_last_chunk:
  assumes "snd (prepare env s) = Inr p" "s_data_shape env = (n_el, n_qp, 3, n_ep)"
    and "diff_var = None \<or> diff_var = Some (state_arg_name env)"
    and "term_mode env = Some ''strain'' \<or> term_mode env = Some ''stress''"
    and "postproc_qp env p = Inr out_qp"
    and "char_fun env chunk_size (chunk_size, 1, shape2 out_qp, shape3 out_qp)
           = chunks @ [(out, chunk)]"
    and "\<forall>c \<in> set chunks. \<exists>y. postproc_chunk env p out_qp c = Inr y"
    and "postproc_chunk env p out_qp (out, chunk) = Inr y"
  shows "snd (tl_membrane_call env s diff_var chunk_size) = ([y], Exhausted)
         \<and> fst (snd y) = chunk"
proof -
  obtain sh mode where g: "get_shape env diff_var chunk_size = Inr (sh, mode)"
    using assms(3) get_shape_simps(2,3) [OF assms(2)] by auto
  show ?thesis
    using call_evaluate [OF assms(1) g] evaluate_postproc [OF assms(4,5,6,7,8)]
      postproc_chunk_chunk [OF assms(8)] by simp
qed

theorem postprocessing_yields_last_chunk_witness:
  "(\<exists>p. snd (prepare (example_env\<lparr>term_mode := Some ''stress''\<rparr>) (tl_membrane_init [0]))
          = Inr p)
   \<and> s_data_shape (example_env\<lparr>term_mode := Some ''stress''\<rparr>) = (2, 1, 3, 3)
   \<and> term_mode (example_env\<lparr>term_mode := Some ''stress''\<rparr>) = Some ''stress''
   \<and> char_fun (example_env\<lparr>term_mode := Some ''stress''\<rparr>) (Some 1) (Some 1, 1, 6, 1)
       = [(example_buffer 1 (Some 1, 1, 6, 1), [0])] @ [(example_buffer 1 (Some 1, 1, 6, 1), [1])]
   \<and> snd (tl_membrane_call (example_env\<lparr>term_mode := Some ''stress''\<rparr>)
            (tl_membrane_init [0]) None (Some 1))
       = ([([[[[0], [0], [0], [0], [0], [0]]]], [1], 0)], Exhausted)"
proof -
  let ?env = "example_env\<lparr>term_mode := Some ''stress''\<rparr>"
  let ?qp = "replicate 2 [[[0], [0], [0], [0], [0], [0::real]]]"
  obtain s b where "prepare ?env (tl_membrane_init [0]) =
     (s, Inr \<lparr>p_mtx_t = replicate 2 [[1, 0, 0], [0, 1, 0], [0, 0, 1]],
              p_bfg = replicate 2 [[[- 1, 1, 0], [- 1, 0, 1]]],
              p_geo = Some example_geo, p_n_ep = 3,
              p_mtx_c = replicate 2 [[[1, 0], [0, 1]]], p_c33 = replicate 2 [1],
              p_mtx_b = b\<rparr>)"
    using example_prepare [of "Some ''stress''"] by blast
  then obtain p where p: "snd (prepare ?env (tl_membrane_init [0])) = Inr p"
    and f: "p_geo p = Some example_geo" "p_mtx_c p = replicate 2 [[[1, 0], [0, 1]]]"
      "p_c33 p = replicate 2 [1]"
    by simp
  have h: "s_data_shape ?env = (2, 1, 3, 3)" "None = None \<or> None = Some (state_arg_name ?env)"
    "term_mode ?env = Some ''strain'' \<or> term_mode ?env = Some ''stress''"
    by (simp_all add: example_env_def)
  note q = example_postproc_qp [OF f(2,3)]
  have sh: "shape2 ?qp = 6" "shape3 ?qp = 1"
    by (simp_all add: shape2_def shape3_def replicate_values)
  have c: "char_fun ?env (Some 1) (Some 1, 1, shape2 ?qp, shape3 ?qp)
           = [(example_buffer 1 (Some 1, 1, 6, 1), [0])]
             @ [(example_buffer 1 (Some 1, 1, 6, 1), [1])]"
    unfolding sh by (rule example_char_fun_stress(1))
  have a: "\<forall>c \<in> set [(example_buffer 1 (Some 1, 1, 6, 1), [0::nat])].
             \<exists>y. postproc_chunk ?env p ?qp c = Inr y"
    by (simp add: example_postproc_chunk [OF f(1)])
  have l: "postproc_chunk ?env p ?qp (example_buffer 1 (Some 1, 1, 6, 1), [1])
           = Inr ([[[[0], [0], [0], [0], [0], [0]]]], [1], 0)"
    by (simp add: example_postproc_chunk [OF f(1)])
  have r: "snd (tl_membrane_call ?env (tl_membrane_init [0]) None (Some 1))
           = ([([[[[0], [0], [0], [0], [0], [0]]]], [1], 0)], Exhausted)"
    using postprocessing_yields_last_chunk [OF p h q c a l] by (rule conjunct1)
  have m: "term_mode ?env = Some ''stress''" by simp
  show ?thesis
    by (intro conjI exI [of _ p] p h(1) m c [unfolded sh] r)
qed

text \<open>
  Claim C5 fails in the post-processing modes. On the example mesh of two elements in
  the mode \<^verbatim>\<open>'stress'\<close>, chunks of one element give a single result for the chunk
  \<open>[1]\<close>, so that element 0 is in no result, while one chunk of two elements gives
  the result for \<open>[0, 1]\<close>.
\<close>

theorem postprocessing_drops_chunks:
  "map (\<lambda>y. fst (snd y))
     (fst (snd (tl_membrane_call (example_env\<lparr>term_mode := Some ''stress''\<rparr>)
                  (tl_membrane_init [0]) None (Some 1)))) = [[1]]
   \<and> map (\<lambda>y. fst (snd y))
     (fst (snd (tl_membrane_call (example_env\<lparr>term_mode := Some ''stress''\<rparr>)
                  (tl_membrane_init [0]) None (Some 2)))) = [[0, 1]]"
  using example_stress_call [of "Some 1" "[1]"] example_stress_call [of "Some 2" "[0, 1]"]
  by simp


end
